(* ===== verification/Prelude.thy ===== *)
theory Prelude
  imports Main "HOL-Library.Word" "HOL-Library.Mapping" "HOL-Library.AList_Mapping"
    "HOL-Library.List_Lexorder"
    "HOL-Library.Char_ord" "HOL-Library.Sublist"
begin

text \<open>
  Shared vocabulary of the development: the types that name the model's data (bytes,
  object keys, MIME types), the collections of rewrite rules the component theories
  feed, and generic facts on lists of characters that several components use.
\<close>

section \<open>Names for the model's types\<close>

type_synonym byte = "8 word"
type_synonym bytes = "byte list"
type_synonym key = string
type_synonym mime = string

section \<open>Rule collections\<close>

named_theorems js_simps
  "equations that evaluate the modelled JavaScript and Node.js built-ins"
named_theorems handler_simps
  "definitions of the request handlers, unfolded together when a handler is run"

section \<open>Generic facts on character lists\<close>

lemma not_in_set_map_replace:
  assumes "b \<noteq> a"
  shows "a \<notin> set (map (\<lambda>c. if c = a then b else c) xs)"
  using assms by (induction xs) auto

lemma length_takeWhile_less_if:
  "\<exists>x\<in>set xs. \<not> P x \<Longrightarrow> length (takeWhile P xs) < length xs"
  by (induction xs) auto

lemma collect_insert_conj:
  "{k \<in> insert x A. P k} = (if P x then insert x {k \<in> A. P k} else {k \<in> A. P k})"
  by auto

lemma prefix_append_same [simp]: "prefix xs (xs @ ys)"
  by simp

end
