(* ===== verification/JsRuntime.thy ===== *)
theory JsRuntime
  imports Prelude
begin

text \<open>
  The JavaScript and Node.js built-ins that src/server.js calls, modelled from their
  specifications (ECMAScript, Node's lib/path.js): truthiness and \<open>||\<close> on request
  parameters, \<open>toString\<close>, the string methods and regular expressions the handlers
  use, and \<open>path.extname\<close> as the index loop Node runs. Characters are bytes: the
  model is exact on ASCII text, which is what the handlers compare against.
\<close>

section \<open>Request parameter values\<close>

text \<open>
  A query or multipart field value as Express (qs) and multer hand it to the handler:
  a string, an array (a repeated or bracketed name) or an object (\<open>a[b]=c\<close>).
\<close>

datatype param = PStr string | PArr "param list" | PObj

fun js_truthy :: "param option \<Rightarrow> bool" where
  "js_truthy None = False"
| "js_truthy (Some (PStr s)) = (s \<noteq> [])"
| "js_truthy (Some (PArr _)) = True"
| "js_truthy (Some PObj) = True"

definition js_or :: "param option \<Rightarrow> param option \<Rightarrow> param option" where
  "js_or a b = (if js_truthy a then a else b)"

text \<open>\<open>a || b\<close> where \<open>b\<close> is a value that is always there.\<close>

definition js_or_else :: "param option \<Rightarrow> param \<Rightarrow> param" where
  "js_or_else a b = (case a of Some v \<Rightarrow> if js_truthy a then v else b | None \<Rightarrow> b)"

text \<open>\<open>Array.prototype.join\<close>: the elements separated by \<open>sep\<close>.\<close>

fun js_join :: "string \<Rightarrow> string list \<Rightarrow> string" where
  "js_join sep [] = []"
| "js_join sep [x] = x"
| "js_join sep (x # xs) = x @ sep @ js_join sep xs"

text \<open>\<open>String(v)\<close>: an array is joined with commas, an object prints as its tag.\<close>

fun js_to_string :: "param \<Rightarrow> string" where
  "js_to_string (PStr s) = s"
| "js_to_string (PArr xs) = js_join '','' (map js_to_string xs)"
| "js_to_string PObj = ''[object Object]''"

section \<open>String methods and regular expressions\<close>

definition ascii_lower :: "char \<Rightarrow> char" where
  "ascii_lower c =
     (if CHR ''A'' \<le> c \<and> c \<le> CHR ''Z'' then char_of (of_char c + (32::nat)) else c)"

definition js_to_lower_case :: "string \<Rightarrow> string" where
  "js_to_lower_case s = map ascii_lower s"

text \<open>\<open>s.replace(/\//g, '-')\<close>\<close>

definition replace_slashes :: "string \<Rightarrow> string" where
  "replace_slashes s = map (\<lambda>c. if c = CHR ''/'' then CHR ''-'' else c) s"

text \<open>\<open>s.replace(/\/$/, '')\<close>: without the \<open>m\<close> flag \<open>$\<close> matches at the end only.\<close>

definition strip_trailing_slash :: "string \<Rightarrow> string" where
  "strip_trailing_slash s = (if s \<noteq> [] \<and> last s = CHR ''/'' then butlast s else s)"

text \<open>\<open>s.includes(t)\<close>\<close>

definition js_includes :: "string \<Rightarrow> string \<Rightarrow> bool" where
  "js_includes s t = list_ex (prefix t) (suffixes s)"

declare ascii_lower_def [js_simps] js_to_lower_case_def [js_simps] replace_slashes_def [js_simps]
  strip_trailing_slash_def [js_simps] js_includes_def [js_simps] js_or_def [js_simps] js_or_else_def [js_simps]
  char_of_eq_iff [js_simps]

section \<open>Lemmas on the string built-ins\<close>

lemma of_char_ascii_lower:
  "(of_char (ascii_lower c) :: nat) =
     (if 65 \<le> (of_char c :: nat) \<and> (of_char c :: nat) \<le> 90 then of_char c + 32 else of_char c)"
proof -
  have "(of_char c :: nat) \<le> 90 \<Longrightarrow> (of_char c + 32) mod 256 = (of_char c + 32 :: nat)"
    by simp
  then show ?thesis by (auto simp: ascii_lower_def less_eq_char_def)
qed

text \<open>A character that is not an ASCII letter is the lower-case image of itself only.\<close>

lemma ascii_lower_eq_nonletter:
  assumes "\<not> (65 \<le> (of_char x :: nat) \<and> (of_char x :: nat) \<le> 90)"
    and "\<not> (97 \<le> (of_char x :: nat) \<and> (of_char x :: nat) \<le> 122)"
  shows "(ascii_lower c = x) = (c = x)"
proof -
  have "(ascii_lower c = x) = ((of_char (ascii_lower c) :: nat) = of_char x)"
    by (simp only: of_char_eq_iff)
  also have "\<dots> = ((of_char c :: nat) = of_char x)"
    using assms by (auto simp: of_char_ascii_lower)
  finally show ?thesis by (simp only: of_char_eq_iff)
qed

lemma ascii_lower_dot [simp]: "(ascii_lower c = CHR ''.'') = (c = CHR ''.'')"
  by (rule ascii_lower_eq_nonletter) simp_all

lemma ascii_lower_slash [simp]: "(ascii_lower c = CHR ''/'') = (c = CHR ''/'')"
  by (rule ascii_lower_eq_nonletter) simp_all

lemma ascii_lower_dot' [simp]: "(CHR ''.'' = ascii_lower c) = (c = CHR ''.'')"
  by (metis ascii_lower_dot)

lemma ascii_lower_slash' [simp]: "(CHR ''/'' = ascii_lower c) = (c = CHR ''/'')"
  by (metis ascii_lower_slash)

lemma dot_in_lower [simp]: "(CHR ''.'' \<in> set (js_to_lower_case s)) = (CHR ''.'' \<in> set s)"
  by (auto simp: js_to_lower_case_def image_iff)

lemma slash_in_lower [simp]: "(CHR ''/'' \<in> set (js_to_lower_case s)) = (CHR ''/'' \<in> set s)"
  by (auto simp: js_to_lower_case_def image_iff)

lemma js_to_lower_case_Cons [simp]:
  "js_to_lower_case (c # s) = ascii_lower c # js_to_lower_case s"
  by (simp add: js_to_lower_case_def)

lemma js_to_lower_case_Nil [simp]: "js_to_lower_case [] = []"
  by (simp add: js_to_lower_case_def)

lemma replace_slashes_no_slash [simp]: "CHR ''/'' \<notin> set (replace_slashes s)"
  by (induction s) (auto simp: replace_slashes_def)

lemma replace_slashes_id: "CHR ''/'' \<notin> set s \<Longrightarrow> replace_slashes s = s"
  by (induction s) (auto simp: replace_slashes_def)

end
