(* ===== verification/NodePath.thy ===== *)
theory NodePath
  imports JsRuntime
begin

text \<open>
  Node's \<open>path.extname\<close> (posix), which src/server.js uses both in the upload filter and
  to build the object key. The model is the index loop of lib/path.js; a declarative
  reference (the last path component, cut at its last dot) is proved equal to it, and
  the facts the key derivation needs follow from the reference.
\<close>

section \<open>The loop of lib/path.js\<close>

text \<open>
  The loop of \<open>posix.extname\<close> in Node's lib/path.js: it scans from the last character
  towards the first, skipping trailing slashes, records where the last component ends,
  where its last dot is and what precedes that dot, and stops at the slash before the
  last component.
\<close>

record extname_state =
  start_dot :: int
  start_part :: nat
  end_pos :: int
  matched_slash :: bool
  pre_dot_state :: int

definition extname_init :: extname_state where
  "extname_init = \<lparr>start_dot = -1, start_part = 0, end_pos = -1, matched_slash = True,
     pre_dot_state = 0\<rparr>"

text \<open>One iteration on a character that is not a slash.\<close>

definition extname_visit :: "char \<Rightarrow> nat \<Rightarrow> extname_state \<Rightarrow> extname_state" where
  "extname_visit c i st =
     (let st1 = (if end_pos st = -1
                 then st\<lparr>matched_slash := False, end_pos := int (Suc i)\<rparr> else st)
      in if c = CHR ''.'' then
           (if start_dot st1 = -1 then st1\<lparr>start_dot := int i\<rparr>
            else if pre_dot_state st1 \<noteq> 1 then st1\<lparr>pre_dot_state := 1\<rparr> else st1)
         else (if start_dot st1 \<noteq> -1 then st1\<lparr>pre_dot_state := -1\<rparr> else st1))"

fun extname_loop :: "string \<Rightarrow> nat \<Rightarrow> extname_state \<Rightarrow> extname_state" where
  "extname_loop p 0 st = st"
| "extname_loop p (Suc i) st =
     (if p ! i = CHR ''/'' then
        (if \<not> matched_slash st then st\<lparr>start_part := Suc i\<rparr> else extname_loop p i st)
      else extname_loop p i (extname_visit (p ! i) i st))"

definition node_extname :: "string \<Rightarrow> string" where
  "node_extname p =
     (let st = extname_loop p (length p) extname_init in
      if start_dot st = -1 \<or> end_pos st = -1 \<or> pre_dot_state st = 0 \<or>
         (pre_dot_state st = 1 \<and> start_dot st = end_pos st - 1 \<and>
          start_dot st = int (start_part st) + 1)
      then []
      else take (nat (end_pos st - start_dot st)) (drop (nat (start_dot st)) p))"

declare extname_init_def [js_simps] extname_visit_def [js_simps] node_extname_def [js_simps]

section \<open>A declarative reference\<close>

text \<open>
  The extension is read off the last path component (trailing slashes ignored): from its
  last dot to its end, unless that dot is the component's first character or the
  component is \<open>..\<close>.
\<close>

definition last_component :: "string \<Rightarrow> string" where
  "last_component p =
     rev (takeWhile (\<lambda>c. c \<noteq> CHR ''/'') (dropWhile (\<lambda>c. c = CHR ''/'') (rev p)))"

definition component_ext :: "string \<Rightarrow> string" where
  "component_ext c =
     (let r = rev c; stem = tl (dropWhile (\<lambda>x. x \<noteq> CHR ''.'') r) in
      if c = ''..'' \<or> CHR ''.'' \<notin> set c \<or> stem = [] then []
      else CHR ''.'' # rev (takeWhile (\<lambda>x. x \<noteq> CHR ''.'') r))"

definition extname_spec :: "string \<Rightarrow> string" where
  "extname_spec p = component_ext (last_component p)"

section \<open>The loop against the reference\<close>

text \<open>
  After the loop has visited the positions from \<open>i\<close> upwards, its state is a function
  of the visited text with its trailing slashes removed (\<open>scanned\<close>), as long as that
  text holds no slash: \<open>scan_state\<close> gives it. The loop stops at the slash that
  precedes the last component, whose position is \<open>component_start\<close>.
\<close>

definition scanned :: "string \<Rightarrow> nat \<Rightarrow> string" where
  "scanned p i = dropWhile (\<lambda>c. c = CHR ''/'') (rev (drop i p))"

definition scan_state :: "nat \<Rightarrow> string \<Rightarrow> extname_state" where
  "scan_state i r =
     (if r = [] then extname_init
      else \<lparr>start_dot = (if CHR ''.'' \<in> set r
                        then int (i + (length r - 1 - length (takeWhile (\<lambda>c. c \<noteq> CHR ''.'') r)))
                        else -1),
            start_part = 0, end_pos = int (i + length r), matched_slash = False,
            pre_dot_state = (if CHR ''.'' \<in> set r \<and>
                                length (takeWhile (\<lambda>c. c \<noteq> CHR ''.'') r) < length r - 1
                             then (if last r = CHR ''.'' then 1 else -1) else 0)\<rparr>)"

definition component_start :: "string \<Rightarrow> nat" where
  "component_start p =
     length (dropWhile (\<lambda>c. c \<noteq> CHR ''/'') (dropWhile (\<lambda>c. c = CHR ''/'') (rev p)))"

lemma scan_state_Nil [simp]: "scan_state i [] = extname_init"
  by (simp add: scan_state_def)

lemma rev_drop_Suc:
  "i < length p \<Longrightarrow> rev (drop i p) = rev (drop (Suc i) p) @ [p ! i]"
  by (simp add: Cons_nth_drop_Suc [symmetric])

lemma scanned_step:
  assumes "i < length p" "p ! i \<noteq> CHR ''/''"
  shows "scanned p i = scanned p (Suc i) @ [p ! i]"
  using assms by (auto simp: scanned_def rev_drop_Suc dropWhile_append)

lemma scanned_slash_empty:
  assumes "i < length p" "p ! i = CHR ''/''" "scanned p (Suc i) = []"
  shows "scanned p i = []"
  using assms by (auto simp: scanned_def rev_drop_Suc dropWhile_append)

lemma scan_state_step:
  assumes nb: "CHR ''/'' \<notin> set r" and x: "x \<noteq> CHR ''/''"
  shows "extname_visit x i (scan_state (Suc i) r) = scan_state i (r @ [x])"
proof (cases "r = []")
  case True
  then show ?thesis by (simp add: scan_state_def extname_init_def extname_visit_def)
next
  case False
  show ?thesis
  proof (cases "CHR ''.'' \<in> set r")
    case True
    let ?t = "length (takeWhile (\<lambda>c. c \<noteq> CHR ''.'') r)"
    have tw: "?t < length r"
      using True by (intro length_takeWhile_less_if) auto
    have tw': "takeWhile (\<lambda>c. c \<noteq> CHR ''.'') (r @ [x]) = takeWhile (\<lambda>c. c \<noteq> CHR ''.'') r"
      by (rule takeWhile_append1 [OF True]) simp
    have pos: "i + (length (r @ [x]) - 1 - ?t) = Suc i + (length r - 1 - ?t)"
      using tw by simp
    show ?thesis
      using False True tw
      by (simp only: scan_state_def extname_visit_def tw' pos Let_def) (simp add: tw)
  next
    case nodot: False
    then have tw: "takeWhile (\<lambda>c. c \<noteq> CHR ''.'') r = r"
      by auto
    show ?thesis
    proof (cases "x = CHR ''.''")
      case True
      with nodot False show ?thesis
        by (simp add: scan_state_def extname_visit_def takeWhile_append tw)
    next
      case xnd: False
      with nodot False x show ?thesis
        by (simp add: scan_state_def extname_visit_def takeWhile_append tw)
    qed
  qed
qed

lemma rev_split_at:
  "i < length p \<Longrightarrow> rev p = rev (drop (Suc i) p) @ p ! i # rev (take i p)"
proof -
  assume "i < length p"
  then have "p = take i p @ p ! i # drop (Suc i) p" by (simp add: id_take_nth_drop)
  then show ?thesis by (metis rev.simps(2) rev_append append.assoc append_Cons append_Nil)
qed

lemma component_start_at_slash:
  assumes i: "i < length p" and sl: "p ! i = CHR ''/''"
    and ne: "scanned p (Suc i) \<noteq> []" and nb: "CHR ''/'' \<notin> set (scanned p (Suc i))"
  shows "component_start p = Suc i"
proof -
  have "\<exists>x\<in>set (rev (drop (Suc i) p)). x \<noteq> CHR ''/''"
    using ne by (auto simp: scanned_def)
  then have "dropWhile (\<lambda>c. c = CHR ''/'') (rev p) =
      scanned p (Suc i) @ CHR ''/'' # rev (take i p)"
    using i sl by (auto simp: rev_split_at scanned_def dropWhile_append)
  with nb i show ?thesis
    by (simp add: component_start_def dropWhile_append)
qed

lemma extname_loop_scan:
  "i \<le> length p \<Longrightarrow> CHR ''/'' \<notin> set (scanned p i) \<Longrightarrow>
   extname_loop p i (scan_state i (scanned p i)) =
   (scan_state (component_start p) (scanned p (component_start p)))
     \<lparr>start_part := component_start p\<rparr>"
proof (induction i)
  case 0
  then have "component_start p = 0"
    by (auto simp: component_start_def scanned_def dropWhile_eq_Nil_conv)
  then show ?case by (simp add: scan_state_def extname_init_def)
next
  case (Suc i)
  then have i: "i < length p" by simp
  show ?case
  proof (cases "p ! i = CHR ''/''")
    case sl: True
    show ?thesis
    proof (cases "scanned p (Suc i) = []")
      case True
      with i sl have "scanned p i = []" by (rule scanned_slash_empty)
      with Suc.IH i True sl show ?thesis by (simp add: extname_init_def)
    next
      case False
      have "component_start p = Suc i"
        by (rule component_start_at_slash [OF i sl False Suc.prems(2)])
      with False sl show ?thesis by (simp add: scan_state_def)
    qed
  next
    case nsl: False
    with i have sc: "scanned p i = scanned p (Suc i) @ [p ! i]" by (rule scanned_step)
    with Suc.prems have nb: "CHR ''/'' \<notin> set (scanned p (Suc i))" by simp
    from sc Suc.prems nsl have "CHR ''/'' \<notin> set (scanned p i)" by simp
    with Suc.IH i have IH: "extname_loop p i (scan_state i (scanned p i)) =
       (scan_state (component_start p) (scanned p (component_start p)))
         \<lparr>start_part := component_start p\<rparr>" by simp
    have "extname_loop p (Suc i) (scan_state (Suc i) (scanned p (Suc i))) =
          extname_loop p i (scan_state i (scanned p (Suc i) @ [p ! i]))"
      using scan_state_step [OF nb nsl, of i] nsl by simp
    with IH sc show ?thesis by simp
  qed
qed

lemma component_start_split:
  fixes p :: string
  defines "C \<equiv> takeWhile (\<lambda>c. c \<noteq> CHR ''/'') (dropWhile (\<lambda>c. c = CHR ''/'') (rev p))"
    and "S \<equiv> takeWhile (\<lambda>c. c = CHR ''/'') (rev p)"
  shows "drop (component_start p) p = rev C @ rev S"
    and "scanned p (component_start p) = C"
proof -
  define D where "D = dropWhile (\<lambda>c. c \<noteq> CHR ''/'') (dropWhile (\<lambda>c. c = CHR ''/'') (rev p))"
  have "rev p = S @ C @ D" by (simp add: S_def C_def D_def)
  then have p: "p = rev D @ rev C @ rev S" by (metis rev_append rev_rev_ident append.assoc)
  have j: "component_start p = length (rev D)" by (simp add: component_start_def D_def)
  show dr: "drop (component_start p) p = rev C @ rev S"
    by (subst (2) p) (simp add: j)
  have "\<forall>c\<in>set S. c = CHR ''/''" by (auto simp: S_def dest: set_takeWhileD)
  moreover have "\<forall>c\<in>set C. c \<noteq> CHR ''/''" by (auto simp: C_def dest: set_takeWhileD)
  then have "dropWhile (\<lambda>c. c = CHR ''/'') C = C" by (cases C) auto
  ultimately show "scanned p (component_start p) = C"
    by (simp add: scanned_def dr dropWhile_append)
qed

theorem node_extname_eq_spec: "node_extname p = extname_spec p"
proof -
  define C where "C = takeWhile (\<lambda>c. c \<noteq> CHR ''/'') (dropWhile (\<lambda>c. c = CHR ''/'') (rev p))"
  define S where "S = takeWhile (\<lambda>c. c = CHR ''/'') (rev p)"
  define j where "j = component_start p"
  have sc: "scanned p j = C" unfolding j_def C_def by (rule component_start_split(2))
  have nil: "scanned p (length p) = []" by (simp add: scanned_def)
  have "extname_loop p (length p) (scan_state (length p) (scanned p (length p))) =
        (scan_state j (scanned p j))\<lparr>start_part := j\<rparr>"
    unfolding j_def by (rule extname_loop_scan) (simp_all add: nil)
  then have loop: "extname_loop p (length p) extname_init = (scan_state j C)\<lparr>start_part := j\<rparr>"
    by (simp only: sc nil scan_state_Nil)
  have dr: "drop j p = rev C @ rev S"
    unfolding j_def C_def S_def by (rule component_start_split(1))
  have lc: "last_component p = rev C" by (simp add: last_component_def C_def)
  show ?thesis
  proof (cases "CHR ''.'' \<in> set C")
    case False
    have "node_extname p = []"
      using False by (simp add: node_extname_def loop) (simp add: scan_state_def extname_init_def)
    with False show ?thesis by (simp add: extname_spec_def lc component_ext_def)
  next
    case True
    then obtain A B where C: "C = A @ CHR ''.'' # B" and A: "CHR ''.'' \<notin> set A"
      by (auto dest: split_list_first)
    have twA: "takeWhile (\<lambda>c. c \<noteq> CHR ''.'') (A @ CHR ''.'' # B) = A"
      using A by (simp add: takeWhile_append)
    have dwA: "dropWhile (\<lambda>c. c \<noteq> CHR ''.'') (A @ CHR ''.'' # B) = CHR ''.'' # B"
      using A by (simp add: dropWhile_append)
    have slice: "take (Suc (length A)) (drop (length B) (drop j p)) = CHR ''.'' # rev A"
      by (simp add: dr C)
    have dd: "drop (j + length B) p = drop (length B) (drop j p)" by (simp add: add.commute)
    have dots: "(rev B @ CHR ''.'' # rev A = ''..'') = (A = [] \<and> B = [CHR ''.''])"
      using A by (cases A; cases B) auto
    show ?thesis
    proof (cases "B = []")
      case True
      with A show ?thesis
        by (simp add: node_extname_def loop extname_spec_def lc component_ext_def
            scan_state_def C takeWhile_append dropWhile_append)
    next
      case Bne: False
      have st: "scan_state j C =
          \<lparr>start_dot = int (j + length B), start_part = 0,
           end_pos = int (j + Suc (length A + length B)), matched_slash = False,
           pre_dot_state = (if last B = CHR ''.'' then 1 else -1)\<rparr>"
        using Bne twA by (simp add: scan_state_def C)
      have e1: "nat (int j + int (length B)) = j + length B" by simp
      have e2: "nat (int (Suc (j + (length A + length B))) - (int j + int (length B))) =
          Suc (length A)" by simp
      have e3: "(int j + int (length B) = int (Suc (j + (length A + length B))) - 1) = (A = [])"
        by simp
      have bd: "(last B = CHR ''.'' \<and> A = [] \<and> length B = 1) = (A = [] \<and> B = [CHR ''.''])"
        using Bne by (cases B) auto
      have sl: "take (Suc (length A)) (drop (j + length B) p) = CHR ''.'' # rev A"
        using slice dd by simp
      have "node_extname p =
            (if A = [] \<and> B = [CHR ''.''] then [] else CHR ''.'' # rev A)"
        using bd sl by (auto simp: node_extname_def loop st Let_def e1 e2 e3 nat_add_distrib)
      moreover have "extname_spec p =
            (if A = [] \<and> B = [CHR ''.''] then [] else CHR ''.'' # rev A)"
        using Bne dots by (simp add: extname_spec_def lc component_ext_def twA dwA C)
      ultimately show ?thesis by simp
    qed
  qed
qed

section \<open>Consequences used by the key derivation\<close>

lemma last_component_no_slash: "CHR ''/'' \<notin> set (last_component p)"
  by (auto simp: last_component_def dest: set_takeWhileD)

lemma set_component_ext: "set (component_ext c) \<subseteq> set c"
  by (auto simp: component_ext_def Let_def dest: set_takeWhileD)

lemma node_extname_no_slash: "CHR ''/'' \<notin> set (node_extname p)"
  using set_component_ext [of "last_component p"] last_component_no_slash [of p]
  by (auto simp: node_extname_eq_spec extname_spec_def)

lemma node_extname_dot: "node_extname p = [] \<or> hd (node_extname p) = CHR ''.''"
  by (simp add: node_extname_eq_spec extname_spec_def component_ext_def Let_def)

lemma last_component_append_name:
  assumes "r \<noteq> []" "CHR ''/'' \<notin> set r" "b \<noteq> []" "last b \<noteq> CHR ''/''"
  shows "last_component (b @ CHR ''.'' # r) =
           rev (takeWhile (\<lambda>c. c \<noteq> CHR ''/'') (rev b)) @ CHR ''.'' # r"
    and "takeWhile (\<lambda>c. c \<noteq> CHR ''/'') (rev b) \<noteq> []"
proof -
  have "hd (rev r) \<noteq> CHR ''/''" using assms(2) last_in_set [OF assms(1)] by (auto simp: hd_rev)
  then have "dropWhile (\<lambda>c. c = CHR ''/'') (rev r @ CHR ''.'' # rev b) = rev r @ CHR ''.'' # rev b"
    using assms(1) by (cases "rev r") auto
  then show "last_component (b @ CHR ''.'' # r) =
           rev (takeWhile (\<lambda>c. c \<noteq> CHR ''/'') (rev b)) @ CHR ''.'' # r"
    using assms(2) by (simp add: last_component_def takeWhile_append)
  show "takeWhile (\<lambda>c. c \<noteq> CHR ''/'') (rev b) \<noteq> []"
    using assms(3,4) by (cases "rev b") (auto simp: last_rev [symmetric])
qed

text \<open>A name that ends in a dot and a dot-free, slash-free suffix has that extension.\<close>

lemma node_extname_append:
  assumes "r \<noteq> []" "CHR ''.'' \<notin> set r" "CHR ''/'' \<notin> set r" "b \<noteq> []"
    "last b \<noteq> CHR ''/''"
  shows "node_extname (b @ CHR ''.'' # r) = CHR ''.'' # r"
proof -
  define cb where "cb = rev (takeWhile (\<lambda>c. c \<noteq> CHR ''/'') (rev b))"
  have lc: "last_component (b @ CHR ''.'' # r) = cb @ CHR ''.'' # r"
    and cb: "cb \<noteq> []"
    using last_component_append_name [OF assms(1,3,4,5)] by (simp_all add: cb_def)
  have tw: "takeWhile (\<lambda>x. x \<noteq> CHR ''.'') (rev r @ CHR ''.'' # rev cb) = rev r"
    using assms(2) by (simp add: takeWhile_append)
  have dw: "dropWhile (\<lambda>x. x \<noteq> CHR ''.'') (rev r @ CHR ''.'' # rev cb) = CHR ''.'' # rev cb"
    using assms(2) by (simp add: dropWhile_append)
  have "length (cb @ CHR ''.'' # r) \<noteq> 2"
    using cb assms(1) by (cases cb; cases r) auto
  then have nd: "cb @ CHR ''.'' # r \<noteq> ''..''" by (metis length_Cons list.size(3) numeral_2_eq_2)
  show ?thesis
    using cb nd by (simp add: node_extname_eq_spec extname_spec_def lc component_ext_def tw dw)
qed

end
