(* ===== verification/Validator.thy ===== *)
theory Validator
  imports NodePath
begin

text \<open>
  The upload gate of src/server.js (lines 33-51): multer with memory storage, a 5 MiB
  limit on the file and a \<open>fileFilter\<close> that admits a file by its declared MIME type or,
  failing that, by the extension of its original name. \<open>upload.single('file')\<close> runs
  the gate over the parts of the multipart body before the route handler sees the
  request; what it produces is either an error for the error middleware or the
  request body fields and the file.
\<close>

section \<open>The file object and the limits\<close>

text \<open>The file object multer builds for a file part (\<open>req.file\<close>).\<close>

record upload_file =
  fieldname :: string
  originalname :: string
  mimetype :: string
  buffer :: bytes

definition max_file_size :: nat where
  "max_file_size = 5 * 1024 * 1024"

section \<open>Errors raised before the handler\<close>

datatype multer_code = LIMIT_FILE_SIZE | LIMIT_UNEXPECTED_FILE

text \<open>A plain \<open>Error\<close> (the filter's) or a \<open>MulterError\<close> with its code and field.\<close>

datatype js_error = Error string | MulterError multer_code string

fun error_message :: "js_error \<Rightarrow> string" where
  "error_message (Error m) = m"
| "error_message (MulterError LIMIT_FILE_SIZE _) = ''File too large''"
| "error_message (MulterError LIMIT_UNEXPECTED_FILE _) = ''Unexpected field''"

definition only_images_message :: string where
  "only_images_message = ''Only images (.jpeg, .jpg, .png, .gif, .webp) are allowed.''"

section \<open>fileFilter\<close>

text \<open>\<open>/^image\/(jpeg|jpg|pjpeg|png|gif|webp)$/i.test(m)\<close>\<close>

definition allowed_mime :: "string \<Rightarrow> bool" where
  "allowed_mime m =
     (js_to_lower_case m \<in> {''image/jpeg'', ''image/jpg'', ''image/pjpeg'', ''image/png'',
                            ''image/gif'', ''image/webp''})"

definition allowed_ext :: "string list" where
  "allowed_ext = [''.jpg'', ''.jpeg'', ''.png'', ''.gif'', ''.webp'']"

text \<open>
  The callback's two outcomes: \<open>cb(null, true)\<close> is \<open>Inr True\<close>, \<open>cb(err, false)\<close> is
  \<open>Inl err\<close>. \<open>file.originalname || ''\<close> and \<open>extname(..) || ''\<close> leave a string
  unchanged, so they do not appear.
\<close>

definition file_filter :: "upload_file \<Rightarrow> js_error + bool" where
  "file_filter f =
     (if allowed_mime (mimetype f) then Inr True
      else
        (let ext = js_to_lower_case (node_extname (originalname f)) in
         if ext \<in> set allowed_ext then Inr True
         else Inl (Error only_images_message)))"

text \<open>
  The filter runs on the part's header; the body is then streamed and the limit checked:
  more than \<open>max_file_size\<close> bytes aborts with \<open>LIMIT_FILE_SIZE\<close>.
\<close>

definition validate_file :: "upload_file \<Rightarrow> js_error + upload_file" where
  "validate_file f =
     (case file_filter f of
        Inl e \<Rightarrow> Inl e
      | Inr _ \<Rightarrow>
          if max_file_size < length (buffer f)
          then Inl (MulterError LIMIT_FILE_SIZE (fieldname f)) else Inr f)"

section \<open>upload.single over the multipart parts\<close>

datatype part = FieldPart string string | FilePart upload_file

text \<open>
  append-field, as multer uses it for a plain field name: a repeated name turns the value
  into an array.
\<close>

definition append_field :: "(string \<rightharpoonup> param) \<Rightarrow> string \<Rightarrow> string \<Rightarrow> (string \<rightharpoonup> param)" where
  "append_field body n v =
     body(n \<mapsto> (case body n of
                  None \<Rightarrow> PStr v
                | Some (PArr xs) \<Rightarrow> PArr (xs @ [PStr v])
                | Some old \<Rightarrow> PArr [old, PStr v]))"

text \<open>
  \<open>upload.single(field)\<close>: a file part with an empty file name is drained and ignored;
  a file under another field name, or a second one, aborts with
  \<open>LIMIT_UNEXPECTED_FILE\<close> (multer's wrapped filter counts before it calls the
  user's); otherwise the file is validated. The first error aborts the request.
\<close>

fun multer_single :: "string \<Rightarrow> part list \<Rightarrow> (string \<rightharpoonup> param) \<Rightarrow> upload_file option \<Rightarrow>
    js_error + ((string \<rightharpoonup> param) \<times> upload_file option)" where
  "multer_single fld [] body f = Inr (body, f)"
| "multer_single fld (FieldPart n v # ps) body f = multer_single fld ps (append_field body n v) f"
| "multer_single fld (FilePart u # ps) body f =
     (if originalname u = [] then multer_single fld ps body f
      else if fieldname u \<noteq> fld \<or> f \<noteq> None
      then Inl (MulterError LIMIT_UNEXPECTED_FILE (fieldname u))
      else (case validate_file u of
              Inl e \<Rightarrow> Inl e
            | Inr u' \<Rightarrow> multer_single fld ps body (Some u')))"

declare allowed_mime_def [js_simps] allowed_ext_def [js_simps] file_filter_def [js_simps]
  validate_file_def [js_simps] max_file_size_def [js_simps] append_field_def [js_simps]

section \<open>Lemmas\<close>

lemma validate_file_Inr: "validate_file f = Inr g \<Longrightarrow> g = f"
  by (auto simp: validate_file_def split: sum.splits if_splits)

lemma max_file_size_val: "max_file_size = 5242880"
  by (simp add: max_file_size_def)

lemma allowed_ext_shape:
  assumes "js_to_lower_case e \<in> set allowed_ext"
  shows "\<exists>r. e = CHR ''.'' # r \<and> r \<noteq> [] \<and> CHR ''.'' \<notin> set r \<and> CHR ''/'' \<notin> set r"
proof (cases e)
  case Nil
  with assms show ?thesis by (simp add: allowed_ext_def)
next
  case (Cons c r)
  with assms have c: "ascii_lower c = CHR ''.''"
    and r: "js_to_lower_case r \<in> {''jpg'', ''jpeg'', ''png'', ''gif'', ''webp''}"
    by (auto simp: allowed_ext_def)
  from r have "r \<noteq> []" by auto
  moreover from r have "CHR ''.'' \<notin> set (js_to_lower_case r)"
    by (auto simp del: dot_in_lower)
  moreover from r have "CHR ''/'' \<notin> set (js_to_lower_case r)"
    by (auto simp del: slash_in_lower)
  ultimately show ?thesis using c Cons by auto
qed

lemma file_filter_ext:
  "js_to_lower_case (node_extname (originalname u)) \<in> set allowed_ext \<Longrightarrow>
   file_filter u = Inr True"
  by (simp add: file_filter_def)

lemma multer_single_one_file:
  "fieldname u = fld \<Longrightarrow> originalname u \<noteq> [] \<Longrightarrow>
   multer_single fld [FilePart u] body None =
     (case validate_file u of Inl e \<Rightarrow> Inl e | Inr u' \<Rightarrow> Inr (body, Some u'))"
  by (simp split: sum.split)

lemma validate_file_accepts:
  "file_filter u = Inr True \<Longrightarrow> length (buffer u) \<le> max_file_size \<Longrightarrow> validate_file u = Inr u"
  by (simp add: validate_file_def)

text \<open>C1. Whatever MIME type the client declares, a file whose name ends in one of the
  supported extensions, in any letter case, and that is at most 5 MiB passes the gate.\<close>

theorem upload_accepts_image_extension:
  assumes ext: "js_to_lower_case e \<in> set allowed_ext"
    and b: "b \<noteq> []" "last b \<noteq> CHR ''/''"
    and u: "fieldname u = ''file''" "originalname u = b @ e"
    and size: "length (buffer u) \<le> max_file_size"
  shows "multer_single ''file'' [FilePart u] body None = Inr (body, Some u)"
proof -
  obtain r where r: "e = CHR ''.'' # r" "r \<noteq> []" "CHR ''.'' \<notin> set r" "CHR ''/'' \<notin> set r"
    using allowed_ext_shape [OF ext] by blast
  have "node_extname (originalname u) = e"
    using node_extname_append [OF r(2-4) b] by (simp add: u r)
  with ext have "file_filter u = Inr True" by (simp add: file_filter_ext)
  from this size have "validate_file u = Inr u" by (rule validate_file_accepts)
  with u b show ?thesis by (simp add: multer_single_one_file)
qed

theorem upload_accepts_image_extension_witness:
  "js_to_lower_case ''.JPG'' \<in> set allowed_ext \<and>
   multer_single ''file''
     [FilePart \<lparr>fieldname = ''file'', originalname = ''photo.JPG'',
                mimetype = ''application/octet-stream'', buffer = replicate 10 0\<rparr>] Map.empty None
   = Inr (Map.empty, Some \<lparr>fieldname = ''file'', originalname = ''photo.JPG'',
                mimetype = ''application/octet-stream'', buffer = replicate 10 0\<rparr>)"
proof -
  have e: "js_to_lower_case ''.JPG'' \<in> set allowed_ext" by (simp add: js_simps)
  show ?thesis
    using upload_accepts_image_extension [OF e, of "''photo''"] by (simp add: js_simps)
qed

text \<open>C2. A file whose declared type is not one of the image types and whose extension is
  not one of the image extensions is refused with the filter's error, before its size
  is looked at and whatever parts follow it.\<close>

theorem upload_rejects_non_image:
  assumes "\<not> allowed_mime (mimetype u)"
    and "js_to_lower_case (node_extname (originalname u)) \<notin> set allowed_ext"
    and "fieldname u = ''file''" and "originalname u \<noteq> []"
  shows "multer_single ''file'' (FilePart u # ps) body None = Inl (Error only_images_message)"
  using assms by (simp add: validate_file_def file_filter_def)

theorem upload_rejects_non_image_witness:
  "multer_single ''file''
     [FilePart \<lparr>fieldname = ''file'', originalname = ''notes.txt'', mimetype = ''text/plain'',
                buffer = replicate 6000000 0\<rparr>] Map.empty None
   = Inl (Error only_images_message)"
  by (rule upload_rejects_non_image) (simp_all add: js_simps)

text \<open>C3. A file the filter admits is accepted exactly when it has at most 5 MiB
  (5242880 bytes); one byte more aborts the upload with LIMIT_FILE_SIZE.\<close>

theorem upload_size_limit:
  assumes "file_filter u = Inr True" and "fieldname u = ''file''" and "originalname u \<noteq> []"
  shows "multer_single ''file'' [FilePart u] body None =
           (if length (buffer u) \<le> 5242880 then Inr (body, Some u)
            else Inl (MulterError LIMIT_FILE_SIZE ''file''))"
  using assms by (simp add: validate_file_def max_file_size_def)

theorem upload_size_limit_witness:
  "multer_single ''file''
     [FilePart \<lparr>fieldname = ''file'', originalname = ''a.jpg'', mimetype = ''image/jpeg'',
                buffer = replicate 5242880 0\<rparr>] Map.empty None
   = Inr (Map.empty, Some \<lparr>fieldname = ''file'', originalname = ''a.jpg'', mimetype = ''image/jpeg'',
                buffer = replicate 5242880 0\<rparr>) \<and>
   multer_single ''file''
     [FilePart \<lparr>fieldname = ''file'', originalname = ''a.jpg'', mimetype = ''image/jpeg'',
                buffer = replicate 5242881 0\<rparr>] Map.empty None
   = Inl (MulterError LIMIT_FILE_SIZE ''file'')"
proof -
  have f: "\<And>n. file_filter \<lparr>fieldname = ''file'', originalname = ''a.jpg'', mimetype = ''image/jpeg'',
              buffer = replicate n 0\<rparr> = Inr True"
    by (simp add: js_simps)
  show ?thesis
    using upload_size_limit [OF f, of 5242880] upload_size_limit [OF f, of 5242881] by simp
qed

text \<open>C4. A file whose declared type is one of the image types, in any letter case, and
  that is at most 5 MiB passes the gate whatever its name.\<close>

theorem upload_accepts_declared_mime:
  assumes "t \<in> set [''jpeg'', ''jpg'', ''pjpeg'', ''png'', ''gif'', ''webp'']"
    and "js_to_lower_case (mimetype u) = ''image/'' @ t"
    and "fieldname u = ''file''" and "originalname u \<noteq> []"
    and "length (buffer u) \<le> max_file_size"
  shows "multer_single ''file'' [FilePart u] body None = Inr (body, Some u)"
proof -
  have "allowed_mime (mimetype u)" using assms(1,2) by (auto simp: allowed_mime_def)
  then have "file_filter u = Inr True" by (simp add: file_filter_def)
  from this assms(5) have "validate_file u = Inr u" by (rule validate_file_accepts)
  with assms(3,4) show ?thesis by (simp add: multer_single_one_file)
qed

theorem upload_accepts_declared_mime_witness:
  "multer_single ''file''
     [FilePart \<lparr>fieldname = ''file'', originalname = ''blob'', mimetype = ''Image/PNG'',
                buffer = replicate 10 0\<rparr>] Map.empty None
   = Inr (Map.empty, Some \<lparr>fieldname = ''file'', originalname = ''blob'', mimetype = ''Image/PNG'',
                buffer = replicate 10 0\<rparr>)"
  by (rule upload_accepts_declared_mime [where t = "''png''"]) (simp_all add: js_simps)



end
