(* ===== verification/KeyDeriver.thy ===== *)
theory KeyDeriver
  imports NodePath
begin

text \<open>
  How the upload route names the stored object and chooses its content type, in the two
  variants of the server: src/server.js (a random identifier when none is given, the
  file's extension appended, a one-year cache) and the variant embedded in
  src/README.md (an identifier required, no extension, no caching). Both read the
  identifier from the same four places and replace its slashes with dashes.
\<close>

section \<open>The identifier\<close>

text \<open>\<open>req.query?.userId || req.query?.user_id || req.body?.userId || req.body?.user_id\<close>\<close>

definition raw_user_id :: "(string \<rightharpoonup> param) \<Rightarrow> (string \<rightharpoonup> param) \<Rightarrow> param option" where
  "raw_user_id query body =
     js_or (js_or (js_or (query ''userId'') (query ''user_id'')) (body ''userId'')) (body ''user_id'')"

text \<open>src/server.js: \<open>(rawUserId || randomUUID()).toString().replace(/\//g, '-')\<close>\<close>

definition user_id_a :: "param option \<Rightarrow> string \<Rightarrow> string" where
  "user_id_a raw uuid = replace_slashes (js_to_string (js_or_else raw (PStr uuid)))"

text \<open>src/README.md: \<open>rawUserId.toString().replace(/\//g, '-')\<close>, once it is known to be truthy.\<close>

definition user_id_b :: "param \<Rightarrow> string" where
  "user_id_b v = replace_slashes (js_to_string v)"

section \<open>The key\<close>

text \<open>src/server.js: \<open>path.extname(req.file.originalname) || '.jpg'\<close>\<close>

definition ext_a :: "string \<Rightarrow> string" where
  "ext_a name = (let e = node_extname name in if e = [] then ''.jpg'' else e)"

text \<open>src/server.js: \<open>`${PROFILE_PREFIX}/${userId}${ext}`\<close>\<close>

definition key_a :: "string \<Rightarrow> string \<Rightarrow> string \<Rightarrow> key" where
  "key_a pfx uid ext = pfx @ ''/'' @ uid @ ext"

text \<open>src/README.md: \<open>`${PROFILE_PREFIX}/${userId}`\<close> and the lower-cased extension, used
  for the content type only.\<close>

definition key_b :: "string \<Rightarrow> string \<Rightarrow> key" where
  "key_b pfx uid = pfx @ ''/'' @ uid"

definition ext_b :: "string \<Rightarrow> string" where
  "ext_b name = js_to_lower_case (node_extname name)"

section \<open>Content type and cache policy\<close>

text \<open>
  The declared type when it starts with \<open>image/\<close>, else a type inferred from the
  extension (the same expression in both variants; they pass different extensions).
\<close>

definition resolve_mime :: "string \<Rightarrow> string \<Rightarrow> mime" where
  "resolve_mime m ext =
     (if m \<noteq> [] \<and> prefix ''image/'' m then m
      else if ext = ''.png'' then ''image/png''
      else if ext = ''.gif'' then ''image/gif''
      else if ext = ''.webp'' then ''image/webp''
      else ''image/jpeg'')"

definition cache_control_a :: string where
  "cache_control_a = ''public, max-age=31536000''"

definition cache_control_b :: string where
  "cache_control_b = ''no-store, max-age=0''"

declare raw_user_id_def [js_simps] user_id_a_def [js_simps] user_id_b_def [js_simps]
  ext_a_def [js_simps] key_a_def [js_simps] key_b_def [js_simps] ext_b_def [js_simps]
  resolve_mime_def [js_simps]

section \<open>Lemmas\<close>

lemma ext_a_no_slash: "CHR ''/'' \<notin> set (ext_a name)"
  using node_extname_no_slash [of name] by (simp add: ext_a_def Let_def)

lemma ext_a_nonempty: "ext_a name \<noteq> []"
  by (simp add: ext_a_def Let_def)

lemma resolve_mime_image: "prefix ''image/'' (resolve_mime m ext)"
  by (simp add: resolve_mime_def)

text \<open>The key of src/server.js is one level below the prefix: its last segment is the
  sanitised identifier and the extension, and holds no further slash.\<close>

lemma key_a_shape:
  "key_a pfx (user_id_a raw uuid) (ext_a name) = pfx @ ''/'' @ (user_id_a raw uuid @ ext_a name) \<and>
   CHR ''/'' \<notin> set (user_id_a raw uuid @ ext_a name) \<and> user_id_a raw uuid @ ext_a name \<noteq> []"
  using ext_a_no_slash [of name] ext_a_nonempty [of name]
  by (simp add: key_a_def user_id_a_def)

lemma replace_slashes_idem: "replace_slashes (replace_slashes s) = replace_slashes s"
  by (induction s) (auto simp: replace_slashes_def)

lemma replace_slashes_changes: "CHR ''/'' \<in> set s \<Longrightarrow> replace_slashes s \<noteq> s"
  by (metis replace_slashes_no_slash)

lemma replace_slashes_Nil_iff: "(replace_slashes s = []) = (s = [])"
  by (simp add: replace_slashes_def)

text \<open>C11. The extension src/server.js appends to the key is the part of the last path
  component of the file name from its last dot (trailing slashes ignored; none for a
  leading dot or for \<open>..\<close>), and \<open>.jpg\<close> when there is none: the index loop of
  \<open>path.extname\<close> computes exactly this reference.\<close>

theorem ext_a_reference:
  "ext_a name = (if extname_spec name = [] then ''.jpg'' else extname_spec name)"
  by (simp add: ext_a_def node_extname_eq_spec Let_def)

theorem ext_a_reference_witness:
  "ext_a ''shots/me.PNG'' = ''.PNG'' \<and> ext_a ''uploads/.profile'' = ''.jpg''"
  using ext_a_reference [of "''shots/me.PNG''"] ext_a_reference [of "''uploads/.profile''"]
  by (simp add: extname_spec_def last_component_def component_ext_def)

text \<open>C12. In src/server.js the key of an upload depends on the file's extension: the same
  identifier uploaded once as \<open>.png\<close> and once as \<open>.jpg\<close> yields two different
  objects, the first of which is never overwritten.\<close>

theorem key_a_depends_on_extension:
  assumes "ext_a n1 \<noteq> ext_a n2"
  shows "key_a pfx (user_id_a raw u) (ext_a n1) \<noteq> key_a pfx (user_id_a raw u) (ext_a n2)"
  using assms by (simp add: key_a_def)

theorem key_a_depends_on_extension_witness:
  "key_a ''profile-pics'' (user_id_a (Some (PStr ''customer-123'')) ''u'') (ext_a ''me.png'') \<noteq>
   key_a ''profile-pics'' (user_id_a (Some (PStr ''customer-123'')) ''u'') (ext_a ''me.jpg'')"
  by (rule key_a_depends_on_extension) (simp add: js_simps)

text \<open>C13. Replacing slashes by dashes is not injective: an identifier containing a slash
  and its sanitised form are different identifiers with the same key, in both variants,
  so one user's upload overwrites the other's picture.\<close>

theorem user_id_slash_collision:
  assumes "CHR ''/'' \<in> set s"
  shows "replace_slashes s \<noteq> s \<and>
         key_a pfx (user_id_a (Some (PStr s)) u) e =
           key_a pfx (user_id_a (Some (PStr (replace_slashes s))) u') e \<and>
         key_b pfx (user_id_b (PStr s)) = key_b pfx (user_id_b (PStr (replace_slashes s)))"
proof -
  have ne: "s \<noteq> []" using assms by auto
  then have "replace_slashes s \<noteq> []" by (simp add: replace_slashes_Nil_iff)
  with ne assms show ?thesis
    by (simp add: replace_slashes_changes user_id_a_def user_id_b_def js_or_else_def
        replace_slashes_idem)
qed

theorem user_id_slash_collision_witness:
  "key_b ''profile-pics'' (user_id_b (PStr ''gid://shopify/Customer/123'')) =
   key_b ''profile-pics'' (user_id_b (PStr ''gid:--shopify-Customer-123''))"
proof -
  have "CHR ''/'' \<in> set ''gid://shopify/Customer/123''" by simp
  from user_id_slash_collision [OF this] show ?thesis by (simp add: js_simps)
qed

text \<open>C14. A file accepted only by its extension (declared type not \<open>image/...\<close>) whose
  extension is a letter-case variant of \<open>.png\<close> other than \<open>.png\<close> itself is stored as
  \<open>image/jpeg\<close> by src/server.js, which compares the extension before lower-casing,
  and as \<open>image/png\<close> by the README variant, which lower-cases it first.\<close>

theorem uppercase_png_content_type:
  assumes "\<not> prefix ''image/'' m"
    and "js_to_lower_case (node_extname n) = ''.png''" and "node_extname n \<noteq> ''.png''"
  shows "resolve_mime m (ext_a n) = ''image/jpeg'' \<and> resolve_mime m (ext_b n) = ''image/png''"
proof -
  have "node_extname n \<noteq> []" using assms(2) by auto
  moreover have "node_extname n \<noteq> ''.gif''" "node_extname n \<noteq> ''.webp''"
    using assms(2) by (auto simp: js_simps)
  ultimately show ?thesis
    using assms by (simp add: resolve_mime_def ext_a_def ext_b_def Let_def)
qed

theorem uppercase_png_content_type_witness:
  "resolve_mime ''application/octet-stream'' (ext_a ''photo.PNG'') = ''image/jpeg'' \<and>
   resolve_mime ''application/octet-stream'' (ext_b ''photo.PNG'') = ''image/png''"
  by (rule uppercase_png_content_type) (simp_all add: js_simps)

end
