(* ===== verification/UriCodec.thy ===== *)
theory UriCodec
  imports Prelude
begin

text \<open>
  The JavaScript URI built-ins the lookup route depends on: \<open>decodeURIComponent\<close>, which
  Express applies to every route parameter and the handler of
  \<open>GET /api/profile-pic/:key(*)\<close> applies a second time, and \<open>encodeURIComponent\<close>, with
  which a client writes a key into that URL, and the round trip of the two on well-formed UTF-8. Strings are byte strings (\<open>char\<close> is a byte),
  the UTF-8 form in which S3 stores a key: a non-ASCII character of a JavaScript string is
  the sequence of its UTF-8 bytes, and the decoder's output for \<open>%XY\<close> escapes of a
  multi-byte character is that character's UTF-8 bytes. The decoder follows the
  ECMAScript \<open>Decode\<close> operation step by step: \<open>None\<close> is the \<open>URIError\<close> it throws.
\<close>

section \<open>Hexadecimal digits and escapes\<close>

definition hex_digit :: "nat \<Rightarrow> char" where
  "hex_digit n = (if n < 10 then char_of (48 + n) else char_of (55 + n))"

text \<open>\<open>ParseHexOctet\<close>'s digit: 0-9, A-F and a-f.\<close>

definition hex_val :: "char \<Rightarrow> nat option" where
  "hex_val c =
     (let n = of_char c :: nat in
      if 48 \<le> n \<and> n \<le> 57 then Some (n - 48)
      else if 65 \<le> n \<and> n \<le> 70 then Some (n - 55)
      else if 97 \<le> n \<and> n \<le> 102 then Some (n - 87)
      else None)"

text \<open>One \<open>%XY\<close> escape at the front of the string: the octet and the rest, or \<open>None\<close>
  when the string is too short, does not start with \<open>%\<close> or \<open>XY\<close> is not hexadecimal.\<close>

fun escape_octet :: "string \<Rightarrow> (nat \<times> string) option" where
  "escape_octet (p # h1 # h2 # rest) =
     (if p = CHR ''%'' then
        (case (hex_val h1, hex_val h2) of
           (Some a, Some b) \<Rightarrow> Some (16 * a + b, rest)
         | _ \<Rightarrow> None)
      else None)"
| "escape_octet _ = None"

text \<open>The continuation loop (steps 4.c.viii.4): \<open>n\<close> further escapes.\<close>

fun escape_octets :: "nat \<Rightarrow> string \<Rightarrow> (nat list \<times> string) option" where
  "escape_octets 0 s = Some ([], s)"
| "escape_octets (Suc n) s =
     (case escape_octet s of
        None \<Rightarrow> None
      | Some (b, rest) \<Rightarrow>
          (case escape_octets n rest of
             None \<Rightarrow> None
           | Some (bs, rest') \<Rightarrow> Some (b # bs, rest')))"

text \<open>The number of leading one bits of an octet, 5 standing for five or more.\<close>

definition leading_ones :: "nat \<Rightarrow> nat" where
  "leading_ones b =
     (if b < 128 then 0 else if b < 192 then 1 else if b < 224 then 2
      else if b < 240 then 3 else if b < 248 then 4 else 5)"

definition utf8_code_point :: "nat list \<Rightarrow> nat" where
  "utf8_code_point bs =
     foldl (\<lambda>acc c. acc * 64 + c mod 64) (hd bs mod 2 ^ (7 - length bs)) (tl bs)"

text \<open>Whether the octets are a valid UTF-8 encoding of one code point (RFC 3629):
  continuation bytes \<open>10xxxxxx\<close>, no overlong form, no surrogate, nothing above U+10FFFF.\<close>

definition utf8_valid :: "nat list \<Rightarrow> bool" where
  "utf8_valid bs =
     (list_all (\<lambda>c. 128 \<le> c \<and> c < 192) (tl bs) \<and>
      (let cp = utf8_code_point bs in
       if length bs = 2 then 128 \<le> cp
       else if length bs = 3 then 2048 \<le> cp \<and> \<not> (55296 \<le> cp \<and> cp \<le> 57343)
       else 65536 \<le> cp \<and> cp \<le> 1114111))"

lemma escape_octet_length: "escape_octet s = Some (b, r) \<Longrightarrow> length r + 3 = length s"
  by (induction s rule: escape_octet.induct) (auto split: if_splits option.splits)

lemma escape_octets_length: "escape_octets n s = Some (bs, r) \<Longrightarrow> length r \<le> length s"
proof (induction n arbitrary: s bs)
  case (Suc n)
  then show ?case
    by (fastforce split: option.splits dest: escape_octet_length)
qed simp

section \<open>decodeURIComponent\<close>

function decode_uri_component :: "string \<Rightarrow> string option" where
  "decode_uri_component [] = Some []"
| "decode_uri_component (c # cs) =
     (if c \<noteq> CHR ''%'' then map_option (Cons c) (decode_uri_component cs)
      else case escape_octet (c # cs) of
        None \<Rightarrow> None
      | Some (b, rest) \<Rightarrow>
          (let n = leading_ones b in
           if n = 0 then map_option (Cons (char_of b)) (decode_uri_component rest)
           else if n = 1 \<or> 4 < n then None
           else case escape_octets (n - 1) rest of
             None \<Rightarrow> None
           | Some (cont, rest') \<Rightarrow>
               if utf8_valid (b # cont)
               then map_option (append (map char_of (b # cont))) (decode_uri_component rest')
               else None))"
  by pat_completeness auto
termination
  by (relation "measure length")
     (fastforce dest!: escape_octet_length escape_octets_length)+

section \<open>encodeURIComponent\<close>

text \<open>Characters \<open>encodeURIComponent\<close> leaves alone: letters, digits and \<open>-_.!~*'()\<close>.\<close>

definition uri_component_unescaped :: "char \<Rightarrow> bool" where
  "uri_component_unescaped c =
     ((CHR ''A'' \<le> c \<and> c \<le> CHR ''Z'') \<or> (CHR ''a'' \<le> c \<and> c \<le> CHR ''z'') \<or>
      (CHR ''0'' \<le> c \<and> c \<le> CHR ''9'') \<or> c \<in> set (''-_.!~*()'' @ [CHR 0x27]))"

definition percent_escape :: "char \<Rightarrow> string" where
  "percent_escape c = [CHR ''%'', hex_digit (of_char c div 16), hex_digit (of_char c mod 16)]"

definition encode_uri_component :: "string \<Rightarrow> string" where
  "encode_uri_component s =
     concat (map (\<lambda>c. if uri_component_unescaped c then [c] else percent_escape c) s)"

text \<open>The strings the decoder's multi-byte branch accepts: well-formed UTF-8 in the
  decoder's own terms (an ASCII byte, or a lead byte followed by its continuation bytes
  forming a valid encoding of one code point).\<close>

fun utf8_wf :: "string \<Rightarrow> bool" where
  "utf8_wf [] = True"
| "utf8_wf (c # cs) =
     (let b = of_char c; n = leading_ones b in
      if n = 0 then utf8_wf cs
      else if n = 1 \<or> 4 < n then False
      else n - 1 \<le> length cs \<and> utf8_valid (b # map of_char (take (n - 1) cs)) \<and>
           utf8_wf (drop (n - 1) cs))"

declare hex_val_def [js_simps] leading_ones_def [js_simps] utf8_code_point_def [js_simps]
  utf8_valid_def [js_simps] uri_component_unescaped_def [js_simps] percent_escape_def [js_simps]
  encode_uri_component_def [js_simps] hex_digit_def [js_simps]

section \<open>Lemmas\<close>

lemma hex_val_hex_digit: "n < 16 \<Longrightarrow> hex_val (hex_digit n) = Some n"
  by (auto simp: hex_val_def hex_digit_def Let_def)

lemma escape_octet_percent_escape:
  "escape_octet (percent_escape c @ rest) = Some (of_char c, rest)"
proof -
  have "of_char c < (256::nat)" by (rule nat_of_char_less_256)
  then have "of_char c div 16 < (16::nat)" by (simp add: div_less_iff_less_mult)
  then have "hex_val (hex_digit (of_char c div 16)) = Some (of_char c div 16)"
    by (rule hex_val_hex_digit)
  then show ?thesis
    by (simp add: percent_escape_def hex_val_hex_digit)
qed

lemma escape_octets_lengths:
  "escape_octets n s = Some (bs, r) \<Longrightarrow> length bs = n \<and> length r + 3 * n = length s"
proof (induction n arbitrary: s bs)
  case (Suc n)
  then show ?case
    by (fastforce split: option.splits dest: escape_octet_length)
qed simp

lemma decode_uri_component_no_percent:
  "CHR ''%'' \<notin> set s \<Longrightarrow> decode_uri_component s = Some s"
  by (induction s) auto

lemma encode_uri_component_Nil [simp]: "encode_uri_component [] = []"
  by (simp add: encode_uri_component_def)

lemma encode_uri_component_Nil_iff [simp]: "(encode_uri_component s = []) = (s = [])"
  by (cases s) (auto simp: encode_uri_component_def percent_escape_def)

lemma percent_not_unescaped [simp]: "\<not> uri_component_unescaped CHR ''%''"
  by (simp add: uri_component_unescaped_def)

lemma uri_component_unescaped_ascii: "uri_component_unescaped c \<Longrightarrow> of_char c < (128::nat)"
  by (auto simp: uri_component_unescaped_def less_eq_char_def)

lemma encode_uri_component_append:
  "encode_uri_component (xs @ ys) = encode_uri_component xs @ encode_uri_component ys"
  by (simp add: encode_uri_component_def)

lemma encode_uri_component_Cons:
  "encode_uri_component (c # cs) =
     (if uri_component_unescaped c then [c] else percent_escape c) @ encode_uri_component cs"
  by (simp add: encode_uri_component_def)

lemma escape_octets_percent_escapes:
  "escape_octets (length xs) (concat (map percent_escape xs) @ rest) = Some (map of_char xs, rest)"
  by (induction xs) (simp_all add: escape_octet_percent_escape)

lemma encode_non_ascii:
  "\<forall>c \<in> set xs. 128 \<le> (of_char c :: nat) \<Longrightarrow>
   encode_uri_component xs = concat (map percent_escape xs)"
  by (induction xs) (auto simp: encode_uri_component_Cons dest: uri_component_unescaped_ascii)

lemma decode_encode_utf8:
  "utf8_wf s \<Longrightarrow> decode_uri_component (encode_uri_component s) = Some s"
proof (induction s rule: utf8_wf.induct)
  case 1
  then show ?case by simp
next
  case (2 c cs)
  let ?b = "of_char c :: nat"
  let ?n = "leading_ones ?b"
  show ?case
  proof (cases "?n = 0")
    case True
    then have lt: "?b < 128" by (simp add: leading_ones_def split: if_splits)
    from 2 True have IH: "decode_uri_component (encode_uri_component cs) = Some cs"
      by (simp add: Let_def)
    show ?thesis
    proof (cases "uri_component_unescaped c")
      case True
      then have "c \<noteq> CHR ''%''" by auto
      with True IH show ?thesis by (simp add: encode_uri_component_Cons)
    next
      case False
      obtain t where pe: "percent_escape c = CHR ''%'' # t" by (simp add: percent_escape_def)
      with escape_octet_percent_escape [of c "encode_uri_component cs"] False IH lt
      show ?thesis by (simp add: encode_uri_component_Cons leading_ones_def)
    qed
  next
    case False
    with "2.prems" have n: "\<not> (?n = 1 \<or> 4 < ?n)" and len: "?n - 1 \<le> length cs"
      and v: "utf8_valid (?b # map of_char (take (?n - 1) cs))"
      and wf: "utf8_wf (drop (?n - 1) cs)"
      by (simp_all add: Let_def split: if_splits)
    have IH: "decode_uri_component (encode_uri_component (drop (?n - 1) cs)) = Some (drop (?n - 1) cs)"
      using "2.IH"(2) [OF refl refl False n] wf by simp
    have big: "192 \<le> ?b" using False n by (simp add: leading_ones_def split: if_splits)
    then have nu: "\<not> uri_component_unescaped c" using uri_component_unescaped_ascii by fastforce
    have "\<forall>x \<in> set (take (?n - 1) cs). 128 \<le> (of_char x :: nat)"
      using v by (auto simp: utf8_valid_def list_all_iff)
    then have et: "encode_uri_component (take (?n - 1) cs) = concat (map percent_escape (take (?n - 1) cs))"
      by (rule encode_non_ascii)
    have lt: "length (take (?n - 1) cs) = ?n - 1" using len by simp
    have enc: "encode_uri_component (c # cs) =
        percent_escape c @ concat (map percent_escape (take (?n - 1) cs)) @
        encode_uri_component (drop (?n - 1) cs)"
      using nu et encode_uri_component_append [of "take (?n - 1) cs" "drop (?n - 1) cs"]
      by (simp add: encode_uri_component_Cons)
    have eo: "escape_octets (?n - 1) (concat (map percent_escape (take (?n - 1) cs)) @
                 encode_uri_component (drop (?n - 1) cs)) =
              Some (map of_char (take (?n - 1) cs), encode_uri_component (drop (?n - 1) cs))"
      using escape_octets_percent_escapes [of "take (?n - 1) cs"] lt by simp
    obtain t where pe: "percent_escape c = CHR ''%'' # t" by (simp add: percent_escape_def)
    let ?rest = "concat (map percent_escape (take (?n - 1) cs)) @ encode_uri_component (drop (?n - 1) cs)"
    have e1: "escape_octet (CHR ''%'' # t @ ?rest) = Some (?b, ?rest)"
      using escape_octet_percent_escape [of c ?rest] pe by simp
    have "decode_uri_component (CHR ''%'' # t @ ?rest) =
            Some (map char_of (?b # map of_char (take (?n - 1) cs)) @ drop (?n - 1) cs)"
      using e1 eo v IH False n by (simp add: Let_def)
    then show ?thesis by (simp add: enc pe comp_def)
  qed
qed

text \<open>The decoder never lengthens a string, and shortens every string holding a \<open>%\<close>.\<close>

lemma decode_uri_component_Cons_nonempty:
  "decode_uri_component (c # cs) = Some t \<Longrightarrow> t \<noteq> []"
  by (auto simp: Let_def split: if_splits option.splits prod.splits)

lemma decode_uri_component_length:
  "decode_uri_component s = Some t \<Longrightarrow>
     length t \<le> length s \<and> (CHR ''%'' \<in> set s \<longrightarrow> length t < length s)"
proof (induction s arbitrary: t rule: decode_uri_component.induct)
  case (2 c cs)
  show ?case
  proof (cases "c = CHR ''%''")
    case False
    with 2 show ?thesis by auto
  next
    case pc: True
    with "2.prems" obtain b rest where e: "escape_octet (c # cs) = Some (b, rest)"
      by (auto split: option.splits)
    have lr: "length rest + 3 = length (c # cs)"
      using escape_octet_length [OF e] .
    show ?thesis
    proof (cases "leading_ones b = 0")
      case True
      with "2.prems" e pc obtain t' where "t = char_of b # t'" "decode_uri_component rest = Some t'"
        by (auto simp: Let_def)
      with "2.IH"(2) [OF _ e refl refl True] pc lr show ?thesis by auto
    next
      case False
      with "2.prems" e pc obtain cont rest' t' where
        eo: "escape_octets (leading_ones b - 1) rest = Some (cont, rest')"
        and t: "t = map char_of (b # cont) @ t'"
        and d: "decode_uri_component rest' = Some t'"
        and n: "\<not> (leading_ones b = 1 \<or> 4 < leading_ones b)"
        and v: "utf8_valid (b # cont)"
        by (auto simp: Let_def split: if_splits option.splits)
      have "length t' \<le> length rest'"
        using "2.IH"(3) [OF _ e refl refl False n eo refl v] pc d by simp
      with escape_octets_lengths [OF eo] lr t False show ?thesis by auto
    qed
  qed
qed simp

lemma decode_uri_component_fixed_iff:
  "(decode_uri_component s = Some s) = (CHR ''%'' \<notin> set s)"
  using decode_uri_component_length [of s s] decode_uri_component_no_percent [of s] by auto

end
