(* ===== verification/ObjectStore.thy ===== *)
theory ObjectStore
  imports UriCodec
begin

text \<open>
  The object-storage client the handlers call (the AWS SDK's S3 client and presigner):
  the bucket as a finite map from keys to stored objects, \<open>PutObject\<close> (last write
  wins), \<open>ListObjectsV2\<close> (keys with a prefix, in ascending byte order, at most
  \<open>MaxKeys\<close> of them) and \<open>getSignedUrl\<close> for a \<open>GetObject\<close>. A call that the service
  refuses is modelled by an explicit fault: \<open>Some msg\<close> is the error it rejects with.
\<close>

section \<open>The bucket\<close>

record s3_object =
  obj_body :: bytes
  obj_content_type :: mime
  obj_cache_control :: string
  obj_last_modified :: nat

type_synonym bucket = "(key, s3_object) mapping"

text \<open>The client's configuration: region, bucket and the signer its credentials give.\<close>

record s3_client =
  region :: string
  bucket_name :: string
  signature :: "key \<Rightarrow> nat \<Rightarrow> string"

section \<open>PutObject and ListObjectsV2\<close>

definition s3_put :: "string option \<Rightarrow> nat \<Rightarrow> key \<Rightarrow> bytes \<Rightarrow> mime \<Rightarrow> string \<Rightarrow>
    bucket \<Rightarrow> string + bucket" where
  "s3_put fault now k data ct cc b =
     (case fault of
        Some msg \<Rightarrow> Inl msg
      | None \<Rightarrow> Inr (Mapping.update k
                 \<lparr>obj_body = data, obj_content_type = ct, obj_cache_control = cc,
                  obj_last_modified = now\<rparr> b))"

definition s3_list :: "string option \<Rightarrow> string \<Rightarrow> nat \<Rightarrow> bucket \<Rightarrow> string + (key \<times> s3_object) list" where
  "s3_list fault pfx max_keys b =
     (case fault of
        Some msg \<Rightarrow> Inl msg
      | None \<Rightarrow> Inr (map (\<lambda>k. (k, the (Mapping.lookup b k)))
                       (take max_keys (filter (prefix pfx) (Mapping.ordered_keys b)))))"

section \<open>Presigned GetObject URLs\<close>

definition max_presign_expiry :: nat where
  "max_presign_expiry = 7 * 24 * 60 * 60"

definition uri_unreserved :: "char \<Rightarrow> bool" where
  "uri_unreserved c =
     ((CHR ''A'' \<le> c \<and> c \<le> CHR ''Z'') \<or> (CHR ''a'' \<le> c \<and> c \<le> CHR ''z'') \<or>
      (CHR ''0'' \<le> c \<and> c \<le> CHR ''9'') \<or> c \<in> set ''-._~'')"

text \<open>The presigner's path encoding: unreserved characters and slashes kept, every other
  byte written as \<open>%XY\<close>.\<close>

definition uri_escape_path :: "string \<Rightarrow> string" where
  "uri_escape_path k =
     concat (map (\<lambda>c. if uri_unreserved c \<or> c = CHR ''/'' then [c]
                      else [CHR ''%'', hex_digit (of_char c div 16), hex_digit (of_char c mod 16)]) k)"

fun nat_str :: "nat \<Rightarrow> string" where
  "nat_str n = (if n < 10 then [char_of (48 + n)] else nat_str (n div 10) @ [char_of (48 + n mod 10)])"

text \<open>
  \<open>getSignedUrl\<close> first serializes the \<open>GetObject\<close> request, whose path label \<open>{Key+}\<close>
  must not be empty (the SDK throws "Empty value provided for input HTTP label: Key.");
  the signer then rejects a lifetime over a week (signature version 4); otherwise the
  URL names the object and carries the lifetime and the signature as query parameters.
\<close>

definition empty_key_message :: string where
  "empty_key_message = ''Empty value provided for input HTTP label: Key.''"

definition presign :: "s3_client \<Rightarrow> key \<Rightarrow> nat \<Rightarrow> string + string" where
  "presign c k expires =
     (if k = [] then Inl empty_key_message
      else if max_presign_expiry < expires
      then Inl ''Signature version 4 presigned URLs must have an expiration date less than one week in the future''
      else Inr (''https://'' @ bucket_name c @ ''.s3.'' @ region c @ ''.amazonaws.com/'' @
                uri_escape_path k @ ''?X-Amz-Expires='' @ nat_str expires @
                ''&X-Amz-Signature='' @ signature c k expires))"

declare s3_put_def [js_simps] s3_list_def [js_simps] presign_def [js_simps]
  max_presign_expiry_def [js_simps] empty_key_message_def [js_simps]

section \<open>Lemmas\<close>

declare nat_str.simps [simp del]

lemma s3_put_Inr:
  "s3_put fault now k data ct cc b = Inr b' \<longleftrightarrow>
   fault = None \<and> b' = Mapping.update k
     \<lparr>obj_body = data, obj_content_type = ct, obj_cache_control = cc, obj_last_modified = now\<rparr> b"
  by (auto simp: s3_put_def split: option.splits)

lemma s3_put_Inl: "s3_put fault now k data ct cc b = Inl m \<longleftrightarrow> fault = Some m"
  by (auto simp: s3_put_def split: option.splits)

lemma lookup_s3_put:
  "s3_put None now k data ct cc b = Inr b' \<Longrightarrow>
   Mapping.lookup b' k' = (if k' = k then Some \<lparr>obj_body = data, obj_content_type = ct,
      obj_cache_control = cc, obj_last_modified = now\<rparr> else Mapping.lookup b k')"
  by (auto simp: s3_put_def lookup_update')

lemma presign_within_week:
  "expires \<le> max_presign_expiry \<Longrightarrow> k \<noteq> [] \<Longrightarrow> \<exists>url. presign c k expires = Inr url"
  by (simp add: presign_def)

lemma in_ordered_keys_lookup:
  "k \<in> set (Mapping.ordered_keys b) \<Longrightarrow> \<exists>ob. Mapping.lookup b k = Some ob"
  by (auto simp: ordered_keys_def keys_is_none_rep Option.is_none_def split: if_splits)

lemma s3_list_bounds:
  "s3_list None pfx n b = Inr objs \<Longrightarrow>
   length objs \<le> n \<and> (\<forall>(k, ob) \<in> set objs. prefix pfx k \<and> Mapping.lookup b k = Some ob)"
  by (auto simp: s3_list_def dest!: in_set_takeD in_ordered_keys_lookup)

end
