(* ===== verification/Server.thy ===== *)
theory Server
  imports Validator KeyDeriver ObjectStore
begin

text \<open>
  The Express application of src/server.js and of the variant in src/README.md: start-up
  configuration, the JSON responses, the route handlers (health, upload, listing, URL by
  key), the error middleware, the upload route as multer followed by its handler, and
  the service as a step relation on the bucket. Each handler is a function of the
  configuration, the request and the bucket, returning the response and the bucket
  after the call; what the storage service does is the \<open>ObjectStore\<close> model, its
  refusals given by fault arguments.
\<close>

section \<open>Configuration (src/server.js lines 1 and 11-31)\<close>

text \<open>\<open>import 'dotenv/config'\<close> (line 1) loads the file \<open>.env\<close> before anything else runs:
  dotenv parses it into an object, a later line for the same name overriding an earlier
  one (the parsed pairs, in file order, are the input; the line syntax is not modelled),
  then sets every parsed variable the process environment does not already have. A
  variable the process already has is kept, even when it is empty.\<close>

definition dotenv_parsed :: "(string \<times> string) list \<Rightarrow> (string \<rightharpoonup> string)" where
  "dotenv_parsed kvs = map_of (rev kvs)"

definition dotenv_config :: "(string \<rightharpoonup> string) \<Rightarrow> (string \<times> string) list \<Rightarrow> (string \<rightharpoonup> string)" where
  "dotenv_config penv kvs = (\<lambda>k. case penv k of Some v \<Rightarrow> Some v | None \<Rightarrow> dotenv_parsed kvs k)"

record config =
  s3 :: s3_client
  profile_prefix :: string
  public_base_url :: "string option"

definition required_env :: "string list" where
  "required_env = [''AWS_ACCESS_KEY_ID'', ''AWS_SECRET_ACCESS_KEY'', ''AWS_REGION'', ''S3_BUCKET'']"

text \<open>The start-up loop: the first required variable that is unset or empty stops the
  process (\<open>process.exit(1)\<close>).\<close>

fun first_missing :: "(string \<rightharpoonup> string) \<Rightarrow> string list \<Rightarrow> string option" where
  "first_missing env [] = None"
| "first_missing env (k # ks) =
     (if env k = None \<or> env k = Some [] then Some k else first_missing env ks)"

definition env_or :: "(string \<rightharpoonup> string) \<Rightarrow> string \<Rightarrow> string \<Rightarrow> string" where
  "env_or env k d = (case env k of Some v \<Rightarrow> if v = [] then d else v | None \<Rightarrow> d)"

definition load_config :: "(string \<rightharpoonup> string) \<Rightarrow> (key \<Rightarrow> nat \<Rightarrow> string) \<Rightarrow> string + config" where
  "load_config env signer =
     (case first_missing env required_env of
        Some k \<Rightarrow> Inl (''Missing required env: '' @ k)
      | None \<Rightarrow> Inr \<lparr>s3 = \<lparr>region = env_or env ''AWS_REGION'' [], bucket_name = env_or env ''S3_BUCKET'' [],
                          signature = signer\<rparr>,
                    profile_prefix = env_or env ''S3_PROFILE_PREFIX'' ''profile-pics'',
                    public_base_url = env ''S3_PUBLIC_BASE_URL''\<rparr>)"

section \<open>Responses\<close>

datatype json = JNull | JBool bool | JNum nat | JStr string | JArr "json list"
  | JObj "(string \<times> json) list"

record response =
  resp_status :: nat
  resp_body :: json

text \<open>\<open>res.status(code).json({ error: msg || fallback })\<close>\<close>

definition error_response :: "nat \<Rightarrow> string \<Rightarrow> string \<Rightarrow> response" where
  "error_response code msg fallback =
     \<lparr>resp_status = code, resp_body = JObj [(''error'', JStr (if msg = [] then fallback else msg))]\<rparr>"

definition health :: response where
  "health = \<lparr>resp_status = 200,
     resp_body = JObj [(''ok'', JBool True), (''service'', JStr ''profile-pic-api'')]\<rparr>"

section \<open>The upload handler\<close>

text \<open>What the environment decides during one upload: the value \<open>randomUUID()\<close> returns,
  whether PutObject is refused, and the time the object is written.\<close>

record upload_env =
  uuid :: string
  put_fault :: "string option"
  now :: nat

definition upload_url_ttl :: nat where
  "upload_url_ttl = 60 * 60 * 24 * 6"

text \<open>The URL returned after an upload (lines 93-103): the public base URL without one
  trailing slash, when it is set and not empty, else a URL signed for six days.\<close>

definition resolve_url :: "config \<Rightarrow> key \<Rightarrow> string + string" where
  "resolve_url cfg k =
     (case public_base_url cfg of
        Some base \<Rightarrow> if base \<noteq> [] then Inr (strip_trailing_slash base @ ''/'' @ k)
                     else presign (s3 cfg) k upload_url_ttl
      | None \<Rightarrow> presign (s3 cfg) k upload_url_ttl)"

definition no_file_message :: string where
  "no_file_message = ''No file uploaded. Use field name \"file\".''"

definition created_response :: "string \<Rightarrow> key \<Rightarrow> response" where
  "created_response url k =
     \<lparr>resp_status = 201,
      resp_body = JObj [(''success'', JBool True), (''url'', JStr url), (''key'', JStr k)]\<rparr>"

text \<open>Store, then resolve the URL; a failure of either is the \<open>catch\<close> branch (500).\<close>

definition store_and_respond :: "config \<Rightarrow> upload_env \<Rightarrow> key \<Rightarrow> upload_file \<Rightarrow> mime \<Rightarrow>
    string \<Rightarrow> bucket \<Rightarrow> response \<times> bucket" where
  "store_and_respond cfg env k f ct cc b =
     (case s3_put (put_fault env) (now env) k (buffer f) ct cc b of
        Inl msg \<Rightarrow> (error_response 500 msg ''Upload failed'', b)
      | Inr b' \<Rightarrow>
          (case resolve_url cfg k of
             Inl msg \<Rightarrow> (error_response 500 msg ''Upload failed'', b')
           | Inr url \<Rightarrow> (created_response url k, b')))"

text \<open>src/server.js lines 64-118.\<close>

definition upload_handler :: "config \<Rightarrow> upload_env \<Rightarrow> (string \<rightharpoonup> param) \<Rightarrow> (string \<rightharpoonup> param) \<Rightarrow>
    upload_file option \<Rightarrow> bucket \<Rightarrow> response \<times> bucket" where
  "upload_handler cfg env query body file b =
     (case file of
        None \<Rightarrow> (error_response 400 no_file_message [], b)
      | Some f \<Rightarrow>
          (let uid = user_id_a (raw_user_id query body) (uuid env);
               ext = ext_a (originalname f);
               k = key_a (profile_prefix cfg) uid ext;
               ct = resolve_mime (mimetype f) ext
           in store_and_respond cfg env k f ct cache_control_a b))"

definition missing_user_message :: string where
  "missing_user_message = ''Missing userId (Shopify customer ID).''"

text \<open>src/README.md lines 154-213: the identifier is required, the key has no extension,
  the lower-cased extension only chooses the content type, nothing is cached.\<close>

definition upload_handler_b :: "config \<Rightarrow> upload_env \<Rightarrow> (string \<rightharpoonup> param) \<Rightarrow> (string \<rightharpoonup> param) \<Rightarrow>
    upload_file option \<Rightarrow> bucket \<Rightarrow> response \<times> bucket" where
  "upload_handler_b cfg env query body file b =
     (case file of
        None \<Rightarrow> (error_response 400 no_file_message [], b)
      | Some f \<Rightarrow>
          (let raw = raw_user_id query body in
           if \<not> js_truthy raw then (error_response 400 missing_user_message [], b)
           else
             (let uid = user_id_b (js_or_else raw (PStr []));
                  k = key_b (profile_prefix cfg) uid;
                  ext = ext_b (originalname f);
                  ct = resolve_mime (mimetype f) ext
              in store_and_respond cfg env k f ct cache_control_b b)))"

section \<open>The error middleware (src/server.js lines 161-171)\<close>

definition too_large_message :: string where
  "too_large_message = ''File too large. Max 5 MB.''"

definition error_middleware :: "js_error \<Rightarrow> response" where
  "error_middleware e =
     (case e of
        MulterError LIMIT_FILE_SIZE _ \<Rightarrow> error_response 400 too_large_message []
      | _ \<Rightarrow>
          (let m = error_message e in
           if m \<noteq> [] \<and> js_includes m ''Only images'' then error_response 400 m []
           else error_response 500 m ''Server error''))"

section \<open>The upload route\<close>

record request =
  req_query :: "string \<rightharpoonup> param"
  req_parts :: "part list"

text \<open>\<open>app.post('/api/upload/profile-pic', upload.single('file'), handler)\<close>: multer first;
  its error goes to the error middleware, its result to the handler.\<close>

definition post_upload :: "config \<Rightarrow> upload_env \<Rightarrow> request \<Rightarrow> bucket \<Rightarrow> response \<times> bucket" where
  "post_upload cfg env r b =
     (case multer_single ''file'' (req_parts r) Map.empty None of
        Inl e \<Rightarrow> (error_middleware e, b)
      | Inr (body, f) \<Rightarrow> upload_handler cfg env (req_query r) body f b)"

definition post_upload_b :: "config \<Rightarrow> upload_env \<Rightarrow> request \<Rightarrow> bucket \<Rightarrow> response \<times> bucket" where
  "post_upload_b cfg env r b =
     (case multer_single ''file'' (req_parts r) Map.empty None of
        Inl e \<Rightarrow> (error_middleware e, b)
      | Inr (body, f) \<Rightarrow> upload_handler_b cfg env (req_query r) body f b)"

section \<open>Listing (src/server.js lines 122-142)\<close>

definition list_base_url :: "config \<Rightarrow> string" where
  "list_base_url cfg =
     strip_trailing_slash (case public_base_url cfg of Some base \<Rightarrow> base | None \<Rightarrow> [])"

definition list_item :: "string \<Rightarrow> key \<times> s3_object \<Rightarrow> json" where
  "list_item base ko =
     (case ko of (k, ob) \<Rightarrow>
        JObj [(''key'', JStr k), (''size'', JNum (length (obj_body ob))),
              (''lastModified'', JNum (obj_last_modified ob)),
              (''url'', if base \<noteq> [] then JStr (base @ ''/'' @ k) else JNull)])"

definition list_profile_pics :: "config \<Rightarrow> string option \<Rightarrow> bucket \<Rightarrow> response" where
  "list_profile_pics cfg fault b =
     (case s3_list fault (profile_prefix cfg @ ''/'') 100 b of
        Inl msg \<Rightarrow> error_response 500 msg ''Failed to list''
      | Inr objs \<Rightarrow>
          (let items = map (list_item (list_base_url cfg)) objs in
           \<lparr>resp_status = 200,
            resp_body = JObj [(''prefix'', JStr (profile_prefix cfg)),
                              (''count'', JNum (length items)), (''items'', JArr items)]\<rparr>))"

section \<open>The service as a step relation\<close>

text \<open>
  Requests are handled one after another (Node's event loop runs each handler's
  synchronous part alone, and the only shared state is the bucket). A step is one
  upload, in any environment, or one listing, which leaves the bucket as it is.
\<close>

inductive server_step :: "config \<Rightarrow> bucket \<Rightarrow> bucket \<Rightarrow> bool" where
  upload: "post_upload cfg env r b = (resp, b') \<Longrightarrow> server_step cfg b b'"
| list: "server_step cfg b b"

inductive reachable :: "config \<Rightarrow> bucket \<Rightarrow> bool" where
  start: "reachable cfg Mapping.empty"
| step: "reachable cfg b \<Longrightarrow> server_step cfg b b' \<Longrightarrow> reachable cfg b'"

text \<open>What every object the service writes satisfies: its key is one level below the
  prefix, its type an image type, its size within the limit, its cache policy the
  server's.\<close>

definition object_ok :: "string \<Rightarrow> key \<Rightarrow> s3_object \<Rightarrow> bool" where
  "object_ok pfx k ob \<longleftrightarrow>
     prefix (pfx @ ''/'') k \<and> length (pfx @ ''/'') < length k \<and>
     CHR ''/'' \<notin> set (drop (length (pfx @ ''/'')) k) \<and>
     prefix ''image/'' (obj_content_type ob) \<and> length (obj_body ob) \<le> max_file_size \<and>
     obj_cache_control ob = cache_control_a"

definition bucket_ok :: "string \<Rightarrow> bucket \<Rightarrow> bool" where
  "bucket_ok pfx b \<longleftrightarrow>
     (\<forall>k \<in> Mapping.keys b. case Mapping.lookup b k of Some ob \<Rightarrow> object_ok pfx k ob | None \<Rightarrow> True)"

inductive_cases server_stepE: "server_step cfg b b'"

lemmas upload_defs = post_upload_def upload_handler_def store_and_respond_def

section \<open>Lemmas\<close>

lemma multer_single_result:
  "multer_single fld ps body fo = Inr (body', fo') \<Longrightarrow>
   fo' = fo \<or> (\<exists>f. fo' = Some f \<and> validate_file f = Inr f)"
proof (induction fld ps body fo rule: multer_single.induct)
  case (3 fld u ps body f)
  then show ?case
    by (auto split: if_splits sum.splits dest: validate_file_Inr)
qed auto

lemma validate_file_size: "validate_file f = Inr f \<Longrightarrow> length (buffer f) \<le> max_file_size"
  by (auto simp: validate_file_def split: sum.splits if_splits)

lemma multer_single_file_ok:
  "multer_single fld ps body None = Inr (body', Some f) \<Longrightarrow>
   validate_file f = Inr f \<and> length (buffer f) \<le> max_file_size"
  using multer_single_result [of fld ps body None body' "Some f"] validate_file_size by auto

lemma upload_url_ttl_within_week: "upload_url_ttl \<le> max_presign_expiry"
  by (simp add: upload_url_ttl_def max_presign_expiry_def)

lemma key_a_nonempty: "key_a pfx uid ext \<noteq> []"
  by (simp add: key_a_def)

lemma key_b_nonempty: "key_b pfx uid \<noteq> []"
  by (simp add: key_b_def)

lemma resolve_url_Inr: "k \<noteq> [] \<Longrightarrow> \<exists>url. resolve_url cfg k = Inr url"
  using presign_within_week [OF upload_url_ttl_within_week]
  by (auto simp: resolve_url_def split: option.splits)

lemma object_ok_key_a:
  assumes "prefix ''image/'' ct" "length data \<le> max_file_size"
  shows "object_ok pfx (key_a pfx (user_id_a raw u) (ext_a name))
           \<lparr>obj_body = data, obj_content_type = ct, obj_cache_control = cache_control_a,
            obj_last_modified = t\<rparr>"
  using key_a_shape [of pfx raw u name] assms by (simp add: object_ok_def)

lemma bucket_ok_update:
  "bucket_ok pfx b \<Longrightarrow> object_ok pfx k ob \<Longrightarrow> bucket_ok pfx (Mapping.update k ob b)"
  by (auto simp: bucket_ok_def lookup_update')

lemma bucket_ok_empty: "bucket_ok pfx Mapping.empty"
  by (simp add: bucket_ok_def)

lemma post_upload_effect:
  assumes run: "post_upload cfg env r b = (resp, b')"
  shows "b' = b \<or> (\<exists>k ob. b' = Mapping.update k ob b \<and> object_ok (profile_prefix cfg) k ob)"
proof (cases "multer_single ''file'' (req_parts r) Map.empty None")
  case (Inl e)
  with run show ?thesis by (simp add: post_upload_def)
next
  case (Inr res)
  then obtain body fo where m: "multer_single ''file'' (req_parts r) Map.empty None = Inr (body, fo)"
    by (cases res) auto
  show ?thesis
  proof (cases fo)
    case None
    with m run show ?thesis by (simp add: upload_defs)
  next
    case (Some f)
    with m have size: "length (buffer f) \<le> max_file_size"
      using multer_single_file_ok by blast
    let ?k = "key_a (profile_prefix cfg) (user_id_a (raw_user_id (req_query r) body) (uuid env))
                (ext_a (originalname f))"
    let ?ob = "\<lparr>obj_body = buffer f,
                obj_content_type = resolve_mime (mimetype f) (ext_a (originalname f)),
                obj_cache_control = cache_control_a, obj_last_modified = now env\<rparr>"
    have "object_ok (profile_prefix cfg) ?k ?ob"
      using size resolve_mime_image by (rule_tac object_ok_key_a) auto
    moreover have "b' = b \<or> b' = Mapping.update ?k ?ob b"
      using m Some run by (auto simp: upload_defs Let_def s3_put_def split: option.splits sum.splits)
    ultimately show ?thesis by blast
  qed
qed

lemma post_upload_bucket_ok:
  assumes ok: "bucket_ok (profile_prefix cfg) b" and run: "post_upload cfg env r b = (resp, b')"
  shows "bucket_ok (profile_prefix cfg) b'"
  using post_upload_effect [OF run] ok by (auto intro: bucket_ok_update)

lemma server_step_post_upload: "server_step cfg b (snd (post_upload cfg env r b))"
  by (rule server_step.upload [where resp = "fst (post_upload cfg env r b)"]) simp

lemma server_step_bucket_ok:
  "server_step cfg b b' \<Longrightarrow> bucket_ok (profile_prefix cfg) b \<Longrightarrow> bucket_ok (profile_prefix cfg) b'"
  by (erule server_stepE) (auto intro: post_upload_bucket_ok)

lemma multer_single_errors:
  "multer_single fld ps body fo = Inl e \<Longrightarrow>
   e = Error only_images_message \<or> (\<exists>n. e = MulterError LIMIT_FILE_SIZE n) \<or>
   (\<exists>n. e = MulterError LIMIT_UNEXPECTED_FILE n)"
proof (induction fld ps body fo rule: multer_single.induct)
  case (3 fld u ps body f)
  then show ?case
    by (auto simp: validate_file_def file_filter_def Let_def split: if_splits sum.splits)
qed auto

lemma js_includes_prefix: "js_includes (t @ s) t"
  by (auto simp: js_includes_def list_ex_iff intro!: bexI [of _ "t @ s"])

lemma error_middleware_status:
  assumes "e = Error only_images_message \<or> (\<exists>n. e = MulterError LIMIT_FILE_SIZE n) \<or>
    (\<exists>n. e = MulterError LIMIT_UNEXPECTED_FILE n)"
  shows "resp_status (error_middleware e) =
     (case e of MulterError LIMIT_UNEXPECTED_FILE _ \<Rightarrow> 500 | _ \<Rightarrow> 400)"
proof -
  have oi: "js_includes only_images_message ''Only images''"
    using js_includes_prefix [of "''Only images''" "'' (.jpeg, .jpg, .png, .gif, .webp) are allowed.''"]
    by (simp add: only_images_message_def)
  have "\<not> js_includes ''Unexpected field'' ''Only images''"
    by (simp add: js_includes_def)
  moreover have "only_images_message \<noteq> []" by (simp add: only_images_message_def)
  ultimately show ?thesis using assms oi
    by (auto simp: error_middleware_def error_response_def Let_def)
qed

lemma post_upload_file:
  "multer_single ''file'' (req_parts r) Map.empty None = Inr (body, Some f) \<Longrightarrow>
   post_upload cfg env r b =
     store_and_respond cfg env
       (key_a (profile_prefix cfg) (user_id_a (raw_user_id (req_query r) body) (uuid env))
          (ext_a (originalname f)))
       f (resolve_mime (mimetype f) (ext_a (originalname f))) cache_control_a b"
  by (simp add: post_upload_def upload_handler_def Let_def)

lemma post_upload_b_file:
  "multer_single ''file'' (req_parts r) Map.empty None = Inr (body, Some f) \<Longrightarrow>
   js_truthy (raw_user_id (req_query r) body) \<Longrightarrow>
   post_upload_b cfg env r b =
     store_and_respond cfg env
       (key_b (profile_prefix cfg) (user_id_b (js_or_else (raw_user_id (req_query r) body) (PStr []))))
       f (resolve_mime (mimetype f) (ext_b (originalname f))) cache_control_b b"
  by (simp add: post_upload_b_def upload_handler_b_def Let_def)

lemma store_and_respond_ok:
  "put_fault env = None \<Longrightarrow> k \<noteq> [] \<Longrightarrow>
   \<exists>url. store_and_respond cfg env k f ct cc b =
     (created_response url k,
      Mapping.update k \<lparr>obj_body = buffer f, obj_content_type = ct, obj_cache_control = cc,
                        obj_last_modified = now env\<rparr> b)"
  using resolve_url_Inr [of k cfg]
  by (auto simp: store_and_respond_def s3_put_def)

lemma length_filter_sorted_list_of_set:
  "finite K \<Longrightarrow> length (filter P (sorted_list_of_set K)) = card {k \<in> K. P k}"
proof -
  assume fin: "finite K"
  have d: "distinct (filter P (sorted_list_of_set K))" by simp
  have st: "set (filter P (sorted_list_of_set K)) = {k \<in> K. P k}" using fin by auto
  show ?thesis using distinct_card [OF d] st by simp
qed

lemma list_profile_pics_ok:
  "list_profile_pics cfg None b =
     (let objs = map (\<lambda>k. (k, the (Mapping.lookup b k)))
                   (take 100 (filter (prefix (profile_prefix cfg @ ''/'')) (Mapping.ordered_keys b)));
          items = map (list_item (list_base_url cfg)) objs
      in \<lparr>resp_status = 200,
          resp_body = JObj [(''prefix'', JStr (profile_prefix cfg)),
                            (''count'', JNum (length items)), (''items'', JArr items)]\<rparr>)"
  by (simp add: list_profile_pics_def s3_list_def Let_def)

lemma sorted_wrt_ordered_keys: "sorted_wrt (<) (Mapping.ordered_keys b)"
  by (simp add: ordered_keys_def strict_sorted_iff)

lemma listed_when_few:
  assumes fin: "finite (Mapping.keys b)" and lk: "Mapping.lookup b k = Some ob"
    and pk: "prefix (profile_prefix cfg @ ''/'') k"
    and few: "card {k \<in> Mapping.keys b. prefix (profile_prefix cfg @ ''/'') k} \<le> 100"
  shows "\<exists>items. list_profile_pics cfg None b =
           \<lparr>resp_status = 200,
            resp_body = JObj [(''prefix'', JStr (profile_prefix cfg)),
                              (''count'', JNum (length items)), (''items'', JArr items)]\<rparr> \<and>
           list_item (list_base_url cfg) (k, ob) \<in> set items"
proof -
  let ?P = "prefix (profile_prefix cfg @ ''/'')"
  let ?ks = "filter ?P (Mapping.ordered_keys b)"
  have len: "length ?ks \<le> 100"
    using fin few by (simp add: ordered_keys_def length_filter_sorted_list_of_set)
  have "k \<in> Mapping.keys b" using lk by (simp add: keys_is_none_rep Option.is_none_def)
  then have "k \<in> set ?ks" using fin pk by (simp add: ordered_keys_def)
  with len have "k \<in> set (take 100 ?ks)" by simp
  then have "(k, ob) \<in> set (map (\<lambda>k. (k, the (Mapping.lookup b k))) (take 100 ?ks))"
    using lk by force
  then show ?thesis by (auto simp: list_profile_pics_ok Let_def)
qed

text \<open>C15. In the README variant an upload without a truthy identifier (none of the four
  parameters present, or all empty strings) is answered 400 "Missing userId" and
  nothing is stored.\<close>

theorem upload_b_requires_user_id:
  assumes "multer_single ''file'' (req_parts r) Map.empty None = Inr (body, Some f)"
    and "\<not> js_truthy (raw_user_id (req_query r) body)"
  shows "post_upload_b cfg env r b = (error_response 400 missing_user_message [], b)"
  using assms by (simp add: post_upload_b_def upload_handler_b_def)

theorem upload_b_requires_user_id_witness:
  "post_upload_b
      \<lparr>s3 = \<lparr>region = ''eu-west-1'', bucket_name = ''pics'', signature = (\<lambda>k e. ''sig'')\<rparr>,
       profile_prefix = ''profile-pics'', public_base_url = None\<rparr>
      \<lparr>uuid = ''u'', put_fault = None, now = 7\<rparr>
      \<lparr>req_query = Map.empty(''userId'' \<mapsto> PStr []),
       req_parts = [FilePart \<lparr>fieldname = ''file'', originalname = ''a.png'',
                      mimetype = ''image/png'', buffer = replicate 10 0\<rparr>]\<rparr>
      Mapping.empty
    = (error_response 400 missing_user_message [], Mapping.empty)"
proof -
  let ?r = "\<lparr>req_query = Map.empty(''userId'' \<mapsto> PStr []),
       req_parts = [FilePart \<lparr>fieldname = ''file'', originalname = ''a.png'',
                      mimetype = ''image/png'', buffer = replicate 10 (0::byte)\<rparr>]\<rparr>"
  have m: "multer_single ''file'' (req_parts ?r) Map.empty None =
      Inr (Map.empty, Some \<lparr>fieldname = ''file'', originalname = ''a.png'',
                      mimetype = ''image/png'', buffer = replicate 10 0\<rparr>)"
    by (simp add: js_simps)
  have t: "\<not> js_truthy (raw_user_id (req_query ?r) Map.empty)" by (simp add: js_simps)
  from upload_b_requires_user_id [OF m t] show ?thesis by simp
qed

text \<open>C16. In the README variant the key depends on the identifier only: a second
  successful upload with the same identifier replaces the first object (whatever the
  two file names), leaving the bucket as if only the second upload had happened, with
  the no-store cache policy.\<close>

theorem upload_b_last_write_wins:
  assumes m1: "multer_single ''file'' (req_parts r1) Map.empty None = Inr (body1, Some f1)"
    and m2: "multer_single ''file'' (req_parts r2) Map.empty None = Inr (body2, Some f2)"
    and same: "raw_user_id (req_query r2) body2 = raw_user_id (req_query r1) body1"
    and t: "js_truthy (raw_user_id (req_query r1) body1)"
    and ok1: "put_fault e1 = None" and ok2: "put_fault e2 = None"
    and run1: "post_upload_b cfg e1 r1 b = (resp1, b1)"
  shows "\<exists>url. post_upload_b cfg e2 r2 b1 =
           (created_response url
              (key_b (profile_prefix cfg) (user_id_b (js_or_else (raw_user_id (req_query r1) body1) (PStr [])))),
            Mapping.update
              (key_b (profile_prefix cfg) (user_id_b (js_or_else (raw_user_id (req_query r1) body1) (PStr []))))
              \<lparr>obj_body = buffer f2, obj_content_type = resolve_mime (mimetype f2) (ext_b (originalname f2)),
               obj_cache_control = cache_control_b, obj_last_modified = now e2\<rparr> b)"
proof -
  let ?k = "key_b (profile_prefix cfg) (user_id_b (js_or_else (raw_user_id (req_query r1) body1) (PStr [])))"
  obtain url1 ob1 where "post_upload_b cfg e1 r1 b = (created_response url1 ?k, Mapping.update ?k ob1 b)"
    using store_and_respond_ok [OF ok1 key_b_nonempty] post_upload_b_file [OF m1 t] by fastforce
  with run1 have b1: "b1 = Mapping.update ?k ob1 b" by simp
  have t2: "js_truthy (raw_user_id (req_query r2) body2)" using t same by simp
  let ?ob2 = "\<lparr>obj_body = buffer f2, obj_content_type = resolve_mime (mimetype f2) (ext_b (originalname f2)),
               obj_cache_control = cache_control_b, obj_last_modified = now e2\<rparr>"
  obtain url where "store_and_respond cfg e2 ?k f2 (resolve_mime (mimetype f2) (ext_b (originalname f2)))
      cache_control_b b1 = (created_response url ?k, Mapping.update ?k ?ob2 b1)"
    using store_and_respond_ok [OF ok2 key_b_nonempty] by blast
  then have "post_upload_b cfg e2 r2 b1 = (created_response url ?k, Mapping.update ?k ?ob2 b)"
    by (simp add: post_upload_b_file [OF m2 t2] same b1 Mapping.update_update)
  then show ?thesis by blast
qed

theorem upload_b_last_write_wins_witness:
  "\<exists>url. post_upload_b
      \<lparr>s3 = \<lparr>region = ''eu-west-1'', bucket_name = ''pics'', signature = (\<lambda>k e. ''sig'')\<rparr>,
       profile_prefix = ''profile-pics'', public_base_url = None\<rparr>
      \<lparr>uuid = ''u'', put_fault = None, now = 2\<rparr>
      \<lparr>req_query = Map.empty(''userId'' \<mapsto> PStr ''c1''),
       req_parts = [FilePart \<lparr>fieldname = ''file'', originalname = ''b.jpg'',
                      mimetype = ''image/jpeg'', buffer = replicate 20 1\<rparr>]\<rparr>
      (snd (post_upload_b
        \<lparr>s3 = \<lparr>region = ''eu-west-1'', bucket_name = ''pics'', signature = (\<lambda>k e. ''sig'')\<rparr>,
         profile_prefix = ''profile-pics'', public_base_url = None\<rparr>
        \<lparr>uuid = ''u'', put_fault = None, now = 1\<rparr>
        \<lparr>req_query = Map.empty(''userId'' \<mapsto> PStr ''c1''),
         req_parts = [FilePart \<lparr>fieldname = ''file'', originalname = ''a.png'',
                        mimetype = ''image/png'', buffer = replicate 10 0\<rparr>]\<rparr>
        Mapping.empty))
    = (created_response url ''profile-pics/c1'',
       Mapping.update ''profile-pics/c1''
         \<lparr>obj_body = replicate 20 1, obj_content_type = ''image/jpeg'',
          obj_cache_control = cache_control_b, obj_last_modified = 2\<rparr> Mapping.empty)"
proof -
  let ?c = "\<lparr>s3 = \<lparr>region = ''eu-west-1'', bucket_name = ''pics'', signature = (\<lambda>(k::key) (e::nat). ''sig'')\<rparr>,
         profile_prefix = ''profile-pics'', public_base_url = None\<rparr>"
  let ?f1 = "\<lparr>fieldname = ''file'', originalname = ''a.png'', mimetype = ''image/png'',
              buffer = replicate 10 (0::byte)\<rparr>"
  let ?f2 = "\<lparr>fieldname = ''file'', originalname = ''b.jpg'', mimetype = ''image/jpeg'',
              buffer = replicate 20 (1::byte)\<rparr>"
  let ?r1 = "\<lparr>req_query = Map.empty(''userId'' \<mapsto> PStr ''c1''), req_parts = [FilePart ?f1]\<rparr>"
  let ?r2 = "\<lparr>req_query = Map.empty(''userId'' \<mapsto> PStr ''c1''), req_parts = [FilePart ?f2]\<rparr>"
  let ?e1 = "\<lparr>uuid = ''u'', put_fault = None, now = 1\<rparr>"
  let ?e2 = "\<lparr>uuid = ''u'', put_fault = None, now = 2\<rparr>"
  have m1: "multer_single ''file'' (req_parts ?r1) Map.empty None = Inr (Map.empty, Some ?f1)"
    by (simp add: js_simps)
  have m2: "multer_single ''file'' (req_parts ?r2) Map.empty None = Inr (Map.empty, Some ?f2)"
    by (simp add: js_simps)
  have same: "raw_user_id (req_query ?r2) Map.empty = raw_user_id (req_query ?r1) Map.empty" by simp
  have t: "js_truthy (raw_user_id (req_query ?r1) Map.empty)" by (simp add: js_simps)
  have run1: "post_upload_b ?c ?e1 ?r1 Mapping.empty =
      (fst (post_upload_b ?c ?e1 ?r1 Mapping.empty), snd (post_upload_b ?c ?e1 ?r1 Mapping.empty))"
    by simp
  have ok1: "put_fault ?e1 = None" and ok2: "put_fault ?e2 = None" by simp_all
  from upload_b_last_write_wins [OF m1 m2 same t ok1 ok2 run1] show ?thesis
    by (simp add: js_simps)
qed

text \<open>The listing answers 200 with the prefix, the items and their count, and the
  count is the number of stored keys under \<open>prefix/\<close>, capped at 100 (MaxKeys).\<close>

theorem list_count:
  assumes "finite (Mapping.keys b)"
  shows "\<exists>items. list_profile_pics cfg None b =
           \<lparr>resp_status = 200,
            resp_body = JObj [(''prefix'', JStr (profile_prefix cfg)),
                              (''count'', JNum (length items)), (''items'', JArr items)]\<rparr> \<and>
           length items = min 100 (card {k \<in> Mapping.keys b. prefix (profile_prefix cfg @ ''/'') k})"
  using assms
  by (simp add: list_profile_pics_ok Let_def ordered_keys_def length_filter_sorted_list_of_set)

theorem list_count_witness:
  "\<exists>items. list_profile_pics
      \<lparr>s3 = \<lparr>region = ''eu-west-1'', bucket_name = ''pics'', signature = (\<lambda>k e. ''sig'')\<rparr>,
       profile_prefix = ''profile-pics'', public_base_url = None\<rparr> None
      (Mapping.update ''profile-pics/a.jpg'' \<lparr>obj_body = [], obj_content_type = ''image/jpeg'',
         obj_cache_control = [], obj_last_modified = 0\<rparr>
        (Mapping.update ''profile-pics/b.jpg'' \<lparr>obj_body = [], obj_content_type = ''image/jpeg'',
           obj_cache_control = [], obj_last_modified = 0\<rparr>
          (Mapping.update ''other/c.jpg'' \<lparr>obj_body = [], obj_content_type = ''image/jpeg'',
             obj_cache_control = [], obj_last_modified = 0\<rparr> Mapping.empty)))
    = \<lparr>resp_status = 200,
       resp_body = JObj [(''prefix'', JStr ''profile-pics''), (''count'', JNum (length items)),
                         (''items'', JArr items)]\<rparr> \<and> length items = 2"
proof -
  let ?b = "Mapping.update ''profile-pics/a.jpg'' \<lparr>obj_body = [], obj_content_type = ''image/jpeg'',
         obj_cache_control = [], obj_last_modified = (0::nat)\<rparr>
        (Mapping.update ''profile-pics/b.jpg'' \<lparr>obj_body = [], obj_content_type = ''image/jpeg'',
           obj_cache_control = [], obj_last_modified = 0\<rparr>
          (Mapping.update ''other/c.jpg'' \<lparr>obj_body = [], obj_content_type = ''image/jpeg'',
             obj_cache_control = [], obj_last_modified = 0\<rparr> Mapping.empty))"
  have fin: "finite (Mapping.keys ?b)" by simp
  have k: "Mapping.keys ?b = {''profile-pics/a.jpg'', ''profile-pics/b.jpg'', ''other/c.jpg''}"
    by simp
  have "card {k \<in> Mapping.keys ?b. prefix (''profile-pics'' @ ''/'') k} = 2"
    by (simp only: k collect_insert_conj) simp
  then show ?thesis
    using list_count [OF fin, where cfg = "\<lparr>s3 = \<lparr>region = ''eu-west-1'', bucket_name = ''pics'',
        signature = (\<lambda>(k::key) (e::nat). ''sig'')\<rparr>, profile_prefix = ''profile-pics'',
        public_base_url = None\<rparr>"]
    by simp
qed

text \<open>C18. Upload then list: after an upload that succeeds into a finite bucket holding
  fewer than 100 keys under the prefix, the listing contains the new key with the
  file's size and the time of the write.\<close>

theorem upload_then_list:
  assumes m: "multer_single ''file'' (req_parts r) Map.empty None = Inr (body, Some f)"
    and ok: "put_fault env = None"
    and fin: "finite (Mapping.keys b)"
    and few: "card {k \<in> Mapping.keys b. prefix (profile_prefix cfg @ ''/'') k} < 100"
    and run: "post_upload cfg env r b = (resp, b')"
  shows "\<exists>items. list_profile_pics cfg None b' =
           \<lparr>resp_status = 200,
            resp_body = JObj [(''prefix'', JStr (profile_prefix cfg)),
                              (''count'', JNum (length items)), (''items'', JArr items)]\<rparr> \<and>
           list_item (list_base_url cfg)
             (key_a (profile_prefix cfg) (user_id_a (raw_user_id (req_query r) body) (uuid env))
                (ext_a (originalname f)),
              \<lparr>obj_body = buffer f, obj_content_type = resolve_mime (mimetype f) (ext_a (originalname f)),
               obj_cache_control = cache_control_a, obj_last_modified = now env\<rparr>) \<in> set items"
proof -
  let ?P = "prefix (profile_prefix cfg @ ''/'')"
  let ?k = "key_a (profile_prefix cfg) (user_id_a (raw_user_id (req_query r) body) (uuid env))
              (ext_a (originalname f))"
  let ?ob = "\<lparr>obj_body = buffer f, obj_content_type = resolve_mime (mimetype f) (ext_a (originalname f)),
               obj_cache_control = cache_control_a, obj_last_modified = now env\<rparr>"
  obtain url where "store_and_respond cfg env ?k f (resolve_mime (mimetype f) (ext_a (originalname f)))
      cache_control_a b = (created_response url ?k, Mapping.update ?k ?ob b)"
    using store_and_respond_ok [OF ok key_a_nonempty] by blast
  with run have b': "b' = Mapping.update ?k ?ob b" by (simp add: post_upload_file [OF m])
  have pk: "?P ?k" by (simp add: key_a_def)
  have fin': "finite (Mapping.keys b')" using fin by (simp add: b')
  have "{k \<in> Mapping.keys b'. ?P k} \<subseteq> insert ?k {k \<in> Mapping.keys b. ?P k}"
    by (auto simp: b')
  then have "card {k \<in> Mapping.keys b'. ?P k} \<le> card (insert ?k {k \<in> Mapping.keys b. ?P k})"
    using fin by (intro card_mono) auto
  also have "\<dots> \<le> Suc (card {k \<in> Mapping.keys b. ?P k})"
    by (rule card_insert_le_m1) (use fin in auto)
  finally have "card {k \<in> Mapping.keys b'. ?P k} \<le> 100" using few by simp
  moreover have "Mapping.lookup b' ?k = Some ?ob" by (simp add: b')
  ultimately show ?thesis using listed_when_few [OF fin' _ pk] by blast
qed

theorem upload_then_list_witness:
  "\<exists>items. list_profile_pics
      \<lparr>s3 = \<lparr>region = ''eu-west-1'', bucket_name = ''pics'', signature = (\<lambda>k e. ''sig'')\<rparr>,
       profile_prefix = ''profile-pics'', public_base_url = Some ''https://cdn.example.com/''\<rparr> None
      (snd (post_upload
        \<lparr>s3 = \<lparr>region = ''eu-west-1'', bucket_name = ''pics'', signature = (\<lambda>k e. ''sig'')\<rparr>,
         profile_prefix = ''profile-pics'', public_base_url = Some ''https://cdn.example.com/''\<rparr>
        \<lparr>uuid = ''u'', put_fault = None, now = 7\<rparr>
        \<lparr>req_query = Map.empty(''userId'' \<mapsto> PStr ''test-user-1''),
         req_parts = [FilePart \<lparr>fieldname = ''file'', originalname = ''test.jpg'',
                        mimetype = ''image/jpeg'', buffer = replicate 10 0\<rparr>]\<rparr>
        Mapping.empty))
    = \<lparr>resp_status = 200,
       resp_body = JObj [(''prefix'', JStr ''profile-pics''), (''count'', JNum (length items)),
                         (''items'', JArr items)]\<rparr> \<and>
     JObj [(''key'', JStr ''profile-pics/test-user-1.jpg''), (''size'', JNum 10),
           (''lastModified'', JNum 7),
           (''url'', JStr ''https://cdn.example.com/profile-pics/test-user-1.jpg'')] \<in> set items"
proof -
  let ?c = "\<lparr>s3 = \<lparr>region = ''eu-west-1'', bucket_name = ''pics'', signature = (\<lambda>(k::key) (e::nat). ''sig'')\<rparr>,
         profile_prefix = ''profile-pics'', public_base_url = Some ''https://cdn.example.com/''\<rparr>"
  let ?f = "\<lparr>fieldname = ''file'', originalname = ''test.jpg'', mimetype = ''image/jpeg'',
             buffer = replicate 10 (0::byte)\<rparr>"
  let ?r = "\<lparr>req_query = Map.empty(''userId'' \<mapsto> PStr ''test-user-1''), req_parts = [FilePart ?f]\<rparr>"
  let ?e = "\<lparr>uuid = ''u'', put_fault = None, now = 7\<rparr>"
  have m: "multer_single ''file'' (req_parts ?r) Map.empty None = Inr (Map.empty, Some ?f)"
    by (simp add: js_simps)
  have ok: "put_fault ?e = None" by simp
  have fin: "finite (Mapping.keys (Mapping.empty :: bucket))" by simp
  have few: "card {k \<in> Mapping.keys (Mapping.empty :: bucket). prefix (profile_prefix ?c @ ''/'') k} < 100"
    by simp
  have run: "post_upload ?c ?e ?r Mapping.empty =
      (fst (post_upload ?c ?e ?r Mapping.empty), snd (post_upload ?c ?e ?r Mapping.empty))"
    by simp
  from upload_then_list [OF m ok fin few run] show ?thesis
    by (simp add: js_simps list_item_def list_base_url_def)
qed

lemma strip_trailing_slash_Nil_iff:
  "s \<noteq> [] \<Longrightarrow> (strip_trailing_slash s = []) = (s = ''/'')"
  by (cases s rule: rev_cases) (auto simp: strip_trailing_slash_def)

lemma first_missing_None:
  "(first_missing env ks = None) = (\<forall>k \<in> set ks. env k \<noteq> None \<and> env k \<noteq> Some [])"
  by (induction ks) auto

lemma env_or_nonempty: "d \<noteq> [] \<Longrightarrow> env_or env k d \<noteq> []"
  by (simp add: env_or_def split: option.splits)

text \<open>C19. With a public base URL configured, the upload answers the base URL without
  one trailing slash, a slash and the key, and the listing gives each item the same URL,
  except for the base URL "/": there the upload answers "/" followed by the key while
  the listing's URL is null.\<close>

theorem public_url_upload_vs_list:
  assumes "public_base_url cfg = Some base" and "base \<noteq> []"
  shows "resolve_url cfg k = Inr (strip_trailing_slash base @ ''/'' @ k) \<and>
         list_item (list_base_url cfg) (k, ob) =
           JObj [(''key'', JStr k), (''size'', JNum (length (obj_body ob))),
                 (''lastModified'', JNum (obj_last_modified ob)),
                 (''url'', if base = ''/'' then JNull else JStr (strip_trailing_slash base @ ''/'' @ k))]"
  using assms strip_trailing_slash_Nil_iff [OF assms(2)]
  by (simp add: resolve_url_def list_item_def list_base_url_def)

theorem public_url_upload_vs_list_witness:
  "resolve_url \<lparr>s3 = \<lparr>region = ''eu-west-1'', bucket_name = ''pics'', signature = (\<lambda>k e. ''sig'')\<rparr>,
       profile_prefix = ''profile-pics'', public_base_url = Some ''/''\<rparr> ''profile-pics/a.jpg''
     = Inr ''/profile-pics/a.jpg'' \<and>
   list_item (list_base_url \<lparr>s3 = \<lparr>region = ''eu-west-1'', bucket_name = ''pics'', signature = (\<lambda>k e. ''sig'')\<rparr>,
       profile_prefix = ''profile-pics'', public_base_url = Some ''/''\<rparr>)
     (''profile-pics/a.jpg'', \<lparr>obj_body = [], obj_content_type = ''image/jpeg'',
        obj_cache_control = [], obj_last_modified = 3\<rparr>)
   = JObj [(''key'', JStr ''profile-pics/a.jpg''), (''size'', JNum 0), (''lastModified'', JNum 3),
           (''url'', JNull)]"
  using public_url_upload_vs_list [where cfg = "\<lparr>s3 = \<lparr>region = ''eu-west-1'', bucket_name = ''pics'',
      signature = (\<lambda>(k::key) (e::nat). ''sig'')\<rparr>, profile_prefix = ''profile-pics'',
      public_base_url = Some ''/''\<rparr>" and base = "''/''" and k = "''profile-pics/a.jpg''"
      and ob = "\<lparr>obj_body = [], obj_content_type = ''image/jpeg'', obj_cache_control = [],
         obj_last_modified = (3::nat)\<rparr>"]
  by (simp add: strip_trailing_slash_def)

text \<open>C20. With the environment the process starts with and the pairs of \<open>.env\<close>,
  start-up stops with "Missing required env" exactly when one of the four required
  variables is set but empty in the process environment, or unset there and missing or
  empty in \<open>.env\<close>: an empty variable in the process environment hides the value of
  \<open>.env\<close>. Once it starts, the key prefix is never empty (an empty S3_PROFILE_PREFIX
  falls back to profile-pics).\<close>

theorem startup_config:
  "(\<exists>msg. load_config (dotenv_config penv kvs) sg = Inl msg) =
     (\<exists>k \<in> set required_env.
        penv k = Some [] \<or> (penv k = None \<and> (dotenv_parsed kvs k = None \<or> dotenv_parsed kvs k = Some []))) \<and>
   (load_config (dotenv_config penv kvs) sg = Inr cfg \<longrightarrow> profile_prefix cfg \<noteq> [])"
proof -
  let ?env = "dotenv_config penv kvs"
  have "(\<exists>msg. load_config ?env sg = Inl msg) = (first_missing ?env required_env \<noteq> None)"
    by (auto simp: load_config_def split: option.splits)
  moreover have "load_config ?env sg = Inr cfg \<longrightarrow> profile_prefix cfg \<noteq> []"
    by (auto simp: load_config_def env_or_nonempty split: option.splits)
  moreover have "(?env k = None \<or> ?env k = Some []) =
      (penv k = Some [] \<or> (penv k = None \<and> (dotenv_parsed kvs k = None \<or> dotenv_parsed kvs k = Some [])))" for k
    by (auto simp: dotenv_config_def split: option.splits)
  ultimately show ?thesis by (auto simp: first_missing_None)
qed

theorem startup_config_witness:
  "(\<exists>msg. load_config (dotenv_config
      (Map.empty(''AWS_ACCESS_KEY_ID'' \<mapsto> ''id'', ''AWS_SECRET_ACCESS_KEY'' \<mapsto> ''s'', ''AWS_REGION'' \<mapsto> []))
      [(''AWS_REGION'', ''eu-west-1''), (''S3_BUCKET'', ''pics'')]) (\<lambda>k e. []) = Inl msg) \<and>
   \<not> (\<exists>msg. load_config (dotenv_config
      (Map.empty(''AWS_ACCESS_KEY_ID'' \<mapsto> ''id'', ''AWS_SECRET_ACCESS_KEY'' \<mapsto> ''s''))
      [(''AWS_REGION'', []), (''AWS_REGION'', ''eu-west-1''), (''S3_BUCKET'', ''pics'')]) (\<lambda>k e. []) = Inl msg)"
  using startup_config [of "Map.empty(''AWS_ACCESS_KEY_ID'' \<mapsto> ''id'', ''AWS_SECRET_ACCESS_KEY'' \<mapsto> ''s'', ''AWS_REGION'' \<mapsto> [])"
          "[(''AWS_REGION'', ''eu-west-1''), (''S3_BUCKET'', ''pics'')]" "\<lambda>k e. []"]
        startup_config [of "Map.empty(''AWS_ACCESS_KEY_ID'' \<mapsto> ''id'', ''AWS_SECRET_ACCESS_KEY'' \<mapsto> ''s'')"
          "[(''AWS_REGION'', []), (''AWS_REGION'', ''eu-west-1''), (''S3_BUCKET'', ''pics'')]" "\<lambda>k e. []"]
  by (simp add: required_env_def dotenv_parsed_def)

text \<open>C6. Every bucket the service can produce from an empty one holds only objects whose
  key is \<open>prefix/name\<close> with no further slash, whose content type is an image type, whose
  size is at most 5 MiB and whose cache policy is the one-year policy of src/server.js.\<close>

theorem reachable_bucket_ok:
  assumes "reachable cfg b"
  shows "bucket_ok (profile_prefix cfg) b"
  using assms
proof (induction rule: reachable.induct)
  case (start cfg)
  show ?case by (rule bucket_ok_empty)
next
  case (step cfg b b')
  then show ?case by (blast intro: server_step_bucket_ok)
qed

text \<open>C7. When multer hands the handler a file and PutObject succeeds, the upload answers
  201 with \<open>success\<close>, a URL and the key \<open>prefix/id.ext\<close>, and the bucket afterwards is
  the old one with that key bound to the file's bytes, its resolved content type, the
  one-year cache policy and the time of the write; the URL step never fails, since the
  six-day lifetime is within the presigner's one-week limit.\<close>

theorem upload_success:
  assumes m: "multer_single ''file'' (req_parts r) Map.empty None = Inr (body, Some f)"
    and ok: "put_fault env = None"
  shows "\<exists>url. post_upload cfg env r b =
           (created_response url
              (key_a (profile_prefix cfg) (user_id_a (raw_user_id (req_query r) body) (uuid env))
                 (ext_a (originalname f))),
            Mapping.update
              (key_a (profile_prefix cfg) (user_id_a (raw_user_id (req_query r) body) (uuid env))
                 (ext_a (originalname f)))
              \<lparr>obj_body = buffer f, obj_content_type = resolve_mime (mimetype f) (ext_a (originalname f)),
               obj_cache_control = cache_control_a, obj_last_modified = now env\<rparr> b)"
proof -
  let ?k = "key_a (profile_prefix cfg) (user_id_a (raw_user_id (req_query r) body) (uuid env))
              (ext_a (originalname f))"
  obtain url where "resolve_url cfg ?k = Inr url" using resolve_url_Inr [OF key_a_nonempty] by blast
  with ok show ?thesis
    by (intro exI [of _ url]) (simp add: post_upload_file [OF m] store_and_respond_def s3_put_def)
qed

theorem upload_success_witness:
  "\<exists>url. post_upload
      \<lparr>s3 = \<lparr>region = ''eu-west-1'', bucket_name = ''pics'', signature = (\<lambda>k e. ''sig'')\<rparr>,
       profile_prefix = ''profile-pics'', public_base_url = None\<rparr>
      \<lparr>uuid = ''u'', put_fault = None, now = 7\<rparr>
      \<lparr>req_query = Map.empty,
       req_parts = [FieldPart ''userId'' ''test-user-1'',
                    FilePart \<lparr>fieldname = ''file'', originalname = ''test.jpg'',
                      mimetype = ''image/jpeg'', buffer = replicate 10 0\<rparr>]\<rparr>
      Mapping.empty
    = (created_response url ''profile-pics/test-user-1.jpg'',
       Mapping.update ''profile-pics/test-user-1.jpg''
         \<lparr>obj_body = replicate 10 0, obj_content_type = ''image/jpeg'',
          obj_cache_control = cache_control_a, obj_last_modified = 7\<rparr> Mapping.empty)"
proof -
  let ?f = "\<lparr>fieldname = ''file'', originalname = ''test.jpg'', mimetype = ''image/jpeg'',
             buffer = replicate 10 (0::byte)\<rparr>"
  let ?r = "\<lparr>req_query = Map.empty, req_parts = [FieldPart ''userId'' ''test-user-1'', FilePart ?f]\<rparr>"
  let ?e = "\<lparr>uuid = ''u'', put_fault = None, now = 7\<rparr>"
  let ?c = "\<lparr>s3 = \<lparr>region = ''eu-west-1'', bucket_name = ''pics'', signature = (\<lambda>(k::key) (e::nat). ''sig'')\<rparr>,
             profile_prefix = ''profile-pics'', public_base_url = None\<rparr>"
  have m: "multer_single ''file'' (req_parts ?r) Map.empty None
           = Inr (Map.empty(''userId'' \<mapsto> PStr ''test-user-1''), Some ?f)"
    by (simp add: js_simps)
  have p: "put_fault ?e = None" by simp
  from upload_success [OF m p, where cfg = ?c and b = Mapping.empty] show ?thesis
    by (simp add: js_simps)
qed

text \<open>C8. A request that multer refuses never reaches the handler: the bucket is left
  as it was, and the error middleware answers 400 for a refused type or an oversized
  file and 500 for a file under an unexpected field name.\<close>

theorem upload_refused_by_multer:
  assumes "multer_single ''file'' (req_parts r) Map.empty None = Inl e"
  shows "post_upload cfg env r b = (error_middleware e, b) \<and>
         resp_status (error_middleware e) =
           (case e of MulterError LIMIT_UNEXPECTED_FILE _ \<Rightarrow> 500 | _ \<Rightarrow> 400)"
  using assms error_middleware_status [OF multer_single_errors [OF assms]]
  by (simp add: post_upload_def)

theorem upload_refused_by_multer_witness:
  "post_upload
      \<lparr>s3 = \<lparr>region = ''eu-west-1'', bucket_name = ''pics'', signature = (\<lambda>k e. ''sig'')\<rparr>,
       profile_prefix = ''profile-pics'', public_base_url = None\<rparr>
      \<lparr>uuid = ''u'', put_fault = None, now = 7\<rparr>
      \<lparr>req_query = Map.empty,
       req_parts = [FilePart \<lparr>fieldname = ''file'', originalname = ''notes.txt'',
                      mimetype = ''text/plain'', buffer = replicate 10 0\<rparr>]\<rparr>
      Mapping.empty
    = (error_middleware (Error only_images_message), Mapping.empty) \<and>
   resp_status (error_middleware (Error only_images_message)) = 400"
proof -
  let ?r = "\<lparr>req_query = Map.empty,
     req_parts = [FilePart \<lparr>fieldname = ''file'', originalname = ''notes.txt'',
       mimetype = ''text/plain'', buffer = replicate 10 (0::byte)\<rparr>]\<rparr>"
  have m: "multer_single ''file'' (req_parts ?r) Map.empty None = Inl (Error only_images_message)"
    by (simp add: js_simps)
  from upload_refused_by_multer [OF m] show ?thesis by simp
qed

text \<open>When no file part arrives the handler answers 400 "No file uploaded" and
  stores nothing.\<close>

theorem upload_without_file:
  assumes "multer_single ''file'' (req_parts r) Map.empty None = Inr (body, None)"
  shows "post_upload cfg env r b = (error_response 400 no_file_message [], b)"
  using assms by (simp add: post_upload_def upload_handler_def)

theorem upload_without_file_witness:
  "post_upload
      \<lparr>s3 = \<lparr>region = ''eu-west-1'', bucket_name = ''pics'', signature = (\<lambda>k e. ''sig'')\<rparr>,
       profile_prefix = ''profile-pics'', public_base_url = None\<rparr>
      \<lparr>uuid = ''u'', put_fault = None, now = 7\<rparr>
      \<lparr>req_query = Map.empty, req_parts = [FieldPart ''userId'' ''x'']\<rparr> Mapping.empty
    = (error_response 400 no_file_message [], Mapping.empty)"
  by (rule upload_without_file) (simp add: js_simps)



text \<open>C10. When PutObject is refused the handler answers 500 with the service's message
  (or "Upload failed" when it is empty) and the bucket is unchanged.\<close>

theorem upload_put_refused:
  assumes "multer_single ''file'' (req_parts r) Map.empty None = Inr (body, Some f)"
    and "put_fault env = Some msg"
  shows "post_upload cfg env r b = (error_response 500 msg ''Upload failed'', b)"
  using assms by (simp add: post_upload_file store_and_respond_def s3_put_def)

theorem upload_put_refused_witness:
  "post_upload
      \<lparr>s3 = \<lparr>region = ''eu-west-1'', bucket_name = ''pics'', signature = (\<lambda>k e. ''sig'')\<rparr>,
       profile_prefix = ''profile-pics'', public_base_url = None\<rparr>
      \<lparr>uuid = ''u'', put_fault = Some ''AccessDenied'', now = 7\<rparr>
      \<lparr>req_query = Map.empty,
       req_parts = [FilePart \<lparr>fieldname = ''file'', originalname = ''a.png'',
                      mimetype = ''image/png'', buffer = replicate 10 0\<rparr>]\<rparr>
      Mapping.empty
    = (error_response 500 ''AccessDenied'' ''Upload failed'', Mapping.empty)"
  by (rule upload_put_refused) (simp_all add: js_simps)

theorem reachable_bucket_ok_witness:
  "reachable \<lparr>s3 = \<lparr>region = ''eu-west-1'', bucket_name = ''pics'', signature = (\<lambda>k e. ''sig'')\<rparr>,
              profile_prefix = ''profile-pics'', public_base_url = None\<rparr>
     (snd (post_upload
        \<lparr>s3 = \<lparr>region = ''eu-west-1'', bucket_name = ''pics'', signature = (\<lambda>k e. ''sig'')\<rparr>,
         profile_prefix = ''profile-pics'', public_base_url = None\<rparr>
        \<lparr>uuid = ''u'', put_fault = None, now = 1\<rparr>
        \<lparr>req_query = Map.empty,
         req_parts = [FilePart \<lparr>fieldname = ''file'', originalname = ''me.png'',
                      mimetype = ''image/png'', buffer = replicate 10 0\<rparr>]\<rparr>
        Mapping.empty)) \<and>
   bucket_ok ''profile-pics''
     (snd (post_upload
        \<lparr>s3 = \<lparr>region = ''eu-west-1'', bucket_name = ''pics'', signature = (\<lambda>k e. ''sig'')\<rparr>,
         profile_prefix = ''profile-pics'', public_base_url = None\<rparr>
        \<lparr>uuid = ''u'', put_fault = None, now = 1\<rparr>
        \<lparr>req_query = Map.empty,
         req_parts = [FilePart \<lparr>fieldname = ''file'', originalname = ''me.png'',
                      mimetype = ''image/png'', buffer = replicate 10 0\<rparr>]\<rparr>
        Mapping.empty))" (is "reachable ?c ?b \<and> _")
proof -
  have "reachable ?c ?b"
    by (rule reachable.step [OF reachable.start server_step_post_upload])
  with reachable_bucket_ok [OF this] show ?thesis by simp
qed

text \<open>C30. The listing returns the first 100 keys under \<open>prefix/\<close> in strictly ascending
  byte order, each paired with the object stored under it, whatever the order of the
  writes; keys outside the prefix and keys past the hundredth are not reported.\<close>

theorem list_order:
  "\<exists>objs. list_profile_pics cfg None b =
      \<lparr>resp_status = 200,
       resp_body = JObj [(''prefix'', JStr (profile_prefix cfg)), (''count'', JNum (length objs)),
                         (''items'', JArr (map (list_item (list_base_url cfg)) objs))]\<rparr> \<and>
      map fst objs = take 100 (filter (prefix (profile_prefix cfg @ ''/'')) (Mapping.ordered_keys b)) \<and>
      sorted_wrt (<) (map fst objs) \<and>
      (\<forall>(k, ob) \<in> set objs. prefix (profile_prefix cfg @ ''/'') k \<and> Mapping.lookup b k = Some ob)"
proof -
  obtain objs where l: "s3_list None (profile_prefix cfg @ ''/'') 100 b = Inr objs"
    by (simp add: s3_list_def)
  have "map fst objs = take 100 (filter (prefix (profile_prefix cfg @ ''/'')) (Mapping.ordered_keys b))"
    using l by (auto simp: s3_list_def comp_def)
  moreover have "sorted_wrt (<) (take 100 (filter (prefix (profile_prefix cfg @ ''/'')) (Mapping.ordered_keys b)))"
    using sorted_wrt_ordered_keys [of b] by (simp add: sorted_wrt_take sorted_wrt_filter)
  moreover note s3_list_bounds [OF l]
  ultimately show ?thesis
    using l by (intro exI [of _ objs]) (auto simp: list_profile_pics_def Let_def)
qed

theorem list_order_witness:
  "\<exists>objs. list_profile_pics \<lparr>s3 = \<lparr>region = ''eu-west-1'', bucket_name = ''pics'', signature = (\<lambda>(k::key) (e::nat). ''sig'')\<rparr>,
       profile_prefix = ''profile-pics'', public_base_url = None\<rparr> None (Mapping.update ''profile-pics/b.jpg'' \<lparr>obj_body = [], obj_content_type = ''image/jpeg'',
         obj_cache_control = [], obj_last_modified = 0\<rparr>
       (Mapping.update ''other/c.jpg'' \<lparr>obj_body = [], obj_content_type = ''image/jpeg'',
          obj_cache_control = [], obj_last_modified = 0\<rparr>
         (Mapping.update ''profile-pics/a.jpg'' \<lparr>obj_body = [], obj_content_type = ''image/jpeg'',
            obj_cache_control = [], obj_last_modified = 0\<rparr> Mapping.empty))) =
      \<lparr>resp_status = 200,
       resp_body = JObj [(''prefix'', JStr ''profile-pics''), (''count'', JNum (length objs)),
                         (''items'', JArr (map (list_item (list_base_url \<lparr>s3 = \<lparr>region = ''eu-west-1'', bucket_name = ''pics'', signature = (\<lambda>(k::key) (e::nat). ''sig'')\<rparr>,
       profile_prefix = ''profile-pics'', public_base_url = None\<rparr>)) objs))]\<rparr> \<and>
      map fst objs = [''profile-pics/a.jpg'', ''profile-pics/b.jpg'']"
proof -
  let ?c = "\<lparr>s3 = \<lparr>region = ''eu-west-1'', bucket_name = ''pics'', signature = (\<lambda>(k::key) (e::nat). ''sig'')\<rparr>,
       profile_prefix = ''profile-pics'', public_base_url = None\<rparr>"
  let ?b = "Mapping.update ''profile-pics/b.jpg'' \<lparr>obj_body = [], obj_content_type = ''image/jpeg'',
         obj_cache_control = [], obj_last_modified = 0\<rparr>
       (Mapping.update ''other/c.jpg'' \<lparr>obj_body = [], obj_content_type = ''image/jpeg'',
          obj_cache_control = [], obj_last_modified = 0\<rparr>
         (Mapping.update ''profile-pics/a.jpg'' \<lparr>obj_body = [], obj_content_type = ''image/jpeg'',
            obj_cache_control = [], obj_last_modified = 0\<rparr> Mapping.empty))"
  have o: "Mapping.ordered_keys ?b = [''other/c.jpg'', ''profile-pics/a.jpg'', ''profile-pics/b.jpg'']"
    by (simp add: ordered_keys_def insort_insert_key_def)
  from list_order [of ?c ?b] o show ?thesis by auto
qed

end
