(* ===== verification/Lookup.thy ===== *)
theory Lookup
  imports Server UriCodec
begin

text \<open>
  The URL-by-key route \<open>GET /api/profile-pic/:key(*)\<close> of \<open>src/server.js\<close> (lines
  146-159). Express matches the rest of the path as the parameter \<open>key\<close> and decodes it
  with \<open>decodeURIComponent\<close> (its \<open>decode_param\<close>; a malformed escape becomes an error
  "Failed to decode param" passed to the error middleware). The handler decodes the
  parameter a second time, presigns a \<open>GetObject\<close> of the result for 3600 seconds and
  answers \<open>200 {url}\<close>; a thrown error answers \<open>500 {error}\<close>. The route reads no bucket
  state: it presigns whatever key it is given.
\<close>

definition lookup_ttl :: nat where
  "lookup_ttl = 3600"

definition uri_malformed_message :: string where
  "uri_malformed_message = ''URI malformed''"

definition url_response :: "string \<Rightarrow> response" where
  "url_response url = \<lparr>resp_status = 200, resp_body = JObj [(''url'', JStr url)]\<rparr>"

text \<open>The handler, lines 147-158: decode, presign, answer.\<close>

definition get_profile_pic :: "config \<Rightarrow> string \<Rightarrow> response" where
  "get_profile_pic cfg param =
     (case decode_uri_component param of
        None \<Rightarrow> error_response 500 uri_malformed_message ''Failed to get URL''
      | Some k \<Rightarrow>
          (case presign (s3 cfg) k lookup_ttl of
             Inl msg \<Rightarrow> error_response 500 msg ''Failed to get URL''
           | Inr url \<Rightarrow> url_response url))"

text \<open>Express's \<open>decode_param\<close>: an empty value is kept, otherwise it is decoded, and a
  \<open>URIError\<close> is rethrown with the message "Failed to decode param 'v'".\<close>

definition express_decode_param :: "string \<Rightarrow> js_error + string" where
  "express_decode_param v =
     (if v = [] then Inr v
      else case decode_uri_component v of
        None \<Rightarrow> Inl (Error (''Failed to decode param '' @ [CHR 0x27] @ v @ [CHR 0x27]))
      | Some d \<Rightarrow> Inr d)"

definition get_profile_pic_route :: "config \<Rightarrow> string \<Rightarrow> response" where
  "get_profile_pic_route cfg raw =
     (case express_decode_param raw of
        Inl e \<Rightarrow> error_middleware e
      | Inr p \<Rightarrow> get_profile_pic cfg p)"

text \<open>The URL the presigner gives for a lookup of key \<open>k\<close>.\<close>

abbreviation lookup_url :: "config \<Rightarrow> key \<Rightarrow> string" where
  "lookup_url cfg k \<equiv>
     ''https://'' @ bucket_name (s3 cfg) @ ''.s3.'' @ region (s3 cfg) @ ''.amazonaws.com/'' @
     uri_escape_path k @ ''?X-Amz-Expires=3600&X-Amz-Signature='' @ signature (s3 cfg) k 3600"

declare lookup_ttl_def [js_simps] uri_malformed_message_def [js_simps] url_response_def [js_simps]
  get_profile_pic_def [js_simps] express_decode_param_def [js_simps]
  get_profile_pic_route_def [js_simps]

section \<open>Lemmas\<close>

lemma nat_str_3600: "nat_str 3600 = ''3600''"
  by (simp add: nat_str.simps char_of_eq_iff)

lemma presign_lookup: "k \<noteq> [] \<Longrightarrow> presign c k lookup_ttl = Inr
     (''https://'' @ bucket_name c @ ''.s3.'' @ region c @ ''.amazonaws.com/'' @
      uri_escape_path k @ ''?X-Amz-Expires=3600&X-Amz-Signature='' @ signature c k 3600)"
  by (simp add: presign_def lookup_ttl_def max_presign_expiry_def nat_str_3600)

text \<open>The handler answers the presigned URL of whatever the parameter decodes to, unless
  that is empty.\<close>

lemma get_profile_pic_decoded:
  "get_profile_pic cfg p =
     (case decode_uri_component p of
        None \<Rightarrow> error_response 500 uri_malformed_message ''Failed to get URL''
      | Some k \<Rightarrow> if k = [] then error_response 500 empty_key_message ''Failed to get URL''
                  else url_response (lookup_url cfg k))"
  by (simp add: get_profile_pic_def presign_lookup split: option.split) (simp add: presign_def)

text \<open>A path written by \<open>encodeURIComponent\<close> from a well-formed UTF-8 key reaches the
  handler as that key.\<close>

lemma route_encoded:
  "utf8_wf k \<Longrightarrow> get_profile_pic_route cfg (encode_uri_component k) = get_profile_pic cfg k"
  by (simp add: get_profile_pic_route_def express_decode_param_def decode_encode_utf8)

section \<open>Properties\<close>

text \<open>C21. Looking up a non-empty key that is well-formed UTF-8 and has no percent sign, written into the path with
  \<open>encodeURIComponent\<close>, answers 200 with the key's presigned URL, whose query carries the
  3600-second lifetime and the signature.\<close>

theorem lookup_encoded_key:
  assumes "utf8_wf k" and "CHR ''%'' \<notin> set k" and "k \<noteq> []"
  shows "get_profile_pic_route cfg (encode_uri_component k) = url_response (lookup_url cfg k)"
  using assms by (simp add: route_encoded get_profile_pic_decoded decode_uri_component_no_percent)

theorem lookup_encoded_key_witness:
  "get_profile_pic_route \<lparr>s3 = \<lparr>region = ''eu-west-1'', bucket_name = ''pics'', signature = (\<lambda>(k::key) (e::nat). ''f00d'')\<rparr>,
         profile_prefix = ''profile-pics'', public_base_url = None\<rparr> ''profile-pics%2Ftest-user-1.jpg''
   = url_response
       ''https://pics.s3.eu-west-1.amazonaws.com/profile-pics/test-user-1.jpg?X-Amz-Expires=3600&X-Amz-Signature=f00d'' \<and>
   get_profile_pic_route \<lparr>s3 = \<lparr>region = ''eu-west-1'', bucket_name = ''pics'', signature = (\<lambda>(k::key) (e::nat). ''f00d'')\<rparr>,
         profile_prefix = ''profile-pics'', public_base_url = None\<rparr> ''profile-pics%2FJos%C3%A9.jpg''
   = url_response
       ''https://pics.s3.eu-west-1.amazonaws.com/profile-pics/Jos%C3%A9.jpg?X-Amz-Expires=3600&X-Amz-Signature=f00d''"
proof -
  let ?c = "\<lparr>s3 = \<lparr>region = ''eu-west-1'', bucket_name = ''pics'', signature = (\<lambda>(k::key) (e::nat). ''f00d'')\<rparr>,
         profile_prefix = ''profile-pics'', public_base_url = None\<rparr>"
  let ?k1 = "''profile-pics/test-user-1.jpg''"
  let ?k2 = "''profile-pics/Jos'' @ [CHR 0xC3, CHR 0xA9] @ ''.jpg''"
  have e1: "encode_uri_component ?k1 = ''profile-pics%2Ftest-user-1.jpg''"
    by (simp add: js_simps)
  have e2: "encode_uri_component ?k2 = ''profile-pics%2FJos%C3%A9.jpg''"
    by (simp add: js_simps)
  have w1: "utf8_wf ?k1" and w2: "utf8_wf ?k2"
    by (simp_all add: leading_ones_def utf8_valid_def utf8_code_point_def)
  have p1: "CHR ''%'' \<notin> set ?k1" and p2: "CHR ''%'' \<notin> set ?k2" by simp_all
  have n1: "?k1 \<noteq> []" and n2: "?k2 \<noteq> []" by simp_all
  have u1: "uri_escape_path ?k1 = ''profile-pics/test-user-1.jpg''"
    by (simp add: uri_escape_path_def uri_unreserved_def)
  have u2: "uri_escape_path ?k2 = ''profile-pics/Jos%C3%A9.jpg''"
    by (simp add: uri_escape_path_def uri_unreserved_def hex_digit_def char_of_eq_iff)
  from lookup_encoded_key [OF w1 p1 n1, of ?c] lookup_encoded_key [OF w2 p2 n2, of ?c] e1 e2 u1 u2
  show ?thesis by simp
qed

text \<open>C22. The key is decoded twice, so a key holding a percent sign is never looked up as
  itself: the same request answers 500 "URI malformed" when the key does not decode, and
  otherwise the presigned URL of a different, shorter key.\<close>

theorem lookup_double_decode:
  assumes "utf8_wf k" and "CHR ''%'' \<in> set k"
  shows "get_profile_pic_route cfg (encode_uri_component k) =
           (case decode_uri_component k of
              None \<Rightarrow> error_response 500 uri_malformed_message ''Failed to get URL''
            | Some k' \<Rightarrow> url_response (lookup_url cfg k')) \<and>
         (\<forall>k'. decode_uri_component k = Some k' \<longrightarrow> length k' < length k)"
proof -
  obtain c cs where "k = c # cs" using assms(2) by (cases k) auto
  then have "\<forall>k'. decode_uri_component k = Some k' \<longrightarrow> k' \<noteq> []"
    using decode_uri_component_Cons_nonempty by blast
  then show ?thesis using assms decode_uri_component_length [of k]
    by (auto simp: route_encoded get_profile_pic_decoded split: option.split)
qed

theorem lookup_double_decode_witness:
  "get_profile_pic_route \<lparr>s3 = \<lparr>region = ''eu-west-1'', bucket_name = ''pics'',
       signature = (\<lambda>k e. ''f00d'')\<rparr>, profile_prefix = ''profile-pics'', public_base_url = None\<rparr>
     ''profile-pics%2F50%25off.jpg''
   = error_response 500 ''URI malformed'' ''Failed to get URL'' \<and>
   get_profile_pic_route \<lparr>s3 = \<lparr>region = ''eu-west-1'', bucket_name = ''pics'',
       signature = (\<lambda>k e. ''f00d'')\<rparr>, profile_prefix = ''profile-pics'', public_base_url = None\<rparr>
     ''profile-pics%2Fa%2541.jpg''
   = url_response ''https://pics.s3.eu-west-1.amazonaws.com/profile-pics/aA.jpg?X-Amz-Expires=3600&X-Amz-Signature=f00d''"
proof -
  define cfg where "cfg = \<lparr>s3 = \<lparr>region = ''eu-west-1'', bucket_name = ''pics'',
       signature = (\<lambda>(k::key) (e::nat). ''f00d'')\<rparr>, profile_prefix = ''profile-pics'', public_base_url = None\<rparr>"
  have e1: "encode_uri_component ''profile-pics/50%off.jpg'' = ''profile-pics%2F50%25off.jpg''"
    by (simp add: js_simps)
  have e2: "encode_uri_component ''profile-pics/a%41.jpg'' = ''profile-pics%2Fa%2541.jpg''"
    by (simp add: js_simps)
  have d1: "decode_uri_component ''profile-pics/50%off.jpg'' = None"
    by (simp add: js_simps)
  have d2: "decode_uri_component ''profile-pics/a%41.jpg'' = Some ''profile-pics/aA.jpg''"
    by (simp add: js_simps)
  have a1: "utf8_wf ''profile-pics/50%off.jpg''" and a2: "utf8_wf ''profile-pics/a%41.jpg''"
    by (simp_all add: leading_ones_def)
  have "get_profile_pic_route cfg ''profile-pics%2F50%25off.jpg'' =
          error_response 500 ''URI malformed'' ''Failed to get URL''"
    using lookup_double_decode [OF a1, of cfg] e1 d1 by (simp add: uri_malformed_message_def)
  moreover have "get_profile_pic_route cfg ''profile-pics%2Fa%2541.jpg'' =
     url_response ''https://pics.s3.eu-west-1.amazonaws.com/profile-pics/aA.jpg?X-Amz-Expires=3600&X-Amz-Signature=f00d''"
    using lookup_double_decode [OF a2, of cfg] e2 d2
    by (simp add: cfg_def uri_escape_path_def uri_unreserved_def)
  ultimately show ?thesis by (simp add: cfg_def)
qed

text \<open>C31. A path that Express cannot decode never reaches the handler: the error
  middleware answers with the message "Failed to decode param '<path>'", with status 500
  unless that message contains "Only images", in which case the middleware's image-type
  test makes it 400.\<close>

theorem lookup_undecodable_path:
  assumes "raw \<noteq> []" and "decode_uri_component raw = None"
  shows "get_profile_pic_route cfg raw =
           \<lparr>resp_status =
              (if js_includes (''Failed to decode param '' @ [CHR 0x27] @ raw @ [CHR 0x27]) ''Only images''
               then 400 else 500),
            resp_body = JObj [(''error'', JStr (''Failed to decode param '' @ [CHR 0x27] @ raw @ [CHR 0x27]))]\<rparr>"
  using assms
  by (simp add: get_profile_pic_route_def express_decode_param_def error_middleware_def
      error_response_def Let_def)

theorem lookup_undecodable_path_witness:
  "resp_status (get_profile_pic_route \<lparr>s3 = \<lparr>region = ''eu-west-1'', bucket_name = ''pics'', signature = (\<lambda>(k::key) (e::nat). ''f00d'')\<rparr>,
       profile_prefix = ''profile-pics'', public_base_url = None\<rparr> ''%E0'') = 500 \<and>
   resp_status (get_profile_pic_route \<lparr>s3 = \<lparr>region = ''eu-west-1'', bucket_name = ''pics'', signature = (\<lambda>(k::key) (e::nat). ''f00d'')\<rparr>,
       profile_prefix = ''profile-pics'', public_base_url = None\<rparr> ''%E0Only images'') = 400"
proof -
  have d1: "decode_uri_component ''%E0'' = None" and d2: "decode_uri_component ''%E0Only images'' = None"
    by (simp_all add: js_simps numeral_2_eq_2)
  have i1: "\<not> js_includes (''Failed to decode param '' @ [CHR 0x27] @ ''%E0'' @ [CHR 0x27]) ''Only images''"
    by (simp add: js_includes_def)
  have i2: "js_includes (''Failed to decode param '' @ [CHR 0x27] @ ''%E0Only images'' @ [CHR 0x27]) ''Only images''"
    by (simp add: js_includes_def)
  from lookup_undecodable_path [OF _ d1, of "\<lparr>s3 = \<lparr>region = ''eu-west-1'', bucket_name = ''pics'', signature = (\<lambda>(k::key) (e::nat). ''f00d'')\<rparr>,
       profile_prefix = ''profile-pics'', public_base_url = None\<rparr>"] lookup_undecodable_path [OF _ d2, of "\<lparr>s3 = \<lparr>region = ''eu-west-1'', bucket_name = ''pics'', signature = (\<lambda>(k::key) (e::nat). ''f00d'')\<rparr>,
       profile_prefix = ''profile-pics'', public_base_url = None\<rparr>"] i1 i2
  show ?thesis by simp
qed

end
