(* ===== verification/Uuid.thy ===== *)
theory Uuid
  imports Prelude
begin

text \<open>
  Node's \<open>crypto.randomUUID()\<close>, which the upload handler calls when the request carries
  no user identifier (\<open>src/server.js\<close> line 71). Node fills 16 random bytes and
  serialises them (\<open>serializeUUID\<close>): each byte as two lower-case hexadecimal digits
  (\<open>kHexBytes\<close>), in groups of 4, 2, 2, 2 and 6 bytes joined by dashes, with the version
  nibble of byte 6 forced to 4 (\<open>(b & 0x0f) | 0x40\<close>) and the variant bits of byte 8 to
  \<open>10\<close> (\<open>(b & 0x3f) | 0x80\<close>). The random bytes are an input of the model; the theorems
  say which of their bits the identifier keeps.
\<close>

unbundle bit_operations_syntax

definition hex_lower :: "nat \<Rightarrow> char" where
  "hex_lower n = (if n < 10 then char_of (48 + n) else char_of (87 + n))"

text \<open>\<open>kHexBytes[b]\<close>, that is \<open>b.toString(16).padStart(2, '0')\<close>.\<close>

definition hex_byte :: "byte \<Rightarrow> string" where
  "hex_byte b = [hex_lower (unat b div 16), hex_lower (unat b mod 16)]"

definition uuid_version :: "byte \<Rightarrow> byte" where
  "uuid_version b = b AND 0x0F OR 0x40"

definition uuid_variant :: "byte \<Rightarrow> byte" where
  "uuid_variant b = b AND 0x3F OR 0x80"

definition hex_bytes :: "byte list \<Rightarrow> string" where
  "hex_bytes bs = concat (map hex_byte bs)"

definition serialize_uuid :: "byte list \<Rightarrow> string" where
  "serialize_uuid buf =
     hex_bytes [buf ! 0, buf ! 1, buf ! 2, buf ! 3] @ ''-'' @
     hex_bytes [buf ! 4, buf ! 5] @ ''-'' @
     hex_bytes [uuid_version (buf ! 6), buf ! 7] @ ''-'' @
     hex_bytes [uuid_variant (buf ! 8), buf ! 9] @ ''-'' @
     hex_bytes [buf ! 10, buf ! 11, buf ! 12, buf ! 13, buf ! 14, buf ! 15]"

text \<open>The 16 bytes the identifier encodes: the random bytes with the six fixed bits set.\<close>

definition uuid_fields :: "byte list \<Rightarrow> byte list" where
  "uuid_fields buf = buf[6 := uuid_version (buf ! 6), 8 := uuid_variant (buf ! 8)]"

definition hex_lower_digits :: "char set" where
  "hex_lower_digits = set ''0123456789abcdef''"

declare hex_lower_def [js_simps] hex_byte_def [js_simps] uuid_version_def [js_simps]
  uuid_variant_def [js_simps] hex_bytes_def [js_simps] serialize_uuid_def [js_simps]

section \<open>Lemmas\<close>

lemma unat_byte_less: "unat (b::byte) < 256"
  using unsigned_less [of b] by simp

lemma unat_and_15: "unat ((b::byte) AND 15) = unat b mod 16"
proof -
  have "(15::byte) = mask 4" by (simp add: mask_eq_exp_minus_1)
  then have "b AND 15 = take_bit 4 b" by (simp add: take_bit_eq_mask)
  moreover have "unat (take_bit 4 b) = take_bit 4 (unat b)" by (rule unsigned_take_bit_eq)
  ultimately show ?thesis by (simp add: take_bit_eq_mod)
qed

lemma unat_and_63: "unat ((b::byte) AND 63) = unat b mod 64"
proof -
  have "(63::byte) = mask 6" by (simp add: mask_eq_exp_minus_1)
  then have "b AND 63 = take_bit 6 b" by (simp add: take_bit_eq_mask)
  moreover have "unat (take_bit 6 b) = take_bit 6 (unat b)" by (rule unsigned_take_bit_eq)
  ultimately show ?thesis by (simp add: take_bit_eq_mod)
qed

lemma unat_uuid_version: "unat (uuid_version b) = unat b mod 16 + 64"
proof -
  have "(b AND 15) AND 64 = 0" by (simp add: and.assoc)
  then have "b AND 15 OR 64 = (b AND 15) + 64" by (simp add: disjunctive_add_eq_or)
  moreover have "unat (b AND 15) + unat (64::byte) < 2 ^ LENGTH(8)"
    using unat_and_15 [of b] by simp
  then have "unat ((b AND 15) + 64) = unat (b AND 15) + 64"
    by (subst (asm) unat_add_lem) simp
  ultimately show ?thesis by (simp add: uuid_version_def unat_and_15)
qed

lemma unat_uuid_variant: "unat (uuid_variant b) = unat b mod 64 + 128"
proof -
  have "(b AND 63) AND 128 = 0" by (simp add: and.assoc)
  then have "b AND 63 OR 128 = (b AND 63) + 128" by (simp add: disjunctive_add_eq_or)
  moreover have "unat (b AND 63) + unat (128::byte) < 2 ^ LENGTH(8)"
    using unat_and_63 [of b] by simp
  then have "unat ((b AND 63) + 128) = unat (b AND 63) + 128"
    by (subst (asm) unat_add_lem) simp
  ultimately show ?thesis by (simp add: uuid_variant_def unat_and_63)
qed

lemma of_char_hex_lower:
  "n < 16 \<Longrightarrow> of_char (hex_lower n) = (if n < 10 then 48 + n else 87 + n)"
  by (simp add: hex_lower_def)

lemma hex_lower_inj: "m < 16 \<Longrightarrow> n < 16 \<Longrightarrow> (hex_lower m = hex_lower n) = (m = n)"
proof
  assume m: "m < 16" and n: "n < 16" and eq: "hex_lower m = hex_lower n"
  then have "(of_char (hex_lower m) :: nat) = of_char (hex_lower n)" by simp
  with of_char_hex_lower [OF m] of_char_hex_lower [OF n] show "m = n"
    by (simp split: if_splits)
qed simp

lemma hex_lower_digit: "n < 16 \<Longrightarrow> hex_lower n \<in> hex_lower_digits"
proof -
  assume "n < 16"
  then have "n \<in> set [0..<16]" by simp
  then show ?thesis
    by (simp add: hex_lower_def hex_lower_digits_def upt_rec del: upt.simps) (auto simp: char_of_eq_iff)
qed

lemma hex_byte_inj: "(hex_byte a = hex_byte b) = (a = b)"
proof
  assume "hex_byte a = hex_byte b"
  moreover have "unat a div 16 < 16" "unat b div 16 < 16"
    using unat_byte_less [of a] unat_byte_less [of b] by (simp_all add: less_mult_imp_div_less)
  ultimately have "unat a div 16 = unat b div 16" "unat a mod 16 = unat b mod 16"
    by (simp_all add: hex_byte_def hex_lower_inj)
  then have "unat a = unat b" by (metis div_mult_mod_eq)
  then show "a = b" by (rule word_unat_eq_iff [THEN iffD2])
qed simp

lemma length_hex_bytes [simp]: "length (hex_bytes bs) = 2 * length bs"
  by (induction bs) (auto simp: hex_bytes_def hex_byte_def)

lemma hex_bytes_inj:
  "length xs = length ys \<Longrightarrow> (hex_bytes xs = hex_bytes ys) = (xs = ys)"
proof (induction xs arbitrary: ys)
  case (Cons x xs)
  then obtain y ys' where ys: "ys = y # ys'" by (cases ys) auto
  have "length (hex_byte x) = length (hex_byte y)" by (simp add: hex_byte_def)
  with Cons ys show ?case
    by (auto simp: hex_bytes_def hex_byte_inj)
qed (simp add: hex_bytes_def)

lemma hex_byte_digits: "set (hex_byte b) \<subseteq> hex_lower_digits"
proof -
  have "unat b div 16 < 16" using unat_byte_less [of b]
    by (simp add: less_mult_imp_div_less)
  then show ?thesis by (simp add: hex_byte_def hex_lower_digit)
qed

lemma hex_bytes_digits: "set (hex_bytes bs) \<subseteq> hex_lower_digits"
  using hex_byte_digits by (auto simp: hex_bytes_def)

lemma version_nibbles:
  "((n::nat) mod 16 + 64) div 16 = 4" "(n mod 16 + 64) mod 16 = n mod 16"
proof -
  have "(n mod 16 + 4 * 16) div 16 = 4 + n mod 16 div 16" by (rule div_mult_self1) simp
  then show "(n mod 16 + 64) div 16 = 4" by simp
  have "(n mod 16 + 4 * 16) mod 16 = n mod 16 mod 16" by (rule mod_mult_self1)
  then show "(n mod 16 + 64) mod 16 = n mod 16" by simp
qed

lemma variant_nibbles:
  "((n::nat) mod 64 + 128) div 16 = 8 + n mod 64 div 16" "(n mod 64 + 128) mod 16 = n mod 16"
proof -
  have "(n mod 64 + 8 * 16) div 16 = 8 + n mod 64 div 16" by (rule div_mult_self1) simp
  then show "(n mod 64 + 128) div 16 = 8 + n mod 64 div 16" by simp
  have "(n mod 64 + 8 * 16) mod 16 = n mod 64 mod 16" by (rule mod_mult_self1)
  then show "(n mod 64 + 128) mod 16 = n mod 16" by (simp add: mod_mod_cancel)
qed

lemma hex_byte_version: "hex_byte (uuid_version x) = [CHR ''4'', hex_lower (unat x mod 16)]"
proof -
  note version_nibbles [of "unat x"]
  then show ?thesis by (simp add: hex_byte_def unat_uuid_version hex_lower_def char_of_eq_iff)
qed

lemma hex_byte_variant:
  "\<exists>v. hex_byte (uuid_variant x) = [v, hex_lower (unat x mod 16)] \<and> v \<in> set ''89ab''"
proof -
  have "unat x mod 64 div 16 < 4" by simp
  then have "unat x mod 64 div 16 \<in> set [0..<4]" by simp
  moreover note variant_nibbles [of "unat x"]
  ultimately show ?thesis
    by (auto simp: hex_byte_def unat_uuid_variant hex_lower_def upt_rec
        char_of_eq_iff simp del: upt.simps)
qed

lemma list_16:
  "length xs = 16 \<Longrightarrow>
   \<exists>x0 x1 x2 x3 x4 x5 x6 x7 x8 x9 x10 x11 x12 x13 x14 x15.
     xs = [x0, x1, x2, x3, x4, x5, x6, x7, x8, x9, x10, x11, x12, x13, x14, x15]"
  by (simp add: numeral_eq_Suc length_Suc_conv) blast

lemma serialize_uuid_eq_iff:
  assumes "length r1 = 16" and "length r2 = 16"
  shows "(serialize_uuid r1 = serialize_uuid r2) = (uuid_fields r1 = uuid_fields r2)"
proof -
  obtain x0 x1 x2 x3 x4 x5 x6 x7 x8 x9 x10 x11 x12 x13 x14 x15 where
    r1: "r1 = [x0, x1, x2, x3, x4, x5, x6, x7, x8, x9, x10, x11, x12, x13, x14, x15]"
    using list_16 [OF assms(1)] by blast
  obtain y0 y1 y2 y3 y4 y5 y6 y7 y8 y9 y10 y11 y12 y13 y14 y15 where
    r2: "r2 = [y0, y1, y2, y3, y4, y5, y6, y7, y8, y9, y10, y11, y12, y13, y14, y15]"
    using list_16 [OF assms(2)] by blast
  show ?thesis
    unfolding r1 r2 serialize_uuid_def uuid_fields_def
    by (simp add: hex_bytes_inj del: hex_bytes_def)
qed

lemma length_serialize_uuid [simp]: "length (serialize_uuid buf) = 36"
  by (simp add: serialize_uuid_def)

lemma serialize_uuid_chars: "set (serialize_uuid buf) \<subseteq> insert CHR ''-'' hex_lower_digits"
  using hex_bytes_digits by (auto simp: serialize_uuid_def simp del: hex_bytes_def)

lemma slash_not_in_serialize_uuid: "CHR ''/'' \<notin> set (serialize_uuid buf)"
  using serialize_uuid_chars [of buf] by (auto simp: hex_lower_digits_def)

section \<open>The identifier format\<close>

text \<open>Every identifier \<open>randomUUID()\<close> returns has the RFC 4122 version-4 text form:
  groups of 8, 4, 4, 4 and 12 lower-case hexadecimal digits joined by dashes, the third
  group starting with 4 and the fourth with one of 8, 9, a, b.\<close>

lemma uuid_format:
  "\<exists>a b c v d e. serialize_uuid buf = a @ ''-'' @ b @ ''-'' @ CHR ''4'' # c @ ''-'' @ v # d @ ''-'' @ e \<and>
     length a = 8 \<and> length b = 4 \<and> length c = 3 \<and> length d = 3 \<and> length e = 12 \<and>
     v \<in> set ''89ab'' \<and> set (a @ b @ c @ d @ e) \<subseteq> hex_lower_digits"
proof -
  obtain v where v: "hex_byte (uuid_variant (buf ! 8)) = [v, hex_lower (unat (buf ! 8) mod 16)]"
    and vs: "v \<in> set ''89ab''"
    using hex_byte_variant by blast
  have m: "unat (buf ! 6) mod 16 < 16" "unat (buf ! 8) mod 16 < 16" by simp_all
  let ?c = "hex_lower (unat (buf ! 6) mod 16) # hex_byte (buf ! 7)"
  let ?d = "hex_lower (unat (buf ! 8) mod 16) # hex_byte (buf ! 9)"
  let ?a = "hex_bytes [buf ! 0, buf ! 1, buf ! 2, buf ! 3]"
  let ?b = "hex_bytes [buf ! 4, buf ! 5]"
  let ?e = "hex_bytes [buf ! 10, buf ! 11, buf ! 12, buf ! 13, buf ! 14, buf ! 15]"
  have eq: "serialize_uuid buf = ?a @ ''-'' @ ?b @ ''-'' @ CHR ''4'' # ?c @ ''-'' @ v # ?d @ ''-'' @ ?e"
    by (simp add: serialize_uuid_def hex_bytes_def hex_byte_version v)
  have "set ?c \<subseteq> hex_lower_digits" "set ?d \<subseteq> hex_lower_digits"
    using hex_byte_digits hex_lower_digit [OF m(1)] hex_lower_digit [OF m(2)] by auto
  then have "set (?a @ ?b @ ?c @ ?d @ ?e) \<subseteq> hex_lower_digits"
    using hex_bytes_digits by auto
  moreover have "length ?c = 3" "length ?d = 3" by (simp_all add: hex_byte_def)
  ultimately show ?thesis
    using eq vs by (intro exI [of _ ?a] exI [of _ ?b] exI [of _ ?c] exI [of _ v] exI [of _ ?d]
        exI [of _ ?e]) simp
qed

end
