(* ===== verification/ProfileStore.thy ===== *)
theory ProfileStore
  imports Server
begin

text \<open>
  The contract the upload service promises, as an abstract profile store: a finite map
  from keys to the stored bytes and their content type. Its only change is storing an
  image (content type \<open>image/...\<close>) of at most 5 MiB under a key in the prefix namespace,
  overwriting what was there; every other request leaves it alone. The bucket of the
  concrete model is related to it by \<open>abs_bucket\<close>, which forgets the cache policy and
  the write time, and both upload handlers (\<open>src/server.js\<close> and the variant of
  \<open>src/README.md\<close>) are shown to move the abstraction only by abstract steps. The
  theory also holds the all-or-nothing property of the upload route and the README
  variant's write at the bare prefix.
\<close>

type_synonym profile_store = "key \<rightharpoonup> bytes \<times> mime"

definition abs_bucket :: "bucket \<Rightarrow> profile_store" where
  "abs_bucket b = (\<lambda>k. map_option (\<lambda>ob. (obj_body ob, obj_content_type ob)) (Mapping.lookup b k))"

inductive spec_step :: "string \<Rightarrow> profile_store \<Rightarrow> profile_store \<Rightarrow> bool" for pfx where
  keep: "spec_step pfx P P"
| store: "prefix (pfx @ ''/'') k \<Longrightarrow> length data \<le> max_file_size \<Longrightarrow> prefix ''image/'' ct \<Longrightarrow>
          spec_step pfx P (P(k \<mapsto> (data, ct)))"

inductive spec_reach :: "string \<Rightarrow> profile_store \<Rightarrow> bool" for pfx where
  start: "spec_reach pfx Map.empty"
| step: "spec_reach pfx P \<Longrightarrow> spec_step pfx P P' \<Longrightarrow> spec_reach pfx P'"

section \<open>Lemmas\<close>

lemma abs_bucket_empty [simp]: "abs_bucket Mapping.empty = Map.empty"
  by (simp add: abs_bucket_def fun_eq_iff)

lemma abs_bucket_update:
  "abs_bucket (Mapping.update k ob b) = (abs_bucket b)(k \<mapsto> (obj_body ob, obj_content_type ob))"
  by (simp add: abs_bucket_def fun_eq_iff lookup_update')

lemma store_and_respond_effect:
  "store_and_respond cfg env k f ct cc b = (resp, b') \<Longrightarrow>
   b' = b \<or> b' = Mapping.update k \<lparr>obj_body = buffer f, obj_content_type = ct,
                                  obj_cache_control = cc, obj_last_modified = now env\<rparr> b"
  by (auto simp: store_and_respond_def s3_put_def split: option.splits sum.splits)

lemma spec_step_update:
  "prefix (pfx @ ''/'') k \<Longrightarrow> length (obj_body ob) \<le> max_file_size \<Longrightarrow>
   prefix ''image/'' (obj_content_type ob) \<Longrightarrow>
   spec_step pfx (abs_bucket b) (abs_bucket (Mapping.update k ob b))"
  by (simp add: abs_bucket_update spec_step.store)

lemma upload_simulation:
  "post_upload cfg env r b = (resp, b') \<Longrightarrow>
   spec_step (profile_prefix cfg) (abs_bucket b) (abs_bucket b')"
  by (drule post_upload_effect)
     (auto simp: object_ok_def intro: spec_step.keep spec_step_update)

lemma server_step_simulation:
  "server_step cfg b b' \<Longrightarrow> spec_step (profile_prefix cfg) (abs_bucket b) (abs_bucket b')"
  by (erule server_stepE) (auto intro: upload_simulation spec_step.keep)

lemma upload_b_effect:
  assumes run: "post_upload_b cfg env r b = (resp, b')"
  shows "b' = b \<or> (\<exists>k ob. b' = Mapping.update k ob b \<and> prefix (profile_prefix cfg @ ''/'') k \<and>
                     length (obj_body ob) \<le> max_file_size \<and> prefix ''image/'' (obj_content_type ob))"
proof (cases "multer_single ''file'' (req_parts r) Map.empty None")
  case (Inl e)
  with run show ?thesis by (simp add: post_upload_b_def)
next
  case (Inr res)
  then obtain body fo where m: "multer_single ''file'' (req_parts r) Map.empty None = Inr (body, fo)"
    by (cases res) auto
  show ?thesis
  proof (cases fo)
    case None
    with m run show ?thesis by (simp add: post_upload_b_def upload_handler_b_def)
  next
    case (Some f)
    with m have size: "length (buffer f) \<le> max_file_size"
      using multer_single_file_ok by blast
    let ?raw = "raw_user_id (req_query r) body"
    show ?thesis
    proof (cases "js_truthy ?raw")
      case False
      with m Some run show ?thesis by (simp add: post_upload_b_def upload_handler_b_def)
    next
      case True
      let ?k = "key_b (profile_prefix cfg) (user_id_b (js_or_else ?raw (PStr [])))"
      let ?ct = "resolve_mime (mimetype f) (ext_b (originalname f))"
      have sr: "store_and_respond cfg env ?k f ?ct cache_control_b b = (resp, b')"
        using m Some True run by (simp add: post_upload_b_def upload_handler_b_def Let_def)
      let ?ob = "\<lparr>obj_body = buffer f, obj_content_type = ?ct, obj_cache_control = cache_control_b,
                  obj_last_modified = now env\<rparr>"
      from store_and_respond_effect [OF sr] show ?thesis
      proof
        assume "b' = Mapping.update ?k ?ob b"
        with size resolve_mime_image [of "mimetype f" "ext_b (originalname f)"] show ?thesis
          by (intro disjI2 exI [of _ ?k] exI [of _ ?ob]) (simp add: key_b_def)
      qed simp
    qed
  qed
qed

lemma post_upload_atomic:
  assumes run: "post_upload cfg env r b = (resp, b')" and ch: "b' \<noteq> b"
  shows "resp_status resp = 201"
proof (cases "multer_single ''file'' (req_parts r) Map.empty None")
  case (Inl e)
  with run ch show ?thesis by (simp add: post_upload_def)
next
  case (Inr res)
  then obtain body fo where m: "multer_single ''file'' (req_parts r) Map.empty None = Inr (body, fo)"
    by (cases res) auto
  show ?thesis
  proof (cases fo)
    case None
    with m run ch show ?thesis by (simp add: upload_defs)
  next
    case (Some f)
    let ?k = "key_a (profile_prefix cfg) (user_id_a (raw_user_id (req_query r) body) (uuid env))
                (ext_a (originalname f))"
    obtain url where u: "resolve_url cfg ?k = Inr url" using resolve_url_Inr [OF key_a_nonempty] by blast
    from m Some run ch u show ?thesis
      by (auto simp: post_upload_file store_and_respond_def s3_put_def created_response_def
          error_response_def split: option.splits)
  qed
qed

lemma error_middleware_not_201: "resp_status (error_middleware e) \<noteq> 201"
  by (cases e) (auto simp: error_middleware_def error_response_def Let_def split: multer_code.splits)

lemma post_upload_created:
  assumes run: "post_upload cfg env r b = (resp, b')" and st: "resp_status resp = 201"
  shows "\<exists>k ob. b' = Mapping.update k ob b"
proof (cases "multer_single ''file'' (req_parts r) Map.empty None")
  case (Inl e)
  with run st error_middleware_not_201 [of e] show ?thesis by (simp add: post_upload_def)
next
  case (Inr res)
  then obtain body fo where m: "multer_single ''file'' (req_parts r) Map.empty None = Inr (body, fo)"
    by (cases res) auto
  with run st show ?thesis
    by (cases fo) (auto simp: upload_defs Let_def s3_put_def error_response_def
        split: option.splits sum.splits)
qed

section \<open>Properties\<close>



text \<open>C25. The handler of the src/README.md variant refines the same contract: each of its
  runs is an abstract step, although it writes keys without an extension and a no-store
  cache policy.\<close>

theorem readme_upload_refines_store:
  assumes "post_upload_b cfg env r b = (resp, b')"
  shows "spec_step (profile_prefix cfg) (abs_bucket b) (abs_bucket b')"
  using upload_b_effect [OF assms]
  by (auto simp: abs_bucket_update intro: spec_step.keep spec_step.store)

theorem readme_upload_refines_store_witness:
  "spec_step ''profile-pics'' Map.empty
     (abs_bucket (snd (post_upload_b \<lparr>s3 = \<lparr>region = ''eu-west-1'', bucket_name = ''pics'', signature = (\<lambda>(k::key) (e::nat). ''sig'')\<rparr>,
         profile_prefix = ''profile-pics'', public_base_url = None\<rparr> \<lparr>uuid = ''u'', put_fault = None, now = 1\<rparr> \<lparr>req_query = Map.empty(''userId'' \<mapsto> PStr ''c-1''),
         req_parts = [FilePart \<lparr>fieldname = ''file'', originalname = ''me.png'',
                      mimetype = ''image/png'', buffer = replicate 10 0\<rparr>]\<rparr> Mapping.empty)))"
proof -
  let ?c = "\<lparr>s3 = \<lparr>region = ''eu-west-1'', bucket_name = ''pics'', signature = (\<lambda>(k::key) (e::nat). ''sig'')\<rparr>,
             profile_prefix = ''profile-pics'', public_base_url = None\<rparr>"
  let ?r = "\<lparr>req_query = Map.empty(''userId'' \<mapsto> PStr ''c-1''),
             req_parts = [FilePart \<lparr>fieldname = ''file'', originalname = ''me.png'',
                          mimetype = ''image/png'', buffer = replicate 10 0\<rparr>]\<rparr>"
  let ?e = "\<lparr>uuid = ''u'', put_fault = None, now = 1\<rparr>"
  from readme_upload_refines_store [where cfg = ?c and env = ?e and r = ?r and b = Mapping.empty,
      OF surjective_pairing]
  show ?thesis by simp
qed

text \<open>C27. Uploads are all or nothing (the error-handling design of the specification):
  whenever an upload changes the bucket it answers 201, and a 201 answer means exactly one
  key was written. The URL step after a successful PutObject cannot fail, since the six-day
  lifetime is within the presigner's one-week limit.\<close>

theorem upload_all_or_nothing:
  assumes "post_upload cfg env r b = (resp, b')"
  shows "(b' \<noteq> b \<longrightarrow> resp_status resp = 201) \<and>
         (resp_status resp = 201 \<longrightarrow> (\<exists>k ob. b' = Mapping.update k ob b))"
  using post_upload_atomic [OF assms] post_upload_created [OF assms] by blast

theorem upload_all_or_nothing_witness:
  "snd (post_upload \<lparr>s3 = \<lparr>region = ''eu-west-1'', bucket_name = ''pics'', signature = (\<lambda>(k::key) (e::nat). ''sig'')\<rparr>,
       profile_prefix = ''profile-pics'', public_base_url = None\<rparr> \<lparr>uuid = ''u'', put_fault = None, now = 1\<rparr>
      \<lparr>req_query = Map.empty, req_parts = [FilePart \<lparr>fieldname = ''file'', originalname = ''a.png'',
         mimetype = ''image/png'', buffer = [1]\<rparr>]\<rparr> Mapping.empty) \<noteq> Mapping.empty \<and>
   resp_status (fst (post_upload \<lparr>s3 = \<lparr>region = ''eu-west-1'', bucket_name = ''pics'', signature = (\<lambda>(k::key) (e::nat). ''sig'')\<rparr>,
       profile_prefix = ''profile-pics'', public_base_url = None\<rparr> \<lparr>uuid = ''u'', put_fault = None, now = 1\<rparr>
      \<lparr>req_query = Map.empty, req_parts = [FilePart \<lparr>fieldname = ''file'', originalname = ''a.png'',
         mimetype = ''image/png'', buffer = [1]\<rparr>]\<rparr> Mapping.empty)) = 201"
proof -
  let ?c = "\<lparr>s3 = \<lparr>region = ''eu-west-1'', bucket_name = ''pics'', signature = (\<lambda>(k::key) (e::nat). ''sig'')\<rparr>,
       profile_prefix = ''profile-pics'', public_base_url = None\<rparr>"
  let ?e = "\<lparr>uuid = ''u'', put_fault = None, now = 1\<rparr>"
  let ?f = "\<lparr>fieldname = ''file'', originalname = ''a.png'', mimetype = ''image/png'', buffer = [1::byte]\<rparr>"
  let ?r = "\<lparr>req_query = Map.empty, req_parts = [FilePart ?f]\<rparr>"
  let ?k = "key_a (profile_prefix ?c) (user_id_a (raw_user_id (req_query ?r) Map.empty) (uuid ?e))
              (ext_a (originalname ?f))"
  have m: "multer_single ''file'' (req_parts ?r) Map.empty None = Inr (Map.empty, Some ?f)"
    by (simp add: js_simps)
  obtain url where "resolve_url ?c ?k = Inr url" using resolve_url_Inr [OF key_a_nonempty] by blast
  then have "\<exists>ob. snd (post_upload ?c ?e ?r Mapping.empty) = Mapping.update ?k ob Mapping.empty"
    by (simp add: post_upload_file [OF m] store_and_respond_def s3_put_def) blast
  then have ne: "snd (post_upload ?c ?e ?r Mapping.empty) \<noteq> Mapping.empty"
    by (auto dest: arg_cong [where f = "\<lambda>m. Mapping.lookup m ?k"])
  with upload_all_or_nothing [OF surjective_pairing, of ?c ?e ?r Mapping.empty] show ?thesis
    by blast
qed

text \<open>C28. The README variant does not keep objects one level below the prefix: a request
  whose query string parses \<open>userId\<close> to the array \<open>['']\<close> (\<open>?userId[]=\<close>) passes the
  identifier check, since an array is truthy, but its string form is empty, so a stored
  upload is written at the key \<open>prefix/\<close> itself.\<close>

theorem readme_empty_array_identifier:
  assumes "put_fault env = None"
  shows "\<exists>resp ob. post_upload_b cfg env
           \<lparr>req_query = Map.empty(''userId'' \<mapsto> PArr [PStr []]),
            req_parts = [FilePart \<lparr>fieldname = ''file'', originalname = ''me.png'',
                                   mimetype = ''image/png'', buffer = [1]\<rparr>]\<rparr> b
         = (resp, Mapping.update (profile_prefix cfg @ ''/'') ob b)"
proof -
  let ?f = "\<lparr>fieldname = ''file'', originalname = ''me.png'', mimetype = ''image/png'',
             buffer = [1::byte]\<rparr>"
  let ?r = "\<lparr>req_query = Map.empty(''userId'' \<mapsto> PArr [PStr []]), req_parts = [FilePart ?f]\<rparr>"
  have m: "multer_single ''file'' (req_parts ?r) Map.empty None = Inr (Map.empty, Some ?f)"
    by (simp add: js_simps)
  have t: "js_truthy (raw_user_id (req_query ?r) Map.empty)" by (simp add: js_simps)
  have k: "key_b (profile_prefix cfg)
      (user_id_b (js_or_else (raw_user_id (Map.empty(''userId'' \<mapsto> PArr [PStr []])) Map.empty) (PStr [])))
           = profile_prefix cfg @ ''/''"
    by (simp add: js_simps)
  obtain url where "resolve_url cfg (profile_prefix cfg @ ''/'') = Inr url"
    using resolve_url_Inr [of "profile_prefix cfg @ ''/''"] by auto
  with assms show ?thesis
    by (simp add: post_upload_b_file [OF m t] k store_and_respond_def s3_put_def) blast
qed

theorem readme_empty_array_identifier_witness:
  "\<exists>resp ob. post_upload_b \<lparr>s3 = \<lparr>region = ''eu-west-1'', bucket_name = ''pics'', signature = (\<lambda>(k::key) (e::nat). ''sig'')\<rparr>,
       profile_prefix = ''profile-pics'', public_base_url = None\<rparr> \<lparr>uuid = ''u'', put_fault = None, now = 1\<rparr>
      \<lparr>req_query = Map.empty(''userId'' \<mapsto> PArr [PStr []]),
       req_parts = [FilePart \<lparr>fieldname = ''file'', originalname = ''me.png'',
                              mimetype = ''image/png'', buffer = [1]\<rparr>]\<rparr> Mapping.empty
    = (resp, Mapping.update ''profile-pics/'' ob Mapping.empty)"
  using readme_empty_array_identifier [where cfg = "\<lparr>s3 = \<lparr>region = ''eu-west-1'', bucket_name = ''pics'', signature = (\<lambda>(k::key) (e::nat). ''sig'')\<rparr>,
       profile_prefix = ''profile-pics'', public_base_url = None\<rparr>" and env = "\<lparr>uuid = ''u'', put_fault = None, now = 1\<rparr>"
      and b = Mapping.empty] by simp

end
