(* ===== verification/ClientTest.thy ===== *)
theory ClientTest
  imports Server Uuid
begin

text \<open>
  The client script \<open>src/test-api.js\<close>: \<open>testHealth\<close> fetches \<open>/health\<close> and checks
  \<open>data.ok\<close>; \<open>testUpload\<close> posts a multipart form with the 18-byte file
  \<open>fake image content\<close> (\<open>test.jpg\<close>, \<open>image/jpeg\<close>) followed by the field
  \<open>userId = 'test-user-' + Date.now()\<close>, and checks \<open>res.ok && data.url\<close>; the driver runs
  them in order and exits with the first error. A \<open>fetch\<close> that rejects (no server) is the
  response \<open>None\<close>; \<open>Date.now()\<close> is an input. \<open>client_run\<close> runs the script against the
  server model, the upload request changing the bucket. The last section relates the
  script's fixed base URL to the port the server listens on.
\<close>

section \<open>JSON.stringify\<close>

definition json_escape_char :: "char \<Rightarrow> string" where
  "json_escape_char c =
     (let n = of_char c :: nat in
      if c = CHR 0x22 then [CHR 0x5C, CHR 0x22]
      else if c = CHR 0x5C then [CHR 0x5C, CHR 0x5C]
      else if n = 8 then [CHR 0x5C, CHR ''b'']
      else if n = 9 then [CHR 0x5C, CHR ''t'']
      else if n = 10 then [CHR 0x5C, CHR ''n'']
      else if n = 12 then [CHR 0x5C, CHR ''f'']
      else if n = 13 then [CHR 0x5C, CHR ''r'']
      else if n < 32 then [CHR 0x5C, CHR ''u'', CHR ''0'', CHR ''0'',
                           char_of (48 + n div 16), hex_lower (n mod 16)]
      else [c])"

definition json_quote :: "string \<Rightarrow> string" where
  "json_quote s = CHR 0x22 # concat (map json_escape_char s) @ [CHR 0x22]"

fun json_stringify :: "json \<Rightarrow> string" where
  "json_stringify JNull = ''null''"
| "json_stringify (JBool b) = (if b then ''true'' else ''false'')"
| "json_stringify (JNum n) = nat_str n"
| "json_stringify (JStr s) = json_quote s"
| "json_stringify (JArr xs) = ''['' @ js_join '','' (map json_stringify xs) @ '']''"
| "json_stringify (JObj kvs) =
     ''{'' @ js_join '','' (map (\<lambda>(k, v). json_quote k @ '':'' @ json_stringify v) kvs) @ ''}''"

section \<open>Reading a response\<close>

text \<open>\<open>data?.key\<close> on a parsed body, and JavaScript truthiness of the value read.\<close>

fun json_get :: "json \<Rightarrow> string \<Rightarrow> json option" where
  "json_get (JObj kvs) k = map_of kvs k"
| "json_get _ k = None"

fun json_truthy :: "json option \<Rightarrow> bool" where
  "json_truthy None = False"
| "json_truthy (Some JNull) = False"
| "json_truthy (Some (JBool b)) = b"
| "json_truthy (Some (JNum n)) = (n \<noteq> 0)"
| "json_truthy (Some (JStr s)) = (s \<noteq> [])"
| "json_truthy (Some (JArr xs)) = True"
| "json_truthy (Some (JObj kvs)) = True"

definition res_ok :: "nat \<Rightarrow> bool" where
  "res_ok status = (200 \<le> status \<and> status < 300)"

definition fetch_failed_message :: string where
  "fetch_failed_message = ''fetch failed''"

section \<open>The two checks and the driver\<close>

definition test_health :: "response option \<Rightarrow> string + unit" where
  "test_health res =
     (case res of
        None \<Rightarrow> Inl fetch_failed_message
      | Some r \<Rightarrow>
          if json_truthy (json_get (resp_body r) ''ok'') then Inr ()
          else Inl (''Health check failed: '' @ json_stringify (resp_body r)))"

definition fake_image_content :: bytes where
  "fake_image_content = map (\<lambda>c. of_nat (of_char c)) ''fake image content''"

definition test_file :: upload_file where
  "test_file = \<lparr>fieldname = ''file'', originalname = ''test.jpg'', mimetype = ''image/jpeg'',
                buffer = fake_image_content\<rparr>"

definition test_user_id :: "nat \<Rightarrow> string" where
  "test_user_id now_ms = ''test-user-'' @ nat_str now_ms"

definition test_upload_request :: "nat \<Rightarrow> request" where
  "test_upload_request now_ms =
     \<lparr>req_query = Map.empty,
      req_parts = [FilePart test_file, FieldPart ''userId'' (test_user_id now_ms)]\<rparr>"

definition test_upload :: "response option \<Rightarrow> string + unit" where
  "test_upload res =
     (case res of
        None \<Rightarrow> Inl fetch_failed_message
      | Some r \<Rightarrow>
          if res_ok (resp_status r) \<and> json_truthy (json_get (resp_body r) ''url'') then Inr ()
          else Inl ''Upload test failed'')"

text \<open>The driver against the server model: the health request, then (only if it passed)
  the upload request, which may change the bucket.\<close>

definition client_run :: "config \<Rightarrow> upload_env \<Rightarrow> nat \<Rightarrow> bucket \<Rightarrow> (string + unit) \<times> bucket" where
  "client_run cfg env now_ms b =
     (case test_health (Some health) of
        Inl msg \<Rightarrow> (Inl msg, b)
      | Inr _ \<Rightarrow>
          (let (resp, b') = post_upload cfg env (test_upload_request now_ms) b
           in (test_upload (Some resp), b')))"

section \<open>Where the script connects\<close>

text \<open>src/server.js line 11 and lines 173-175: the server listens on \<open>PORT || 4000\<close>;
  src/test-api.js line 7: the script always targets port 4000 on localhost.\<close>

definition listen_port :: "(string \<rightharpoonup> string) \<Rightarrow> string" where
  "listen_port env = env_or env ''PORT'' ''4000''"

definition server_origin :: "(string \<rightharpoonup> string) \<Rightarrow> string" where
  "server_origin env = ''http://localhost:'' @ listen_port env"

definition client_base :: string where
  "client_base = ''http://localhost:4000''"

declare json_escape_char_def [js_simps] json_quote_def [js_simps] res_ok_def [js_simps]
  fetch_failed_message_def [js_simps] test_health_def [js_simps] fake_image_content_def [js_simps]
  test_upload_request_def [js_simps] test_file_def [js_simps]
  test_user_id_def [js_simps] listen_port_def [js_simps]
  server_origin_def [js_simps] client_base_def [js_simps] test_upload_def [js_simps] client_run_def [js_simps]

section \<open>Lemmas\<close>

lemma digit_not_slash: "(m::nat) < 10 \<Longrightarrow> CHR ''/'' \<noteq> char_of (48 + m)"
proof
  assume m: "m < 10" and "CHR ''/'' = char_of (48 + m)"
  then have "(of_char (CHR ''/'') :: nat) = of_char (char_of (48 + m))" by simp
  with m show False by (simp add: of_char_of take_bit_eq_mod)
qed

lemma nat_str_no_slash: "CHR ''/'' \<notin> set (nat_str n)"
  by (induction n rule: nat_str.induct) (subst nat_str.simps, auto simp: digit_not_slash)

lemma resolve_url_nonempty: "resolve_url cfg k = Inr url \<Longrightarrow> url \<noteq> []"
  by (auto simp: resolve_url_def presign_def split: option.splits if_splits)

lemma health_passes: "test_health (Some health) = Inr ()"
  by (simp add: test_health_def health_def)

lemma test_request_multer:
  "multer_single ''file'' (req_parts (test_upload_request t)) Map.empty None =
     Inr (Map.empty(''userId'' \<mapsto> PStr (test_user_id t)), Some test_file)"
proof -
  have "length fake_image_content = 18" by (simp add: fake_image_content_def)
  then show ?thesis
    by (simp add: test_upload_request_def test_file_def validate_file_def file_filter_def
        allowed_mime_def max_file_size_def append_field_def js_simps)
qed

lemma test_request_key:
  "key_a (profile_prefix cfg)
      (user_id_a (raw_user_id (req_query (test_upload_request t)) (Map.empty(''userId'' \<mapsto> PStr (test_user_id t))))
         (uuid env))
      (ext_a (originalname test_file)) =
   profile_prefix cfg @ ''/'' @ test_user_id t @ ''.jpg''"
proof -
  have "CHR ''/'' \<notin> set (test_user_id t)"
    using nat_str_no_slash by (simp add: test_user_id_def)
  then have "replace_slashes (test_user_id t) = test_user_id t" by (rule replace_slashes_id)
  moreover have "test_user_id t \<noteq> []" by (simp add: test_user_id_def)
  moreover have "ext_a ''test.jpg'' = ''.jpg''" by (simp add: js_simps)
  ultimately show ?thesis
    by (simp add: test_upload_request_def test_file_def raw_user_id_def js_or_def user_id_a_def
        js_or_else_def key_a_def)
qed

lemma test_request_post_upload:
  "post_upload cfg env (test_upload_request t) b =
     store_and_respond cfg env (profile_prefix cfg @ ''/'' @ test_user_id t @ ''.jpg'') test_file
       ''image/jpeg'' cache_control_a b"
proof -
  have "resolve_mime (mimetype test_file) (ext_a (originalname test_file)) = ''image/jpeg''"
    by (simp add: test_file_def js_simps)
  with post_upload_file [where cfg = cfg and env = env and b = b, OF test_request_multer] test_request_key [of cfg t env]
  show ?thesis by simp
qed

section \<open>Properties\<close>

text \<open>C26. Run against the service, the client script src/test-api.js succeeds exactly when
  the storage accepts the PutObject: then the bucket holds the 18-byte fake image under
  \<open>prefix/test-user-<now>.jpg\<close> with type image/jpeg; otherwise the script stops with
  "Upload test failed" and the bucket is unchanged.\<close>

theorem client_script_outcome:
  "client_run cfg env t b =
     (case put_fault env of
        None \<Rightarrow> (Inr (),
                 Mapping.update (profile_prefix cfg @ ''/'' @ test_user_id t @ ''.jpg'')
                   \<lparr>obj_body = fake_image_content, obj_content_type = ''image/jpeg'',
                    obj_cache_control = cache_control_a, obj_last_modified = now env\<rparr> b)
      | Some msg \<Rightarrow> (Inl ''Upload test failed'', b))"
proof (cases "put_fault env")
  case None
  obtain url where u: "resolve_url cfg (profile_prefix cfg @ ''/'' @ test_user_id t @ ''.jpg'') = Inr url"
    using resolve_url_Inr [of "profile_prefix cfg @ ''/'' @ test_user_id t @ ''.jpg''"] by auto
  with resolve_url_nonempty [OF u] None show ?thesis
    by (simp add: client_run_def health_passes test_request_post_upload store_and_respond_def
        s3_put_def created_response_def test_upload_def res_ok_def test_file_def)
next
  case (Some msg)
  then show ?thesis
    by (simp add: client_run_def health_passes test_request_post_upload store_and_respond_def
        s3_put_def error_response_def test_upload_def res_ok_def)
qed


end
