(* ===== verification/App.thy ===== *)
theory App
  imports Lookup ProfileStore "HOL-Library.AList"
begin

text \<open>
  The Express application of \<open>src/server.js\<close> as a whole (lines 10, 53-171): the layer
  stack \<open>cors({origin: true})\<close>, \<open>express.json()\<close>, the four routes and the error
  middleware, run by Express 4's router loop (\<open>next()\<close> over the stack, an index and
  the pending error), with the final handler answering 404 when no layer responds.
  A request carries its method, raw path, parsed query, headers and body; a response
  its status, the headers the model tracks and its payload. The route handlers are
  the ones of \<open>Server\<close> and \<open>Lookup\<close>; this theory adds the request plumbing around
  them and proves that it composes: each route behaves as its handler, every response
  is well-formed, and any sequence of requests keeps the bucket invariant.
\<close>

section \<open>Requests and responses\<close>

datatype http_method = GET | HEAD | POST | PUT | PATCH | DELETE | OPTIONS

fun method_name :: "http_method \<Rightarrow> string" where
  "method_name GET = ''GET''"
| "method_name HEAD = ''HEAD''"
| "method_name POST = ''POST''"
| "method_name PUT = ''PUT''"
| "method_name PATCH = ''PATCH''"
| "method_name DELETE = ''DELETE''"
| "method_name OPTIONS = ''OPTIONS''"

text \<open>The body as the parsers see it: JSON (\<open>Content-Type: application/json\<close>, the raw
  text), multipart form data (the parts busboy yields), or anything else, which no
  parser of the stack reads.\<close>

datatype req_body = NoBody | JsonBody string | MultipartBody "part list" | OtherBody

record http_request =
  hreq_method :: http_method
  hreq_path :: string
  hreq_query :: "string \<rightharpoonup> param"
  hreq_headers :: "string \<rightharpoonup> string"
  hreq_body :: req_body

datatype payload = JsonPayload json | HtmlPayload string | EmptyPayload

type_synonym headers = "(string \<times> string) list"

record http_response =
  http_status :: nat
  http_headers :: headers
  http_payload :: payload

text \<open>What the world decides for one request: the upload's environment, whether the
  listing is refused, whether the JavaScript engine's \<open>JSON.parse\<close> accepts a text, and
  the message of the \<open>SyntaxError\<close> body-parser raises for a text it rejects (the
  engine's wording, which quotes the text).\<close>

record app_env =
  upload_ctx :: upload_env
  list_fault :: "string option"
  json_valid :: "string \<Rightarrow> bool"
  json_error :: "string \<Rightarrow> string"

section \<open>Headers\<close>

text \<open>\<open>res.setHeader(name, value)\<close> is \<open>AList.update\<close>: it replaces the value in place or
  appends the header. The \<open>vary\<close> package: append a field to \<open>Vary\<close>, separated by a comma. (Its check for
  a field already present is not modelled: the stack appends two distinct fields.)\<close>

definition vary :: "string \<Rightarrow> headers \<Rightarrow> headers" where
  "vary f hs =
     (case map_of hs ''Vary'' of
        None \<Rightarrow> AList.update ''Vary'' f hs
      | Some v \<Rightarrow> AList.update ''Vary'' (if v = [] then f else v @ '', '' @ f) hs)"

text \<open>Express's \<open>expressInit\<close> middleware: \<open>X-Powered-By: Express\<close> on every response.\<close>

definition express_init :: headers where
  "express_init = [(''X-Powered-By'', ''Express'')]"

section \<open>CORS (src/server.js line 53)\<close>

text \<open>\<open>cors({origin: true})\<close>: the request's \<open>Origin\<close> is reflected when it is present and
  not empty, and \<open>Vary: Origin\<close> is always added. A preflight (\<open>OPTIONS\<close>) is answered
  at once with 204, the default methods, the requested headers reflected, and an empty
  body; any other request continues down the stack.\<close>

definition cors_origin :: "http_request \<Rightarrow> headers \<Rightarrow> headers" where
  "cors_origin r hs =
     vary ''Origin''
       (case hreq_headers r ''origin'' of
          Some orig \<Rightarrow> if orig = [] then hs else AList.update ''Access-Control-Allow-Origin'' orig hs
        | None \<Rightarrow> hs)"

definition cors_allowed_headers :: "http_request \<Rightarrow> headers \<Rightarrow> headers" where
  "cors_allowed_headers r hs =
     (let hs' = vary ''Access-Control-Request-Headers'' hs in
      case hreq_headers r ''access-control-request-headers'' of
        Some h \<Rightarrow> if h = [] then hs' else AList.update ''Access-Control-Allow-Headers'' h hs'
      | None \<Rightarrow> hs')"

definition preflight :: "http_request \<Rightarrow> headers \<Rightarrow> http_response" where
  "preflight r hs =
     \<lparr>http_status = 204,
      http_headers = AList.update ''Content-Length'' ''0''
        (cors_allowed_headers r
          (AList.update ''Access-Control-Allow-Methods'' ''GET,HEAD,PUT,PATCH,POST,DELETE'' (cors_origin r hs))),
      http_payload = EmptyPayload\<rparr>"

section \<open>express.json() (src/server.js line 54)\<close>

text \<open>body-parser's JSON parser reads only JSON bodies: more than 100 KiB is the error
  "request entity too large" (status 413 on the error object); an empty body is
  \<open>{}\<close>; otherwise the first character that is not white space must be \<open>{\<close> or \<open>[\<close>
  (strict mode), and the text goes to \<open>JSON.parse\<close>; a rejection is a
  \<open>SyntaxError\<close>. The value read is not used by any route (the upload handler answers before reading the body of a non-multipart
  request), so only the error is kept.\<close>

definition json_limit :: nat where
  "json_limit = 100 * 1024"

definition json_strict :: "string \<Rightarrow> bool" where
  "json_strict raw =
     (case dropWhile (\<lambda>c. c \<in> set [CHR '' '', CHR 0x09, CHR 0x0A, CHR 0x0D]) raw of c # _ \<Rightarrow> c = CHR ''{'' \<or> c = CHR ''['' | [] \<Rightarrow> False)"

definition json_layer :: "app_env \<Rightarrow> http_request \<Rightarrow> js_error option" where
  "json_layer env r =
     (case hreq_body r of
        JsonBody raw \<Rightarrow>
          if json_limit < length raw then Some (Error ''request entity too large'')
          else if raw = [] then None
          else if \<not> json_strict raw then Some (Error (json_error env raw))
          else if json_valid env raw then None
          else Some (Error (json_error env raw))
      | _ \<Rightarrow> None)"

section \<open>Routes (src/server.js lines 57, 64, 122, 146)\<close>

text \<open>Express 4 compiles a route path with path-to-regexp, case-insensitive and not strict:
  \<open>/health\<close> is \<open>/^\/health\/?$/i\<close>, one trailing slash allowed. \<open>/api/profile-pic/:key(*)\<close> is
  \<open>/^\/api\/profile-pic\/(?:((.*)))\/?$/i\<close>: the greedy \<open>.*\<close> takes the whole rest of the
  path (trailing slash included, so the last \<open>\/?\<close> matches nothing), and fails on a
  line terminator. Matching is against the raw pathname; the parameter is then decoded
  by \<open>decode_param\<close>, whose error is the match's error.\<close>

definition match_exact :: "string \<Rightarrow> string \<Rightarrow> bool" where
  "match_exact pat p \<longleftrightarrow>
     js_to_lower_case p = js_to_lower_case pat \<or> js_to_lower_case p = js_to_lower_case pat @ ''/''"

definition match_rest :: "string \<Rightarrow> string \<Rightarrow> string option" where
  "match_rest pfx p =
     (let rest = drop (length pfx) p in
      if length pfx \<le> length p \<and> js_to_lower_case (take (length pfx) p) = js_to_lower_case pfx \<and>
         CHR 0x0A \<notin> set rest \<and> CHR 0x0D \<notin> set rest
      then Some rest else None)"

datatype route_path = Exact string | Rest string

fun route_match :: "route_path \<Rightarrow> string \<Rightarrow> (js_error + string) option" where
  "route_match (Exact pat) p = (if match_exact pat p then Some (Inr []) else None)"
| "route_match (Rest pfx) p = map_option express_decode_param (match_rest pfx p)"

text \<open>\<open>route._handles_method\<close>: a GET route also answers HEAD.\<close>

definition handles :: "http_method \<Rightarrow> http_method \<Rightarrow> bool" where
  "handles m rm \<longleftrightarrow> m = rm \<or> (m = HEAD \<and> rm = GET)"

datatype handler = Health | Upload | ListPics | LookupUrl

text \<open>\<open>upload.single('file')\<close> reads multipart bodies only (type-is \<open>multipart\<close>); for any
  other request it calls \<open>next()\<close> at once, which is multer on no parts: no file, and
  a handler that answers 400 before reading \<open>req.body\<close>.\<close>

definition multer_parts :: "http_request \<Rightarrow> part list" where
  "multer_parts r = (case hreq_body r of MultipartBody ps \<Rightarrow> ps | _ \<Rightarrow> [])"

text \<open>A route's handlers on a matched request: \<open>Inl\<close> is \<open>next(err)\<close>, \<open>Inr\<close> the JSON
  response and the bucket after it.\<close>

definition run_handler :: "config \<Rightarrow> app_env \<Rightarrow> http_request \<Rightarrow> handler \<Rightarrow> string \<Rightarrow> bucket \<Rightarrow>
    js_error + response \<times> bucket" where
  "run_handler cfg env r h param b =
     (case h of
        Health \<Rightarrow> Inr (health, b)
      | Upload \<Rightarrow>
          (case multer_single ''file'' (multer_parts r) Map.empty None of
             Inl e \<Rightarrow> Inl e
           | Inr (body, f) \<Rightarrow> Inr (upload_handler cfg (upload_ctx env) (hreq_query r) body f b))
      | ListPics \<Rightarrow> Inr (list_profile_pics cfg (list_fault env) b, b)
      | LookupUrl \<Rightarrow> Inr (get_profile_pic cfg param, b))"

section \<open>Sending\<close>

text \<open>\<open>res.json(v)\<close>: \<open>Content-Type: application/json; charset=utf-8\<close>; a HEAD request gets
  the headers and no body.\<close>

definition send_payload :: "http_request \<Rightarrow> payload \<Rightarrow> payload" where
  "send_payload r pl = (if hreq_method r = HEAD then EmptyPayload else pl)"

definition json_reply :: "http_request \<Rightarrow> headers \<Rightarrow> response \<Rightarrow> http_response" where
  "json_reply r hs resp =
     \<lparr>http_status = resp_status resp,
      http_headers = AList.update ''Content-Type'' ''application/json; charset=utf-8'' hs,
      http_payload = send_payload r (JsonPayload (resp_body resp))\<rparr>"

text \<open>The final handler (package finalhandler): with no error, 404 and the message
  \<open>Cannot METHOD path\<close> in an HTML page (the page around the message and its escaping
  are not modelled); with an error, 500 and, as under \<open>NODE_ENV=production\<close>, the status
  text. The error's own \<open>status\<close> is not carried by the model: the final handler is
  reached with an error only by a stack without an error middleware.\<close>

definition final_handler :: "http_request \<Rightarrow> js_error option \<Rightarrow> headers \<Rightarrow> http_response" where
  "final_handler r err hs =
     (let (st, msg) = (case err of
                         None \<Rightarrow> (404, ''Cannot '' @ method_name (hreq_method r) @ '' '' @ hreq_path r)
                       | Some e \<Rightarrow> (500, ''Internal Server Error''))
      in \<lparr>http_status = st,
          http_headers = AList.update ''Content-Type'' ''text/html; charset=utf-8''
            (AList.update ''X-Content-Type-Options'' ''nosniff''
              (AList.update ''Content-Security-Policy''
                (''default-src '' @ [CHR 0x27] @ ''none'' @ [CHR 0x27]) hs)),
          http_payload = send_payload r (HtmlPayload msg)\<rparr>)"

section \<open>The layer stack and the router loop\<close>

datatype layer = Cors | JsonParser | Route http_method route_path handler | ErrorHandler

text \<open>src/server.js lines 53-171, in registration order.\<close>

definition app_stack :: "layer list" where
  "app_stack =
     [Cors, JsonParser,
      Route GET (Exact ''/health'') Health,
      Route POST (Exact ''/api/upload/profile-pic'') Upload,
      Route GET (Exact ''/api/profile-pics'') ListPics,
      Route GET (Rest ''/api/profile-pic/'') LookupUrl,
      ErrorHandler]"

text \<open>Express 4's \<open>Router.handle\<close>: \<open>next(err)\<close> takes \<open>stack[idx++]\<close>; a match error
  becomes the pending error unless one is pending already; a route is skipped while an
  error is pending or when it does not handle the method; a middleware of three
  arguments is skipped while an error is pending, the error middleware (four
  arguments) when none is; past the end, the final handler answers. The headers set
  so far travel with the response.\<close>

function router_next :: "config \<Rightarrow> app_env \<Rightarrow> http_request \<Rightarrow> layer list \<Rightarrow> nat \<Rightarrow>
    js_error option \<Rightarrow> headers \<Rightarrow> bucket \<Rightarrow> http_response \<times> bucket" where
  "router_next cfg env r stack idx err hs b =
     (if length stack \<le> idx then (final_handler r err hs, b)
      else case stack ! idx of
        Cors \<Rightarrow>
          if err \<noteq> None then router_next cfg env r stack (Suc idx) err hs b
          else if hreq_method r = OPTIONS then (preflight r hs, b)
          else router_next cfg env r stack (Suc idx) None (cors_origin r hs) b
      | JsonParser \<Rightarrow>
          if err \<noteq> None then router_next cfg env r stack (Suc idx) err hs b
          else router_next cfg env r stack (Suc idx) (json_layer env r) hs b
      | Route m pth h \<Rightarrow>
          (case route_match pth (hreq_path r) of
             None \<Rightarrow> router_next cfg env r stack (Suc idx) err hs b
           | Some (Inl e) \<Rightarrow>
               router_next cfg env r stack (Suc idx) (if err = None then Some e else err) hs b
           | Some (Inr param) \<Rightarrow>
               if err \<noteq> None \<or> \<not> handles (hreq_method r) m
               then router_next cfg env r stack (Suc idx) err hs b
               else (case run_handler cfg env r h param b of
                       Inl e \<Rightarrow> router_next cfg env r stack (Suc idx) (Some e) hs b
                     | Inr (resp, b') \<Rightarrow> (json_reply r hs resp, b')))
      | ErrorHandler \<Rightarrow>
          (case err of
             None \<Rightarrow> router_next cfg env r stack (Suc idx) None hs b
           | Some e \<Rightarrow> (json_reply r hs (error_middleware e), b)))"
  by pat_completeness auto

termination
  by (relation "measure (\<lambda>(cfg, env, r, stack, idx, err, hs, b). length stack - idx)") auto

declare router_next.simps [simp del]

text \<open>The application's request handler: the router from the first layer, no error
  pending, the headers of \<open>expressInit\<close>.\<close>

definition app_handle :: "config \<Rightarrow> app_env \<Rightarrow> http_request \<Rightarrow> bucket \<Rightarrow> http_response \<times> bucket" where
  "app_handle cfg env r b = router_next cfg env r app_stack 0 None express_init b"

text \<open>The server over a sequence of requests, each in its own environment, one after
  another (see the step relation of \<open>Server\<close>).\<close>

fun app_run :: "config \<Rightarrow> (app_env \<times> http_request) list \<Rightarrow> bucket \<Rightarrow> http_response list \<times> bucket" where
  "app_run cfg [] b = ([], b)"
| "app_run cfg ((env, r) # rs) b =
     (let (resp, b') = app_handle cfg env r b;
          (resps, b'') = app_run cfg rs b'
      in (resp # resps, b''))"

section \<open>What a response promises\<close>

text \<open>A well-formed response: its status is one of those the service documents or
  Express produces for it (200, 201, 204, 400, 404, 500), its header names are
  distinct, it says \<open>X-Powered-By: Express\<close>, and a response with a payload names its
  content type.\<close>

definition response_wf :: "http_response \<Rightarrow> bool" where
  "response_wf resp \<longleftrightarrow>
     http_status resp \<in> {200, 201, 204, 400, 404, 500} \<and>
     distinct (map fst (http_headers resp)) \<and>
     map_of (http_headers resp) ''X-Powered-By'' = Some ''Express'' \<and>
     (case http_payload resp of
        EmptyPayload \<Rightarrow> True
      | _ \<Rightarrow> ''Content-Type'' \<in> set (map fst (http_headers resp)))"

text \<open>The invariant of the headers a response is built from.\<close>

definition hs_ok :: "headers \<Rightarrow> bool" where
  "hs_ok hs \<longleftrightarrow> distinct (map fst hs) \<and> map_of hs ''X-Powered-By'' = Some ''Express''"

text \<open>Whether a layer of the stack takes a request of method \<open>m\<close> for path \<open>p\<close> away from
  the final handler: a route whose path matches and that handles the method, or whose
  parameter cannot be decoded.\<close>

definition route_hit :: "http_method \<Rightarrow> string \<Rightarrow> layer \<Rightarrow> bool" where
  "route_hit m p l =
     (case l of
        Route rm pth h \<Rightarrow>
          (case route_match pth p of None \<Rightarrow> False | Some (Inl e) \<Rightarrow> True | Some (Inr x) \<Rightarrow> handles m rm)
      | _ \<Rightarrow> False)"


section \<open>Lemmas\<close>

text \<open>Each recursive call of the router moves to a later layer.\<close>

lemma router_next_rel_measure:
  "router_next_rel y x \<Longrightarrow>
   (y, x) \<in> measure (\<lambda>(cfg, env, r, stack, idx, err, hs, b). length stack - idx)"
  by (erule router_next_rel.cases) auto

lemma router_next_end [simp]:
  "length stack \<le> idx \<Longrightarrow> router_next cfg env r stack idx err hs b = (final_handler r err hs, b)"
  by (simp add: router_next.simps)

lemma lower_take: "js_to_lower_case (take n p) = take n (js_to_lower_case p)"
  by (simp add: js_to_lower_case_def take_map)

lemma length_lower [simp]: "length (js_to_lower_case p) = length p"
  by (simp add: js_to_lower_case_def)

lemma app_handle_options:
  "hreq_method r = OPTIONS \<Longrightarrow> app_handle cfg env r b = (preflight r express_init, b)"
  by (simp add: app_handle_def app_stack_def router_next.simps)

lemma app_handle_pass:
  "hreq_method r \<noteq> OPTIONS \<Longrightarrow>
   app_handle cfg env r b = router_next cfg env r app_stack 2 (json_layer env r) (cors_origin r express_init) b"
  by (simp add: app_handle_def app_stack_def router_next.simps numeral_2_eq_2)

lemma match_exact_lower:
  "match_exact pat p \<longleftrightarrow>
   js_to_lower_case p = js_to_lower_case pat \<or> js_to_lower_case p = js_to_lower_case pat @ ''/''"
  by (simp add: match_exact_def)

lemma match_rest_None:
  "take (length pfx) (js_to_lower_case p) \<noteq> js_to_lower_case pfx \<Longrightarrow> match_rest pfx p = None"
  by (simp add: match_rest_def lower_take Let_def)

lemma match_rest_Some:
  "match_rest pfx p = Some rest \<Longrightarrow>
   take (length pfx) (js_to_lower_case p) = js_to_lower_case pfx \<and> rest = drop (length pfx) p"
  by (simp add: match_rest_def lower_take Let_def split: if_splits)

lemma upload_path_routes:
  assumes "match_exact ''/api/upload/profile-pic'' p"
  shows "\<not> match_exact ''/health'' p \<and> \<not> match_exact ''/api/profile-pics'' p \<and>
         match_rest ''/api/profile-pic/'' p = None"
proof -
  have l: "js_to_lower_case p = ''/api/upload/profile-pic'' \<or> js_to_lower_case p = ''/api/upload/profile-pic/''"
    using assms by (simp add: match_exact_def js_simps)
  then show ?thesis
    by (auto simp: match_exact_lower js_simps intro!: match_rest_None)
qed

lemma app_upload_dispatch:
  assumes "hreq_method r = POST" "match_exact ''/api/upload/profile-pic'' (hreq_path r)"
    "json_layer env r = None"
  shows "app_handle cfg env r b =
    (case run_handler cfg env r Upload [] b of
       Inl e \<Rightarrow> (json_reply r (cors_origin r express_init) (error_middleware e), b)
     | Inr (resp, b') \<Rightarrow> (json_reply r (cors_origin r express_init) resp, b'))"
  using upload_path_routes [OF assms(2)] assms
  by (simp add: app_handle_pass app_stack_def router_next.simps numeral_eq_Suc handles_def
      split: sum.split)

lemma lookup_path_routes:
  assumes "match_rest ''/api/profile-pic/'' p = Some raw"
  shows "\<not> match_exact ''/health'' p \<and> \<not> match_exact ''/api/upload/profile-pic'' p \<and>
         \<not> match_exact ''/api/profile-pics'' p"
proof -
  have "take 17 (js_to_lower_case p) = ''/api/profile-pic/''"
    using match_rest_Some [OF assms] by (simp add: js_simps numeral_eq_Suc)
  then show ?thesis
    by (auto simp: match_exact_lower js_simps)
qed

lemma map_of_update_header [simp]: "map_of (AList.update n v hs) = (map_of hs)(n \<mapsto> v)"
  by (simp add: update_conv')

lemma update_header_ok [simp]:
  "hs_ok hs \<Longrightarrow> n \<noteq> ''X-Powered-By'' \<Longrightarrow> hs_ok (AList.update n v hs)"
  by (simp add: hs_ok_def distinct_update update_conv')

lemma update_header_names [simp]: "fst ` set (AList.update n v hs) = insert n (fst ` set hs)"
  by (simp add: dom_update)

lemma vary_ok [simp]: "hs_ok hs \<Longrightarrow> hs_ok (vary f hs)"
  by (simp add: vary_def split: option.split)

lemma cors_origin_ok [simp]: "hs_ok hs \<Longrightarrow> hs_ok (cors_origin r hs)"
  by (simp add: cors_origin_def split: option.split)

lemma express_init_ok [simp]: "hs_ok express_init"
  by (simp add: hs_ok_def express_init_def)

lemma cors_allowed_headers_ok [simp]: "hs_ok hs \<Longrightarrow> hs_ok (cors_allowed_headers r hs)"
  by (simp add: cors_allowed_headers_def Let_def split: option.split)

lemma response_wf_hs_ok:
  "response_wf resp \<longleftrightarrow>
     http_status resp \<in> {200, 201, 204, 400, 404, 500} \<and> hs_ok (http_headers resp) \<and>
     (case http_payload resp of
        EmptyPayload \<Rightarrow> True
      | _ \<Rightarrow> ''Content-Type'' \<in> set (map fst (http_headers resp)))"
  by (auto simp: response_wf_def hs_ok_def)

lemma preflight_wf: "hs_ok hs \<Longrightarrow> response_wf (preflight r hs)"
  by (simp add: response_wf_hs_ok preflight_def)

lemma upload_handler_status:
  "resp_status (fst (upload_handler cfg env q body f b)) \<in> {201, 400, 500}"
  by (simp add: upload_handler_def store_and_respond_def error_response_def created_response_def
      Let_def split: option.split sum.split)

lemma error_middleware_status_set: "resp_status (error_middleware e) \<in> {400, 500}"
  by (simp add: error_middleware_def error_response_def Let_def split: js_error.split multer_code.split)

lemma list_profile_pics_status: "resp_status (list_profile_pics cfg fault b) \<in> {200, 500}"
  by (simp add: list_profile_pics_def error_response_def Let_def split: sum.split)

lemma get_profile_pic_status: "resp_status (get_profile_pic cfg p) \<in> {200, 500}"
  by (simp add: get_profile_pic_def error_response_def url_response_def split: option.split sum.split)

lemma run_handler_status:
  assumes "run_handler cfg env r h p b = Inr (resp, b')"
  shows "resp_status resp \<in> {200, 201, 400, 500}"
proof (cases h)
  case Upload
  with assms obtain q body f where
    "upload_handler cfg (upload_ctx env) q body f b = (resp, b')"
    by (auto simp: run_handler_def split: sum.splits)
  with upload_handler_status [of cfg "upload_ctx env" q body f b] show ?thesis by auto
qed (use assms list_profile_pics_status [of cfg "list_fault env" b] get_profile_pic_status [of cfg p]
       in \<open>auto simp: run_handler_def health_def\<close>)

lemma json_reply_wf:
  "hs_ok hs \<Longrightarrow> resp_status resp \<in> {200, 201, 400, 500} \<Longrightarrow> response_wf (json_reply r hs resp)"
  by (auto simp: response_wf_hs_ok json_reply_def send_payload_def update_header_names split: payload.split)

lemma final_handler_wf: "hs_ok hs \<Longrightarrow> response_wf (final_handler r err hs)"
  by (auto simp: response_wf_hs_ok final_handler_def send_payload_def update_header_names
      split: option.split)

lemma router_next_wf:
  "hs_ok hs \<Longrightarrow> response_wf (fst (router_next cfg env r stack idx err hs b))"
proof (induction cfg env r stack idx err hs b rule: router_next.induct)
  case (1 cfg env r stack idx err hs b)
  note eq = router_next.simps [of cfg env r stack idx err hs b]
  show ?case
  proof (cases "length stack \<le> idx")
    case True
    then show ?thesis using 1 eq by (simp add: final_handler_wf)
  next
    case False
    then show ?thesis
    proof (cases "stack ! idx")
      case Cors
      then show ?thesis using 1 False eq by (simp add: preflight_wf)
    next
      case JsonParser
      then show ?thesis using 1 False eq by simp
    next
      case (Route m pth h)
      then show ?thesis using 1 False eq
        by (auto simp: json_reply_wf dest: run_handler_status split: option.split sum.split)
    next
      case ErrorHandler
      then show ?thesis using 1 False eq error_middleware_status_set
        by (auto simp: json_reply_wf split: option.split)
    qed
  qed
qed

lemma run_handler_step:
  assumes "run_handler cfg env r h p b = Inr (resp, b')"
  shows "server_step cfg b b'"
proof (cases h)
  case Upload
  with assms obtain q body f where
    "multer_single ''file'' (multer_parts r) Map.empty None = Inr (body, f)"
    "upload_handler cfg (upload_ctx env) q body f b = (resp, b')"
    by (auto simp: run_handler_def split: sum.splits)
  then have "post_upload cfg (upload_ctx env) \<lparr>req_query = q, req_parts = multer_parts r\<rparr> b = (resp, b')"
    by (simp add: post_upload_def)
  then show ?thesis by (rule server_step.upload)
qed (use assms in \<open>auto simp: run_handler_def intro: server_step.list\<close>)

lemma router_next_step:
  "server_step cfg b (snd (router_next cfg env r stack idx err hs b))"
proof (induction cfg env r stack idx err hs b rule: router_next.induct)
  case (1 cfg env r stack idx err hs b)
  note eq = router_next.simps [of cfg env r stack idx err hs b]
  show ?case
  proof (cases "length stack \<le> idx")
    case True
    then show ?thesis using eq by (simp add: server_step.list)
  next
    case False
    then show ?thesis
      using 1 eq by (cases "stack ! idx")
        (auto simp: server_step.list dest: run_handler_step split: option.split sum.split)
  qed
qed

lemma map_of_vary_other: "n \<noteq> ''Vary'' \<Longrightarrow> map_of (vary f hs) n = map_of hs n"
  by (simp add: vary_def split: option.split)

lemma cors_origin_acao:
  "hreq_headers r ''origin'' = Some orig \<Longrightarrow> orig \<noteq> [] \<Longrightarrow>
   map_of (cors_origin r hs) ''Access-Control-Allow-Origin'' = Some orig"
  by (simp add: cors_origin_def map_of_vary_other)

lemma router_next_acao:
  "hreq_headers r ''origin'' = Some orig \<Longrightarrow> orig \<noteq> [] \<Longrightarrow>
   map_of hs ''Access-Control-Allow-Origin'' = Some orig \<Longrightarrow>
   map_of (http_headers (fst (router_next cfg env r stack idx err hs b))) ''Access-Control-Allow-Origin'' = Some orig"
proof (induction cfg env r stack idx err hs b rule: router_next.induct)
  case (1 cfg env r stack idx err hs b)
  note eq = router_next.simps [of cfg env r stack idx err hs b]
  have acao: "\<And>hs. map_of (cors_origin r hs) ''Access-Control-Allow-Origin'' = Some orig"
    using cors_origin_acao [OF "1.prems"(1,2)] .
  show ?case
  proof (cases "length stack \<le> idx")
    case True
    then show ?thesis using 1 eq by (simp add: final_handler_def Let_def split: prod.split)
  next
    case False
    then show ?thesis
      using 1 eq by (cases "stack ! idx")
        (auto simp: json_reply_def preflight_def cors_allowed_headers_def Let_def map_of_vary_other
         acao split: option.split sum.split)
  qed
qed

lemma router_no_hit:
  "\<forall>l \<in> set (drop idx stack). l = ErrorHandler \<or>
      (\<exists>rm pth h. l = Route rm pth h \<and> \<not> route_hit (hreq_method r) (hreq_path r) l) \<Longrightarrow>
   router_next cfg env r stack idx None hs b = (final_handler r None hs, b)"
proof (induction "length stack - idx" arbitrary: idx rule: less_induct)
  case less
  note eq = router_next.simps [of cfg env r stack idx None hs b]
  show ?case
  proof (cases "length stack \<le> idx")
    case True
    then show ?thesis by simp
  next
    case False
    then have s: "stack ! idx \<in> set (drop idx stack)"
      by (simp add: Cons_nth_drop_Suc [symmetric])
    have tl: "\<forall>l \<in> set (drop (Suc idx) stack). l = ErrorHandler \<or>
      (\<exists>rm pth h. l = Route rm pth h \<and> \<not> route_hit (hreq_method r) (hreq_path r) l)"
      using less.prems set_drop_subset_set_drop [of idx "Suc idx" stack] by auto
    have next_eq: "router_next cfg env r stack idx None hs b = router_next cfg env r stack (Suc idx) None hs b"
    proof (cases "stack ! idx")
      case (Route rm pth h)
      then have "\<not> route_hit (hreq_method r) (hreq_path r) (Route rm pth h)"
        using less.prems s by auto
      then show ?thesis using eq False Route
        by (auto simp: route_hit_def split: option.split sum.split option.split_asm sum.split_asm)
    qed (use less.prems s eq False in auto)
    have "length stack - Suc idx < length stack - idx" using False by simp
    with less.hyps tl show ?thesis by (simp add: next_eq)
  qed
qed

lemma app_handle_step: "server_step cfg b (snd (app_handle cfg env r b))"
  by (simp add: app_handle_def router_next_step)

lemma app_run_Cons_snd:
  "snd (app_run cfg ((env, r) # rs) b) = snd (app_run cfg rs (snd (app_handle cfg env r b)))"
  by (cases "app_handle cfg env r b", cases "app_run cfg rs (snd (app_handle cfg env r b))") simp

lemma app_run_induct_step:
  assumes "\<And>b b'. server_step cfg b b' \<Longrightarrow> P b \<Longrightarrow> P b'"
  shows "P b \<Longrightarrow> P (snd (app_run cfg rs b))"
proof (induction rs arbitrary: b)
  case (Cons x rs)
  obtain env r where x: "x = (env, r)" by (cases x)
  have "P (snd (app_handle cfg env r b))" by (rule assms [OF app_handle_step Cons.prems])
  then show ?case unfolding x app_run_Cons_snd by (rule Cons.IH)
qed simp

section \<open>Properties\<close>

text \<open>C32. Through the whole application, a POST to the upload path (any letter case, one
  trailing slash allowed) whose body express.json accepts is answered exactly as the
  upload route of \<open>Server\<close> answers multer's parts (none, for a body that is not
  multipart), with the CORS headers added: the Express plumbing adds nothing else.\<close>

theorem app_upload_route:
  assumes "hreq_method r = POST" "match_exact ''/api/upload/profile-pic'' (hreq_path r)"
    "json_layer env r = None"
  shows "app_handle cfg env r b =
    (let (resp, b') = post_upload cfg (upload_ctx env)
                        \<lparr>req_query = hreq_query r, req_parts = multer_parts r\<rparr> b
     in (json_reply r (cors_origin r express_init) resp, b'))"
  using app_upload_dispatch [OF assms]
  by (simp add: run_handler_def post_upload_def split: sum.split)

theorem app_upload_route_witness:
  "hreq_method \<lparr>hreq_method = POST, hreq_path = ''/API/Upload/Profile-Pic/'', hreq_query = Map.empty,
       hreq_headers = Map.empty, hreq_body = JsonBody ''{}''\<rparr> = POST \<and>
   http_status (fst (app_handle
      \<lparr>s3 = \<lparr>region = ''eu-west-1'', bucket_name = ''pics'', signature = \<lambda>k e. ''f00d''\<rparr>,
       profile_prefix = ''profile-pics'', public_base_url = None\<rparr>
      \<lparr>upload_ctx = \<lparr>uuid = ''u'', put_fault = None, now = 0\<rparr>, list_fault = None,
       json_valid = \<lambda>s. True, json_error = \<lambda>s. ''Unexpected token''\<rparr>
      \<lparr>hreq_method = POST, hreq_path = ''/API/Upload/Profile-Pic/'', hreq_query = Map.empty,
       hreq_headers = Map.empty, hreq_body = JsonBody ''{}''\<rparr> Mapping.empty)) = 400"
proof -
  let ?r = "\<lparr>hreq_method = POST, hreq_path = ''/API/Upload/Profile-Pic/'', hreq_query = Map.empty,
       hreq_headers = Map.empty, hreq_body = JsonBody ''{}''\<rparr>"
  let ?env = "\<lparr>upload_ctx = \<lparr>uuid = ''u'', put_fault = None, now = 0\<rparr>, list_fault = None,
       json_valid = \<lambda>s. True, json_error = \<lambda>s. ''Unexpected token''\<rparr>"
  have m: "match_exact ''/api/upload/profile-pic'' (hreq_path ?r)"
    by (simp add: match_exact_def js_simps)
  have j: "json_layer ?env ?r = None"
    by (simp add: json_layer_def json_strict_def json_limit_def)
  show ?thesis
    using app_upload_route [where r = ?r and env = ?env, OF _ m j]
    by (simp add: post_upload_def multer_parts_def upload_handler_def json_reply_def error_response_def)
qed

text \<open>C33. A GET or HEAD whose path is \<open>/api/profile-pic/\<close> (any letter case) followed by
  a rest without line terminators is answered exactly as the lookup route of \<open>Lookup\<close>
  answers that rest: Express's decoding of the parameter first, then the handler's.\<close>

theorem app_lookup_route:
  assumes "handles (hreq_method r) GET" "match_rest ''/api/profile-pic/'' (hreq_path r) = Some raw"
    "json_layer env r = None"
  shows "app_handle cfg env r b =
    (json_reply r (cors_origin r express_init) (get_profile_pic_route cfg raw), b)"
proof -
  have "hreq_method r \<noteq> OPTIONS" using assms(1) by (auto simp: handles_def)
  then show ?thesis using lookup_path_routes [OF assms(2)] assms
    by (simp add: app_handle_pass app_stack_def router_next.simps numeral_eq_Suc
        run_handler_def get_profile_pic_route_def split: sum.split)
qed

theorem app_lookup_route_witness:
  "app_handle
      \<lparr>s3 = \<lparr>region = ''eu-west-1'', bucket_name = ''pics'', signature = \<lambda>k e. ''f00d''\<rparr>,
       profile_prefix = ''profile-pics'', public_base_url = None\<rparr>
      \<lparr>upload_ctx = \<lparr>uuid = ''u'', put_fault = None, now = 0\<rparr>, list_fault = None,
       json_valid = \<lambda>s. True, json_error = \<lambda>s. ''Unexpected token''\<rparr>
      \<lparr>hreq_method = HEAD, hreq_path = ''/API/profile-pic/profile-pics%2Ftest-user-1.jpg'',
       hreq_query = Map.empty, hreq_headers = Map.empty, hreq_body = NoBody\<rparr> Mapping.empty =
   (json_reply
      \<lparr>hreq_method = HEAD, hreq_path = ''/API/profile-pic/profile-pics%2Ftest-user-1.jpg'',
       hreq_query = Map.empty, hreq_headers = Map.empty, hreq_body = NoBody\<rparr>
      (cors_origin \<lparr>hreq_method = HEAD, hreq_path = ''/API/profile-pic/profile-pics%2Ftest-user-1.jpg'',
       hreq_query = Map.empty, hreq_headers = Map.empty, hreq_body = NoBody\<rparr> express_init)
      (get_profile_pic_route
        \<lparr>s3 = \<lparr>region = ''eu-west-1'', bucket_name = ''pics'', signature = \<lambda>k e. ''f00d''\<rparr>,
         profile_prefix = ''profile-pics'', public_base_url = None\<rparr>
        ''profile-pics%2Ftest-user-1.jpg''), Mapping.empty) \<and>
   http_status (fst (app_handle
      \<lparr>s3 = \<lparr>region = ''eu-west-1'', bucket_name = ''pics'', signature = \<lambda>k e. ''f00d''\<rparr>,
       profile_prefix = ''profile-pics'', public_base_url = None\<rparr>
      \<lparr>upload_ctx = \<lparr>uuid = ''u'', put_fault = None, now = 0\<rparr>, list_fault = None,
       json_valid = \<lambda>s. True, json_error = \<lambda>s. ''Unexpected token''\<rparr>
      \<lparr>hreq_method = GET, hreq_path = ''/api/profile-pic/'',
       hreq_query = Map.empty, hreq_headers = Map.empty, hreq_body = NoBody\<rparr> Mapping.empty)) = 500"
proof -
  let ?r = "\<lparr>hreq_method = HEAD, hreq_path = ''/API/profile-pic/profile-pics%2Ftest-user-1.jpg'',
       hreq_query = Map.empty, hreq_headers = Map.empty, hreq_body = NoBody\<rparr>"
  have h: "handles (hreq_method ?r) GET" by (simp add: handles_def)
  have m: "match_rest ''/api/profile-pic/'' (hreq_path ?r) = Some ''profile-pics%2Ftest-user-1.jpg''"
    by (simp add: match_rest_def js_simps)
  have j: "json_layer env ?r = None" for env by (simp add: json_layer_def)
  let ?r2 = "\<lparr>hreq_method = GET, hreq_path = ''/api/profile-pic/'',
       hreq_query = Map.empty, hreq_headers = Map.empty, hreq_body = NoBody\<rparr>"
  have h2: "handles (hreq_method ?r2) GET" by (simp add: handles_def)
  have m2: "match_rest ''/api/profile-pic/'' (hreq_path ?r2) = Some []"
    by (simp add: match_rest_def js_simps)
  have j2: "json_layer env ?r2 = None" for env by (simp add: json_layer_def)
  have "resp_status (get_profile_pic_route cfg []) = 500" for cfg
    by (simp add: get_profile_pic_route_def express_decode_param_def get_profile_pic_def presign_def
        error_response_def)
  then show ?thesis using app_lookup_route [OF h m j] app_lookup_route [OF h2 m2 j2]
    by (simp add: json_reply_def)
qed

text \<open>C34. A JSON body that body-parser refuses (over 100 KiB, not starting with an
  object or array, or rejected by \<open>JSON.parse\<close>) is answered by the error middleware,
  whatever the path and method (but OPTIONS): no route runs and the bucket is left as
  it is. The middleware ignores the error's status, so "request entity too large"
  is answered 500, not 413.\<close>

theorem app_json_error:
  "hreq_method r \<noteq> OPTIONS \<Longrightarrow> json_layer env r = Some e \<Longrightarrow>
   app_handle cfg env r b = (json_reply r (cors_origin r express_init) (error_middleware e), b)"
  by (simp add: app_handle_pass app_stack_def router_next.simps numeral_eq_Suc
      split: option.split sum.split)

theorem app_json_error_witness:
  "app_handle
      \<lparr>s3 = \<lparr>region = ''eu-west-1'', bucket_name = ''pics'', signature = \<lambda>k e. ''f00d''\<rparr>,
       profile_prefix = ''profile-pics'', public_base_url = None\<rparr>
      \<lparr>upload_ctx = \<lparr>uuid = ''u'', put_fault = None, now = 0\<rparr>, list_fault = None,
       json_valid = \<lambda>s. True, json_error = \<lambda>s. ''Unexpected token''\<rparr>
      \<lparr>hreq_method = GET, hreq_path = ''/health'', hreq_query = Map.empty, hreq_headers = Map.empty,
       hreq_body = JsonBody (replicate 102401 CHR ''['')\<rparr> Mapping.empty =
   (json_reply
      \<lparr>hreq_method = GET, hreq_path = ''/health'', hreq_query = Map.empty, hreq_headers = Map.empty,
       hreq_body = JsonBody (replicate 102401 CHR ''['')\<rparr>
      [(''X-Powered-By'', ''Express''), (''Vary'', ''Origin'')]
      (error_response 500 ''request entity too large'' ''Server error''), Mapping.empty)"
proof -
  let ?r = "\<lparr>hreq_method = GET, hreq_path = ''/health'', hreq_query = Map.empty, hreq_headers = Map.empty,
       hreq_body = JsonBody (replicate 102401 CHR ''['')\<rparr>"
  have j: "json_layer env ?r = Some (Error ''request entity too large'')" for env
    by (simp add: json_layer_def json_limit_def)
  have c: "cors_origin ?r express_init = [(''X-Powered-By'', ''Express''), (''Vary'', ''Origin'')]"
    by (simp add: cors_origin_def vary_def express_init_def)
  have e: "error_middleware (Error ''request entity too large'') =
           error_response 500 ''request entity too large'' ''Server error''"
    by (simp add: error_middleware_def js_includes_def)
  show ?thesis using app_json_error [OF _ j] by (simp add: c e)
qed

text \<open>C35. A request (not OPTIONS, with no body-parser error) that no route takes (path
  not matched, or matched by a route of another method) is answered by the final
  handler: 404 and "Cannot METHOD path", bucket unchanged.\<close>

theorem app_no_route:
  assumes "hreq_method r \<noteq> OPTIONS" "json_layer env r = None"
    "\<not> list_ex (route_hit (hreq_method r) (hreq_path r)) app_stack"
  shows "app_handle cfg env r b = (final_handler r None (cors_origin r express_init), b)"
proof -
  have "router_next cfg env r app_stack 2 None (cors_origin r express_init) b =
        (final_handler r None (cors_origin r express_init), b)"
    by (rule router_no_hit) (use assms(3) in \<open>auto simp: app_stack_def numeral_2_eq_2\<close>)
  then show ?thesis using assms(1,2) by (simp add: app_handle_pass)
qed

theorem app_no_route_witness:
  "http_status (fst (app_handle
      \<lparr>s3 = \<lparr>region = ''eu-west-1'', bucket_name = ''pics'', signature = \<lambda>k e. ''f00d''\<rparr>,
       profile_prefix = ''profile-pics'', public_base_url = None\<rparr>
      \<lparr>upload_ctx = \<lparr>uuid = ''u'', put_fault = None, now = 0\<rparr>, list_fault = None,
       json_valid = \<lambda>s. True, json_error = \<lambda>s. ''Unexpected token''\<rparr>
      \<lparr>hreq_method = POST, hreq_path = ''/health'', hreq_query = Map.empty, hreq_headers = Map.empty,
       hreq_body = NoBody\<rparr> Mapping.empty)) = 404"
proof -
  let ?r = "\<lparr>hreq_method = POST, hreq_path = ''/health'', hreq_query = Map.empty, hreq_headers = Map.empty,
       hreq_body = NoBody\<rparr>"
  have j: "json_layer env ?r = None" for env by (simp add: json_layer_def)
  have n: "\<not> list_ex (route_hit (hreq_method ?r) (hreq_path ?r)) app_stack"
    by (simp add: app_stack_def route_hit_def match_exact_def match_rest_def handles_def js_simps)
  show ?thesis using app_no_route [OF _ j n] by (simp add: final_handler_def)
qed

text \<open>C36. Every OPTIONS request, whatever its path, is answered by the CORS preflight:
  204 with no body and \<open>Access-Control-Allow-Methods: GET,HEAD,PUT,PATCH,POST,DELETE\<close>,
  and the bucket is left as it is.\<close>

theorem app_preflight:
  assumes "hreq_method r = OPTIONS"
  shows "http_status (fst (app_handle cfg env r b)) = 204 \<and>
    http_payload (fst (app_handle cfg env r b)) = EmptyPayload \<and> snd (app_handle cfg env r b) = b \<and>
    map_of (http_headers (fst (app_handle cfg env r b))) ''Access-Control-Allow-Methods'' = Some ''GET,HEAD,PUT,PATCH,POST,DELETE''"
  using assms
  by (simp add: app_handle_options preflight_def cors_allowed_headers_def Let_def map_of_vary_other
      split: option.split)

theorem app_preflight_witness:
  "http_status (fst (app_handle
      \<lparr>s3 = \<lparr>region = ''eu-west-1'', bucket_name = ''pics'', signature = \<lambda>k e. ''f00d''\<rparr>,
       profile_prefix = ''profile-pics'', public_base_url = None\<rparr>
      \<lparr>upload_ctx = \<lparr>uuid = ''u'', put_fault = None, now = 0\<rparr>, list_fault = None,
       json_valid = \<lambda>s. True, json_error = \<lambda>s. ''Unexpected token''\<rparr>
      \<lparr>hreq_method = OPTIONS, hreq_path = ''/api/upload/profile-pic'', hreq_query = Map.empty,
       hreq_headers = Map.empty(''origin'' \<mapsto> ''https://shop.example''), hreq_body = NoBody\<rparr>
      Mapping.empty)) = 204"
  using app_preflight [of "\<lparr>hreq_method = OPTIONS, hreq_path = ''/api/upload/profile-pic'', hreq_query = Map.empty,
       hreq_headers = Map.empty(''origin'' \<mapsto> ''https://shop.example''), hreq_body = NoBody\<rparr>"]
  by simp

text \<open>C37. \<open>cors({origin: true})\<close> reflects every origin: any request that names a
  non-empty \<open>Origin\<close> gets it back in \<open>Access-Control-Allow-Origin\<close>, on every response
  (preflight, route, error or 404), so any web site may read the service's answers.\<close>

theorem app_cors_reflects:
  assumes "hreq_headers r ''origin'' = Some orig" "orig \<noteq> []"
  shows "map_of (http_headers (fst (app_handle cfg env r b))) ''Access-Control-Allow-Origin'' = Some orig"
proof (cases "hreq_method r = OPTIONS")
  case True
  then show ?thesis using cors_origin_acao [OF assms]
    by (simp add: app_handle_options preflight_def cors_allowed_headers_def Let_def map_of_vary_other
        split: option.split)
next
  case False
  then show ?thesis
    by (simp add: app_handle_pass router_next_acao [OF assms] cors_origin_acao [OF assms])
qed

theorem app_cors_reflects_witness:
  "map_of (http_headers (fst (app_handle
      \<lparr>s3 = \<lparr>region = ''eu-west-1'', bucket_name = ''pics'', signature = \<lambda>k e. ''f00d''\<rparr>,
       profile_prefix = ''profile-pics'', public_base_url = None\<rparr>
      \<lparr>upload_ctx = \<lparr>uuid = ''u'', put_fault = None, now = 0\<rparr>, list_fault = None,
       json_valid = \<lambda>s. True, json_error = \<lambda>s. ''Unexpected token''\<rparr>
      \<lparr>hreq_method = GET, hreq_path = ''/api/profile-pics'', hreq_query = Map.empty,
       hreq_headers = Map.empty(''origin'' \<mapsto> ''https://attacker.example''), hreq_body = NoBody\<rparr>
      Mapping.empty))) ''Access-Control-Allow-Origin'' = Some ''https://attacker.example''"
  by (rule app_cors_reflects) simp_all

text \<open>C38. Every response of the application is well-formed: its status is one of 200,
  201, 204, 400, 404 and 500, its header names are distinct, it carries
  \<open>X-Powered-By: Express\<close>, and when it has a payload it names its content type.\<close>

theorem app_response_wf: "response_wf (fst (app_handle cfg env r b))"
  by (simp add: app_handle_def router_next_wf)


text \<open>C40. Over any sequence of requests, each in its own environment, from an empty
  bucket, the application keeps the bucket invariant of \<open>Server\<close> (every object under
  the prefix, an image within the limit) and refines the abstract profile store of
  \<open>ProfileStore\<close>: the bucket seen through \<open>abs_bucket\<close> is a reachable store.\<close>

theorem app_run_invariant:
  "bucket_ok (profile_prefix cfg) (snd (app_run cfg rs Mapping.empty)) \<and>
   spec_reach (profile_prefix cfg) (abs_bucket (snd (app_run cfg rs Mapping.empty)))"
proof
  show "bucket_ok (profile_prefix cfg) (snd (app_run cfg rs Mapping.empty))"
    by (rule app_run_induct_step [where P = "bucket_ok (profile_prefix cfg)"])
       (auto intro: server_step_bucket_ok bucket_ok_empty)
  show "spec_reach (profile_prefix cfg) (abs_bucket (snd (app_run cfg rs Mapping.empty)))"
    by (rule app_run_induct_step [where P = "\<lambda>b. spec_reach (profile_prefix cfg) (abs_bucket b)"])
       (auto intro: spec_reach.step spec_reach.start server_step_simulation)
qed

theorem app_run_invariant_witness:
  "bucket_ok ''profile-pics'' (snd (app_run
      \<lparr>s3 = \<lparr>region = ''eu-west-1'', bucket_name = ''pics'', signature = \<lambda>k e. ''f00d''\<rparr>,
       profile_prefix = ''profile-pics'', public_base_url = None\<rparr>
      [(\<lparr>upload_ctx = \<lparr>uuid = ''u'', put_fault = None, now = 0\<rparr>, list_fault = None,
         json_valid = \<lambda>s. True, json_error = \<lambda>s. ''Unexpected token''\<rparr>,
        \<lparr>hreq_method = GET, hreq_path = ''/health'', hreq_query = Map.empty, hreq_headers = Map.empty,
         hreq_body = NoBody\<rparr>)] Mapping.empty))"
  using app_run_invariant [of "\<lparr>s3 = \<lparr>region = ''eu-west-1'', bucket_name = ''pics'', signature = \<lambda>k e. ''f00d''\<rparr>,
       profile_prefix = ''profile-pics'', public_base_url = None\<rparr>"]
  by (simp only: config.select_convs)

end
