(* ===== verification/Logging.thy ===== *)
theory Logging
  imports App ClientTest
begin

text \<open>
  The console output of the program. Every \<open>console.log\<close> and \<open>console.error\<close> call of
  \<open>src/server.js\<close>, of the README variant's upload handler and of \<open>src/test-api.js\<close> is
  an output line: the stream it goes to and the arguments it was given (a string, a
  request value, which Node prints with \<open>util.inspect\<close>, an \<open>Error\<close> object, a JSON value
  or a number). Each logged operation is written the way the source interleaves its
  logging with its work and returns the result of the unlogged model together with the
  lines it printed, in order. The lemmas show that logging changes no response and no
  bucket, and what each branch prints.
\<close>

section \<open>Output lines\<close>

datatype stream = Stdout | Stderr

text \<open>Arguments of a console call. \<open>LValue None\<close> is \<open>undefined\<close>; \<open>LError m\<close> is an
  \<open>Error\<close> object with message \<open>m\<close> (printed with its stack).\<close>

datatype log_arg = LText string | LValue "param option" | LError string | LJson "json option"
  | LNumber nat

type_synonym log_line = "stream \<times> log_arg list"

section \<open>Start-up and listen (src/server.js lines 14-20 and 173-175)\<close>

definition load_config_logged :: "(string \<rightharpoonup> string) \<Rightarrow> (key \<Rightarrow> nat \<Rightarrow> string) \<Rightarrow>
    (string + config) \<times> log_line list" where
  "load_config_logged env signer =
     (case first_missing env required_env of
        Some k \<Rightarrow> (load_config env signer, [(Stderr, [LText (''Missing required env: '' @ k)])])
      | None \<Rightarrow> (load_config env signer, []))"

definition listen_log :: "(string \<rightharpoonup> string) \<Rightarrow> log_line" where
  "listen_log env = (Stdout, [LText (''Profile pic API running on http://localhost:'' @ listen_port env)])"

section \<open>The upload handler (src/server.js lines 64-118)\<close>

text \<open>\<open>shopifyCustomerId = (rawUserId || '').toString()\<close>\<close>

definition shopify_customer_id :: "param option \<Rightarrow> string" where
  "shopify_customer_id raw = js_to_string (js_or_else raw (PStr []))"

definition upload_failed_line :: "param option \<Rightarrow> string \<Rightarrow> log_line" where
  "upload_failed_line raw msg =
     (Stderr, [LText ''[Profile Pic] Upload failed. Shopify customer ID:'', LValue raw, LText msg])"

definition upload_handler_logged :: "config \<Rightarrow> upload_env \<Rightarrow> (string \<rightharpoonup> param) \<Rightarrow>
    (string \<rightharpoonup> param) \<Rightarrow> upload_file option \<Rightarrow> bucket \<Rightarrow> (response \<times> bucket) \<times> log_line list" where
  "upload_handler_logged cfg env query body file b =
     (case file of
        None \<Rightarrow> ((error_response 400 no_file_message [], b), [])
      | Some f \<Rightarrow>
          (let raw = raw_user_id query body;
               uid = user_id_a raw (uuid env);
               shop = shopify_customer_id raw;
               started = (Stdout, [LText (''[Profile Pic] Uploading... Shopify customer ID: '' @
                                          (if shop = [] then ''(none)'' else shop))]);
               ext = ext_a (originalname f);
               k = key_a (profile_prefix cfg) uid ext;
               ct = resolve_mime (mimetype f) ext
           in case s3_put (put_fault env) (now env) k (buffer f) ct cache_control_a b of
                Inl msg \<Rightarrow> ((error_response 500 msg ''Upload failed'', b),
                             [started, upload_failed_line raw msg])
              | Inr b' \<Rightarrow>
                  (case resolve_url cfg k of
                     Inl msg \<Rightarrow> ((error_response 500 msg ''Upload failed'', b'),
                                  [started, upload_failed_line raw msg])
                   | Inr url \<Rightarrow>
                       ((created_response url k, b'),
                        [started,
                         (Stdout, [LText (''[Profile Pic] Upload success. Shopify customer ID: '' @
                                          (if shop = [] then uid else shop) @ '', key: '' @ k)]),
                         (Stdout, [LText (''[Profile Pic] Image URL: '' @ url)])]))))"

section \<open>The README variant's upload handler (src/README.md lines 154-213)\<close>

definition upload_handler_b_logged :: "config \<Rightarrow> upload_env \<Rightarrow> (string \<rightharpoonup> param) \<Rightarrow>
    (string \<rightharpoonup> param) \<Rightarrow> upload_file option \<Rightarrow> bucket \<Rightarrow> (response \<times> bucket) \<times> log_line list" where
  "upload_handler_b_logged cfg env query body file b =
     (case file of
        None \<Rightarrow> ((error_response 400 no_file_message [], b), [])
      | Some f \<Rightarrow>
          (let raw = raw_user_id query body in
           if \<not> js_truthy raw then ((error_response 400 missing_user_message [], b), [])
           else
             (let uid = user_id_b (js_or_else raw (PStr []));
                  shown = js_to_string (js_or_else raw (PStr []));
                  started = (Stdout, [LText (''[Profile Pic] Uploading... Shopify customer ID: '' @ shown)]);
                  k = key_b (profile_prefix cfg) uid;
                  ext = ext_b (originalname f);
                  ct = resolve_mime (mimetype f) ext
              in case s3_put (put_fault env) (now env) k (buffer f) ct cache_control_b b of
                   Inl msg \<Rightarrow> ((error_response 500 msg ''Upload failed'', b),
                                [started, upload_failed_line raw msg])
                 | Inr b' \<Rightarrow>
                     (case resolve_url cfg k of
                        Inl msg \<Rightarrow> ((error_response 500 msg ''Upload failed'', b'),
                                     [started, upload_failed_line raw msg])
                      | Inr url \<Rightarrow>
                          ((created_response url k, b'),
                           [started,
                            (Stdout, [LText (''[Profile Pic] Upload success. Shopify customer ID: '' @
                                             shown @ '', key: '' @ k)]),
                            (Stdout, [LText (''[Profile Pic] Image URL: '' @ url)])])))))"

section \<open>Listing and lookup (src/server.js lines 122-159)\<close>

definition list_profile_pics_logged :: "config \<Rightarrow> string option \<Rightarrow> bucket \<Rightarrow>
    response \<times> log_line list" where
  "list_profile_pics_logged cfg fault b =
     (case s3_list fault (profile_prefix cfg @ ''/'') 100 b of
        Inl msg \<Rightarrow> (list_profile_pics cfg fault b, [(Stderr, [LText ''List error:'', LError msg])])
      | Inr objs \<Rightarrow> (list_profile_pics cfg fault b, []))"

definition get_profile_pic_logged :: "config \<Rightarrow> string \<Rightarrow> response \<times> log_line list" where
  "get_profile_pic_logged cfg param =
     (case decode_uri_component param of
        None \<Rightarrow> (error_response 500 uri_malformed_message ''Failed to get URL'',
                 [(Stderr, [LText ''Get URL error:'', LError uri_malformed_message])])
      | Some k \<Rightarrow>
          (case presign (s3 cfg) k lookup_ttl of
             Inl msg \<Rightarrow> (error_response 500 msg ''Failed to get URL'',
                          [(Stderr, [LText ''Get URL error:'', LError msg])])
           | Inr url \<Rightarrow> (url_response url, [])))"

section \<open>The client script (src/test-api.js)\<close>

definition test_health_logged :: "response option \<Rightarrow> (string + unit) \<times> log_line list" where
  "test_health_logged res =
     (let started = (Stdout, [LText ''1. Testing GET /health ...'']) in
      case res of
        None \<Rightarrow> (Inl fetch_failed_message, [started])
      | Some r \<Rightarrow>
          if json_truthy (json_get (resp_body r) ''ok'')
          then (Inr (), [started, (Stdout, [LText ''   OK:'', LJson (Some (resp_body r))])])
          else (Inl (''Health check failed: '' @ json_stringify (resp_body r)), [started]))"

definition test_upload_logged :: "response option \<Rightarrow> (string + unit) \<times> log_line list" where
  "test_upload_logged res =
     (let started = (Stdout, [LText ''2. Testing POST /api/upload/profile-pic (fake image) ...'']) in
      case res of
        None \<Rightarrow> (Inl fetch_failed_message, [started])
      | Some r \<Rightarrow>
          if res_ok (resp_status r) \<and> json_truthy (json_get (resp_body r) ''url'')
          then (Inr (), [started, (Stdout, [LText ''   OK: Upload succeeded'']),
                         (Stdout, [LText ''   URL:'', LJson (json_get (resp_body r) ''url'')]),
                         (Stdout, [LText ''   Key:'', LJson (json_get (resp_body r) ''key'')])])
          else (Inl ''Upload test failed'',
                [started, (Stderr, [LText ''   FAILED. Response status:'', LNumber (resp_status r)]),
                 (Stderr, [LText ''   Body:'', LJson (Some (resp_body r))])]))"

text \<open>The driver's \<open>catch\<close>: the error's message, and the hint when it mentions
  \<open>fetch\<close>; then \<open>process.exit(1)\<close>.\<close>

definition client_error_lines :: "string \<Rightarrow> log_line list" where
  "client_error_lines msg =
     (Stderr, [LText (CHR 0x0A # ''Error:''), LText msg]) #
     (if js_includes msg ''fetch''
      then [(Stderr, [LText ''Is the server running? Start it with: npm start''])] else [])"

definition client_run_logged :: "config \<Rightarrow> upload_env \<Rightarrow> nat \<Rightarrow> bucket \<Rightarrow>
    ((string + unit) \<times> bucket) \<times> log_line list" where
  "client_run_logged cfg env now_ms b =
     (case test_health_logged (Some health) of
        (Inl msg, out) \<Rightarrow> ((Inl msg, b), out @ client_error_lines msg)
      | (Inr _, out) \<Rightarrow>
          (let (resp, b') = post_upload cfg env (test_upload_request now_ms) b
           in case test_upload_logged (Some resp) of
                (Inl msg, out') \<Rightarrow> ((Inl msg, b'), out @ out' @ client_error_lines msg)
              | (Inr u, out') \<Rightarrow>
                  ((Inr u, b'), out @ out' @ [(Stdout, [LText (CHR 0x0A # ''All checks passed. API is working.'')])])))"

section \<open>Lemmas: logging changes no result\<close>

lemma load_config_logged_result: "fst (load_config_logged env sg) = load_config env sg"
  by (simp add: load_config_logged_def split: option.split)

lemma upload_handler_logged_result:
  "fst (upload_handler_logged cfg env q body file b) = upload_handler cfg env q body file b"
  by (simp add: upload_handler_logged_def upload_handler_def store_and_respond_def Let_def
      split: option.split sum.split)

lemma upload_handler_b_logged_result:
  "fst (upload_handler_b_logged cfg env q body file b) = upload_handler_b cfg env q body file b"
  by (simp add: upload_handler_b_logged_def upload_handler_b_def store_and_respond_def Let_def
      split: option.split sum.split)

lemma list_profile_pics_logged_result:
  "fst (list_profile_pics_logged cfg fault b) = list_profile_pics cfg fault b"
  by (simp add: list_profile_pics_logged_def split: sum.split)

lemma get_profile_pic_logged_result:
  "fst (get_profile_pic_logged cfg p) = get_profile_pic cfg p"
  by (simp add: get_profile_pic_logged_def get_profile_pic_def split: option.split sum.split)

lemma test_health_logged_result: "fst (test_health_logged res) = test_health res"
  by (simp add: test_health_logged_def test_health_def Let_def split: option.split)

lemma test_upload_logged_result: "fst (test_upload_logged res) = test_upload res"
  by (simp add: test_upload_logged_def test_upload_def Let_def split: option.split)

lemma test_health_logged_health:
  "test_health_logged (Some health) =
     (Inr (), [(Stdout, [LText ''1. Testing GET /health ...'']), (Stdout, [LText ''   OK:'', LJson (Some (resp_body health))])])"
  by (simp add: test_health_logged_def health_def)

lemma client_run_logged_result: "fst (client_run_logged cfg env t b) = client_run cfg env t b"
proof -
  obtain resp b' where p: "post_upload cfg env (test_upload_request t) b = (resp, b')" by fastforce
  obtain out where u: "test_upload_logged (Some resp) = (test_upload (Some resp), out)"
    using test_upload_logged_result [of "Some resp"] by (metis prod.collapse)
  show ?thesis
    by (cases "test_upload (Some resp)")
       (simp_all add: client_run_logged_def client_run_def test_health_logged_health health_passes p u)
qed

section \<open>Properties\<close>

text \<open>C17. Logging does not change what the upload handler answers or stores; a
  successful upload prints the URL it returns (with no public base URL, a presigned URL
  valid for six days, which grants read access to the object to whoever reads the
  log); a failed one prints the raw identifier chain, unsanitised, and the error's
  message to stderr.\<close>

theorem upload_logging:
  "fst (upload_handler_logged cfg env q body file b) = upload_handler cfg env q body file b \<and>
   (\<forall>url k. fst (upload_handler cfg env q body file b) = created_response url k \<longrightarrow>
      (Stdout, [LText (''[Profile Pic] Image URL: '' @ url)]) \<in> set (snd (upload_handler_logged cfg env q body file b))) \<and>
   (resp_status (fst (upload_handler cfg env q body file b)) = 500 \<longrightarrow>
      (\<exists>msg. upload_failed_line (raw_user_id q body) msg \<in> set (snd (upload_handler_logged cfg env q body file b))))"
  by (auto simp: upload_handler_logged_def upload_handler_def store_and_respond_def Let_def
      created_response_def error_response_def split: option.split sum.split)

theorem upload_logging_witness:
  "(Stdout, [LText ''[Profile Pic] Image URL: https://pics.s3.eu-west-1.amazonaws.com/profile-pics/gid%3A--shopify-Customer-1.jpg?X-Amz-Expires=518400&X-Amz-Signature=sig''])
     \<in> set (snd (upload_handler_logged
      \<lparr>s3 = \<lparr>region = ''eu-west-1'', bucket_name = ''pics'', signature = (\<lambda>k e. ''sig'')\<rparr>,
       profile_prefix = ''profile-pics'', public_base_url = None\<rparr>
      \<lparr>uuid = ''u'', put_fault = None, now = 7\<rparr>
      (Map.empty(''userId'' \<mapsto> PStr ''gid://shopify/Customer/1'')) Map.empty
      (Some \<lparr>fieldname = ''file'', originalname = ''me.jpg'', mimetype = ''image/jpeg'', buffer = [1, 2]\<rparr>)
      Mapping.empty)) \<and>
   (\<exists>msg. upload_failed_line (Some (PStr ''gid://shopify/Customer/1'')) msg
     \<in> set (snd (upload_handler_logged
      \<lparr>s3 = \<lparr>region = ''eu-west-1'', bucket_name = ''pics'', signature = (\<lambda>k e. ''sig'')\<rparr>,
       profile_prefix = ''profile-pics'', public_base_url = None\<rparr>
      \<lparr>uuid = ''u'', put_fault = Some ''AccessDenied'', now = 7\<rparr>
      (Map.empty(''userId'' \<mapsto> PStr ''gid://shopify/Customer/1'')) Map.empty
      (Some \<lparr>fieldname = ''file'', originalname = ''me.jpg'', mimetype = ''image/jpeg'', buffer = [1, 2]\<rparr>)
      Mapping.empty)))"
proof -
  let ?c = "\<lparr>s3 = \<lparr>region = ''eu-west-1'', bucket_name = ''pics'', signature = (\<lambda>(k::key) (e::nat). ''sig'')\<rparr>,
       profile_prefix = ''profile-pics'', public_base_url = None\<rparr>"
  let ?q = "Map.empty(''userId'' \<mapsto> PStr ''gid://shopify/Customer/1'')"
  let ?f = "\<lparr>fieldname = ''file'', originalname = ''me.jpg'', mimetype = ''image/jpeg'', buffer = [1, 2::byte]\<rparr>"
  let ?k = "''profile-pics/gid:--shopify-Customer-1.jpg''"
  let ?url = "''https://pics.s3.eu-west-1.amazonaws.com/profile-pics/gid%3A--shopify-Customer-1.jpg?X-Amz-Expires=518400&X-Amz-Signature=sig''"
  have n: "nat_str 518400 = ''518400''" by (simp add: nat_str.simps char_of_eq_iff)
  have k: "key_a ''profile-pics'' (user_id_a (raw_user_id ?q Map.empty) ''u'') (ext_a ''me.jpg'') = ?k"
    by (simp add: js_simps raw_user_id_def user_id_a_def key_a_def)
  have u: "resolve_url ?c ?k = Inr ?url"
    by (simp add: resolve_url_def presign_def upload_url_ttl_def max_presign_expiry_def n
        uri_escape_path_def uri_unreserved_def hex_digit_def char_of_eq_iff)
  have ok: "fst (upload_handler ?c \<lparr>uuid = ''u'', put_fault = None, now = 7\<rparr> ?q Map.empty (Some ?f) Mapping.empty)
            = created_response ?url ?k"
    using k u by (simp add: upload_handler_def store_and_respond_def s3_put_def Let_def)
  have bad: "resp_status (fst (upload_handler ?c \<lparr>uuid = ''u'', put_fault = Some ''AccessDenied'', now = 7\<rparr>
               ?q Map.empty (Some ?f) Mapping.empty)) = 500"
    by (simp add: upload_handler_def store_and_respond_def s3_put_def Let_def error_response_def)
  have r: "raw_user_id ?q Map.empty = Some (PStr ''gid://shopify/Customer/1'')"
    by (simp add: raw_user_id_def js_or_def)
  have l1: "\<forall>url k. fst (upload_handler ?c \<lparr>uuid = ''u'', put_fault = None, now = 7\<rparr> ?q Map.empty (Some ?f) Mapping.empty)
      = created_response url k \<longrightarrow>
      (Stdout, [LText (''[Profile Pic] Image URL: '' @ url)])
        \<in> set (snd (upload_handler_logged ?c \<lparr>uuid = ''u'', put_fault = None, now = 7\<rparr> ?q Map.empty (Some ?f) Mapping.empty))"
    using upload_logging [of ?c "\<lparr>uuid = ''u'', put_fault = None, now = 7\<rparr>" ?q Map.empty "Some ?f" Mapping.empty]
    by blast
  have l2: "resp_status (fst (upload_handler ?c \<lparr>uuid = ''u'', put_fault = Some ''AccessDenied'', now = 7\<rparr>
               ?q Map.empty (Some ?f) Mapping.empty)) = 500 \<longrightarrow>
      (\<exists>msg. upload_failed_line (raw_user_id ?q Map.empty) msg
        \<in> set (snd (upload_handler_logged ?c \<lparr>uuid = ''u'', put_fault = Some ''AccessDenied'', now = 7\<rparr>
               ?q Map.empty (Some ?f) Mapping.empty)))"
    using upload_logging [of ?c "\<lparr>uuid = ''u'', put_fault = Some ''AccessDenied'', now = 7\<rparr>" ?q Map.empty "Some ?f" Mapping.empty]
    by blast
  show ?thesis
    using l1 [rule_format, OF ok] l2 [rule_format, OF bad] r by simp
qed

end
