(* ===== verification/Spec2Isabelle.thy ===== *)
theory Spec2Isabelle
  imports Server Lookup Uuid ProfileStore ClientTest App Logging
begin

text \<open>
  Verification development of the profile-picture upload service of this repository:
  src/server.js (the Express application), the second server variant that
  src/README.md embeds after its text (lines 92-270, a variant that requires an
  identifier and keeps no extension), and the client script src/test-api.js. The
  Express framework (version 4: path-to-regexp 0.1 routes, \<open>Router.handle\<close>), the
  \<open>cors\<close>, body-parser, multer and AWS SDK packages and the JavaScript built-ins are not in
  src/; the parts of them the program relies on are modelled from their documented
  behaviour.

  \<^bold>\<open>The program.\<close> An HTTP gateway: \<open>POST /api/upload/profile-pic\<close> accepts one image
  in a multipart body, multer checks it (type by MIME or extension, at most 5 MiB), the
  handler derives the object key from the client's identifier (or a \<open>randomUUID()\<close>) and
  the file's extension, stores the bytes in an S3 bucket and answers with a public or
  presigned URL; \<open>GET /api/profile-pics\<close> lists the stored keys,
  \<open>GET /api/profile-pic/:key\<close> signs a URL for any key, an error middleware turns
  multer's errors into responses. In front of the routes, \<open>cors({origin: true})\<close>
  answers preflights and reflects the caller's origin, and \<open>express.json()\<close> parses JSON
  bodies; a request no route takes gets Express's 404. The client script checks
  \<open>/health\<close> and one upload.

  \<^bold>\<open>Theories.\<close>
  \<^item> \<open>Prelude\<close>: type names (bytes, keys, MIME types), the rule collections
    \<open>js_simps\<close> (evaluation of the built-ins, used by the witnesses) and
    \<open>handler_simps\<close>, generic list facts.
  \<^item> \<open>JsRuntime\<close>: request parameter values (\<open>param\<close>: string, array, object) with
    JavaScript truthiness, \<open>||\<close> and \<open>toString\<close>; \<open>toLowerCase\<close>, the two
    \<open>replace\<close> calls and \<open>includes\<close> of the handlers.
  \<^item> \<open>NodePath\<close>: Node's \<open>path.extname\<close> as the index loop of lib/path.js
    (\<open>extname_loop\<close>), proved equal to a declarative reference (last path component,
    cut at its last dot; \<open>node_extname_eq_spec\<close>).
  \<^item> \<open>UriCodec\<close>: \<open>decodeURIComponent\<close> as the ECMAScript \<open>Decode\<close> operation over UTF-8
    byte strings (a \<open>function\<close> with a length measure; \<open>None\<close> is \<open>URIError\<close>) and
    \<open>encodeURIComponent\<close>, with their round trip on well-formed UTF-8
    (\<open>decode_encode_utf8\<close>) and the fact that decoding fixes a string exactly when it has
    no \<open>%\<close>.
  \<^item> \<open>Uuid\<close>: Node's \<open>randomUUID\<close> serialisation over 16 random bytes (\<open>8 word\<close>, the
    version and variant bits set with \<open>AND\<close>/\<open>OR\<close>): the v4 text format, no slash,
    and injectivity on the 122 random bits (\<open>serialize_uuid_eq_iff\<close>).
  \<^item> \<open>Validator\<close>: multer's file object, \<open>fileFilter\<close> (\<open>file_filter\<close>), the size limit
    (\<open>validate_file\<close>) and \<open>upload.single('file')\<close> over the multipart parts
    (\<open>multer_single\<close>); src/server.js lines 33-51.
  \<^item> \<open>KeyDeriver\<close>: the identifier chain (\<open>raw_user_id\<close>), its sanitising, the key and
    content type of both variants (\<open>key_a\<close>, \<open>ext_a\<close> for server.js lines 70-80;
    \<open>key_b\<close>, \<open>ext_b\<close> for README.md lines 160-174), the cache policies.
  \<^item> \<open>ObjectStore\<close>: the S3 contract the handlers rely on: a bucket as a finite map
    (\<open>Mapping\<close>), PutObject, ListObjectsV2 in key order with a maximum, presigning with
    the SDK's refusal of an empty key and the one-week limit of signature version 4. Refusals of the service are fault
    arguments (\<open>Some msg\<close>).
  \<^item> \<open>Server\<close>: configuration at start-up (\<open>load_config\<close>), JSON responses, the handlers
    (\<open>upload_handler\<close>, \<open>upload_handler_b\<close>, \<open>list_profile_pics\<close>, \<open>health\<close>), the error
    middleware, the upload routes (\<open>post_upload\<close>, \<open>post_upload_b\<close>: multer, then the
    middleware or the handler) and the service as a step relation on the bucket
    (\<open>server_step\<close>, \<open>reachable\<close>) with its invariant \<open>bucket_ok\<close>.
  \<^item> \<open>Lookup\<close>: the URL-by-key route, lines 146-159, behind Express's parameter
    decoding (\<open>get_profile_pic_route\<close>).
  \<^item> \<open>ProfileStore\<close>: the abstract contract (keys to bytes and content type; one step
    stores an image of at most 5 MiB under the prefix) and the abstraction
    \<open>abs_bucket\<close> of a bucket, with the simulation lemmas of both upload routes.
  \<^item> \<open>ClientTest\<close>: src/test-api.js (\<open>test_health\<close>, \<open>test_upload\<close>, the driver
    \<open>client_run\<close> against the server model) and the \<open>JSON.stringify\<close> of its message.
  \<^item> \<open>App\<close>: the whole Express application of src/server.js lines 10 and 53-171: HTTP
    requests (method, raw path, query, headers, body) and responses (status, headers,
    payload); \<open>cors\<close> (\<open>cors_origin\<close>, \<open>preflight\<close>), \<open>express.json\<close> (\<open>json_layer\<close>: the
    100 KiB limit, strict mode, \<open>JSON.parse\<close>), route matching (\<open>match_exact\<close>,
    \<open>match_rest\<close>: case-insensitive, one trailing slash), the layer stack \<open>app_stack\<close> in
    registration order, Express's \<open>next()\<close> loop \<open>router_next\<close> (a \<open>function\<close> over the
    stack index, terminating by the number of layers left), the final handler (404),
    \<open>app_handle\<close> for one request and \<open>app_run\<close> for a sequence.
  \<^item> \<open>Logging\<close>: the console output of src/server.js, the README variant's upload
    handler and src/test-api.js. Each logged operation (\<open>load_config_logged\<close>,
    \<open>upload_handler_logged\<close>, \<open>upload_handler_b_logged\<close>, \<open>list_profile_pics_logged\<close>,
    \<open>get_profile_pic_logged\<close>, \<open>test_health_logged\<close>, \<open>test_upload_logged\<close>,
    \<open>client_run_logged\<close>) interleaves its \<open>console.log\<close>/\<open>console.error\<close> calls with
    its work as the source does and returns the unlogged result paired with the lines
    printed (stream and arguments), in order.
  \<^item> This theory: properties that span the key deriver, the UUID and the upload route.

  \<^bold>\<open>State and effects.\<close> The only state shared between requests is the bucket; each
  handler takes it and returns it. Randomness (the bytes behind \<open>randomUUID\<close>), the
  service's refusals and the clock are inputs of the handler (\<open>upload_env\<close>), so every
  run is a function of them and the step relation ranges over all of them; in \<open>App\<close>
  the engine's \<open>JSON.parse\<close> verdict and message and the listing's refusal are inputs
  too (\<open>app_env\<close>). No loop of the program can run forever: \<open>extname_loop\<close> is
  structural on the index, the decoder terminates by the length of its input, the
  router by the layers left after its index, so no fuel is needed.

  \<^bold>\<open>What is proved.\<close>
  \<^item> Validation (C1-C5): the gate admits exactly the image types and extensions, in any
    case, up to 5 MiB (5242880 accepted, 5242881 refused), refuses the rest, and answers
    a file under another field name with multer's unexpected-field error.
  \<^item> The service (C6-C10, C15-C16, C18-C20): the bucket invariant of every reachable
    state; the response and bucket of a successful upload, of a refused one and of a
    refused PutObject (nothing stored); progress (C9: from every reachable state an
    accepted upload with a working store leads to a reachable state holding the file
    under its key); the README variant's identifier requirement and last-write-wins;
    the upload/list round trip; the public base URL of upload and listing; start-up
    configuration through dotenv (C20: the process environment wins over .env, later
    .env lines win, start-up fails exactly when a required variable ends up unset or
    empty).
  \<^item> Logging (C17): logging changes no response and no bucket; a successful upload
    prints the URL it returns, a failed one prints the failure line with the raw
    identifier.
  \<^item> Keys (C11-C14, C23): \<open>ext_a\<close> against the reference extension; the findings below;
    anonymous uploads get \<open>prefix/<uuid><ext>\<close> and collide only on equal random fields.
  \<^item> Lookup (C21-C22): an encoded UTF-8 key without \<open>%\<close> answers its 3600-second presigned
    URL; a key with \<open>%\<close> is decoded twice and never looked up as itself; a path that does
    not decode gets the middleware's 500, or 400 when it contains "Only images" (C31).
  \<^item> Refinement (C24-C25): both upload routes refine the abstract profile store, the
    server.js service on all reachable states by rule induction.
  \<^item> The client script (C26) succeeds exactly when the storage accepts the write, and
    reaches the server only when \<open>PORT\<close> is unset, empty or 4000 (C29).
  \<^item> Uploads are all or nothing: a changed bucket means 201 and a 201 means one key was
    written (C27); the README variant writes at the bare prefix for the identifier
    \<open>['']\<close> (C28).
  \<^item> The application (C32-C40): through CORS, the JSON parser and the router, the
    upload path answers exactly as the upload route (a non-multipart body as no file),
    the lookup path exactly as the lookup route; a body-parser error goes to the error
    middleware whatever the route (so 413 becomes 500); a request no route takes gets
    404; every OPTIONS gets the 204 preflight; every response reflects the caller's
    origin; every response is well-formed (status among 200, 201, 204, 400, 404, 500,
    distinct header names, a content type with every payload); the router loop
    terminates; any sequence of requests keeps the bucket invariant and refines the
    abstract store.

  \<^bold>\<open>Findings.\<close> The key depends on the file's extension (the same identifier with
  .png and .jpg leaves two objects); sanitising slashes maps distinct identifiers to one
  key; an upper-case .PNG sent without a MIME type is stored as image/jpeg; an
  unexpected field name answers 500; the environment variable names differ from the
  specification's; the README variant does not lower-case its extension; a public base
  URL of "/" gives the upload a URL and the listing null; the lookup route decodes the key
  twice, so keys with \<open>%\<close> fail or resolve to another key; the README variant accepts
  an array identifier that stringifies to the empty string; the client script assumes
  port 4000; any web origin may call the API (the README asks to restrict CORS in
  production); a JSON body over 100 KiB, or malformed, answers 500; a path under
  \<open>/api/profile-pic/\<close> that does not decode answers 500 even for a method with no route
  there; \<open>GET /api/profile-pic/\<close> answers 500 (empty key); routes match in any letter
  case and with one trailing slash; a successful upload prints its URL, presigned and
  valid for six days, to standard output; the failure line prints the raw identifier
  (an array or object as Node inspects it), not the sanitised one; a required
  variable exported empty in the shell is not taken from .env (dotenv never overrides),
  so the server exits although .env sets it.

  \<^bold>\<open>Characters.\<close> Strings are byte lists; the model is exact on ASCII, which every
  comparison in the handlers is against. \<open>toLowerCase\<close> is modelled on ASCII letters;
  URI decoding works on UTF-8 bytes, the form in which S3 stores keys.

  \<^bold>\<open>Not modelled.\<close> Express's query-string parser (the query is an input, already
  parsed), ETag, Content-Length and conditional GET (304), the HTML page and escaping
  of the 404 message, body-parser's charset and content-encoding checks, the \<open>vary\<close>
  package's check for a field already present (the stack never adds one twice); the
  network; how \<open>util.format\<close> renders the arguments of a console line (the line keeps
  the arguments themselves); the syntax of the .env file (dotenv's parser is taken to
  yield its key-value pairs in file order); the module loading of lines 2-8;
  \<open>app.listen\<close> beyond the port and the start-up line (\<open>listen_log\<close>); multer's handling
  of bracketed field names (the field name is compared as a whole string, as
  \<open>upload.single\<close> does for a non-array field); concurrent requests
  (handled one after another, as in \<open>server_step\<close>); the randomness source itself (its bytes are an input); the probability of a
  UUID collision (the model states injectivity, not a distribution).
\<close>

section \<open>Anonymous uploads\<close>

lemma user_id_a_anonymous: "\<not> js_truthy raw \<Longrightarrow> user_id_a raw u = replace_slashes u"
  by (cases raw) (auto simp: user_id_a_def js_or_else_def)

text \<open>C23. An upload without a user identifier stores its file under the prefix, a slash,
  the \<open>randomUUID()\<close> text unchanged (it has no slash to replace) and the extension; two
  such uploads write the same key exactly when their random fields and their extensions
  agree, so anonymous uploads with different random values never overwrite each other.\<close>

theorem anonymous_upload_keys:
  assumes m1: "multer_single ''file'' (req_parts r1) Map.empty None = Inr (body1, Some f1)"
    and m2: "multer_single ''file'' (req_parts r2) Map.empty None = Inr (body2, Some f2)"
    and a1: "\<not> js_truthy (raw_user_id (req_query r1) body1)"
    and a2: "\<not> js_truthy (raw_user_id (req_query r2) body2)"
    and u1: "uuid e1 = serialize_uuid rnd1" and u2: "uuid e2 = serialize_uuid rnd2"
    and l1: "length rnd1 = 16" and l2: "length rnd2 = 16"
  shows "post_upload cfg e1 r1 b =
           store_and_respond cfg e1 (profile_prefix cfg @ ''/'' @ serialize_uuid rnd1 @ ext_a (originalname f1))
             f1 (resolve_mime (mimetype f1) (ext_a (originalname f1))) cache_control_a b \<and>
         post_upload cfg e2 r2 b' =
           store_and_respond cfg e2 (profile_prefix cfg @ ''/'' @ serialize_uuid rnd2 @ ext_a (originalname f2))
             f2 (resolve_mime (mimetype f2) (ext_a (originalname f2))) cache_control_a b' \<and>
         (profile_prefix cfg @ ''/'' @ serialize_uuid rnd1 @ ext_a (originalname f1) =
          profile_prefix cfg @ ''/'' @ serialize_uuid rnd2 @ ext_a (originalname f2)) =
           (uuid_fields rnd1 = uuid_fields rnd2 \<and> ext_a (originalname f1) = ext_a (originalname f2))"
proof -
  have k: "post_upload cfg e r b =
             store_and_respond cfg e (profile_prefix cfg @ ''/'' @ serialize_uuid rnd @ ext_a (originalname f))
               f (resolve_mime (mimetype f) (ext_a (originalname f))) cache_control_a b"
    if "multer_single ''file'' (req_parts r) Map.empty None = Inr (body, Some f)"
      and "\<not> js_truthy (raw_user_id (req_query r) body)" and "uuid e = serialize_uuid rnd"
    for cfg e r b body f rnd
    using that by (simp add: post_upload_file user_id_a_anonymous key_a_def
        replace_slashes_id slash_not_in_serialize_uuid)
  have "(serialize_uuid rnd1 @ ext_a (originalname f1) = serialize_uuid rnd2 @ ext_a (originalname f2)) =
        (serialize_uuid rnd1 = serialize_uuid rnd2 \<and> ext_a (originalname f1) = ext_a (originalname f2))"
    by (simp add: append_eq_append_conv)
  with k [OF m1 a1 u1] k [OF m2 a2 u2] serialize_uuid_eq_iff [OF l1 l2] show ?thesis by simp
qed

theorem anonymous_upload_keys_witness:
  "post_upload
      \<lparr>s3 = \<lparr>region = ''eu-west-1'', bucket_name = ''pics'', signature = (\<lambda>k e. ''sig'')\<rparr>,
       profile_prefix = ''profile-pics'', public_base_url = None\<rparr>
      \<lparr>uuid = serialize_uuid (replicate 16 0), put_fault = None, now = 7\<rparr>
      \<lparr>req_query = Map.empty,
       req_parts = [FilePart \<lparr>fieldname = ''file'', originalname = ''a.png'',
                      mimetype = ''image/png'', buffer = [1, 2]\<rparr>]\<rparr>
      Mapping.empty
    = store_and_respond
      \<lparr>s3 = \<lparr>region = ''eu-west-1'', bucket_name = ''pics'', signature = (\<lambda>k e. ''sig'')\<rparr>,
       profile_prefix = ''profile-pics'', public_base_url = None\<rparr>
      \<lparr>uuid = serialize_uuid (replicate 16 0), put_fault = None, now = 7\<rparr>
      ''profile-pics/00000000-0000-4000-8000-000000000000.png''
      \<lparr>fieldname = ''file'', originalname = ''a.png'', mimetype = ''image/png'', buffer = [1, 2]\<rparr>
      ''image/png'' cache_control_a Mapping.empty"
proof -
  let ?f = "\<lparr>fieldname = ''file'', originalname = ''a.png'', mimetype = ''image/png'',
             buffer = [1, 2::byte]\<rparr>"
  let ?r = "\<lparr>req_query = Map.empty, req_parts = [FilePart ?f]\<rparr>"
  let ?e = "\<lparr>uuid = serialize_uuid (replicate 16 0), put_fault = None, now = 7\<rparr>"
  let ?c = "\<lparr>s3 = \<lparr>region = ''eu-west-1'', bucket_name = ''pics'', signature = (\<lambda>(k::key) (e::nat). ''sig'')\<rparr>,
             profile_prefix = ''profile-pics'', public_base_url = None\<rparr>"
  have m: "multer_single ''file'' (req_parts ?r) Map.empty None = Inr (Map.empty, Some ?f)"
    by (simp add: js_simps)
  have a: "\<not> js_truthy (raw_user_id (req_query ?r) Map.empty)"
    by (simp add: js_simps)
  have u: "uuid ?e = serialize_uuid (replicate 16 0)" by simp
  have l: "length (replicate 16 (0::byte)) = 16" by simp
  have h0: "hex_byte 0 = ''00''" and h4: "hex_byte 0x40 = ''40''" and h8: "hex_byte 0x80 = ''80''"
    by (simp_all add: hex_byte_def hex_lower_def char_of_eq_iff)
  have v: "uuid_version 0 = 0x40" "uuid_variant 0 = 0x80"
    by (simp_all add: uuid_version_def uuid_variant_def)
  have s: "serialize_uuid (replicate 16 0) = ''00000000-0000-4000-8000-000000000000''"
    by (simp add: serialize_uuid_def hex_bytes_def numeral_eq_Suc v h0 h4 h8)
  have x: "ext_a ''a.png'' = ''.png''" by (simp add: js_simps)
  have t: "resolve_mime ''image/png'' ''.png'' = ''image/png''" by (simp add: js_simps)
  from anonymous_upload_keys [where cfg = ?c and b = Mapping.empty and b' = Mapping.empty, OF m m a a u u l l]
  have "post_upload ?c ?e ?r Mapping.empty =
          store_and_respond ?c ?e (''profile-pics'' @ ''/'' @ serialize_uuid (replicate 16 0) @ ext_a ''a.png'')
            ?f (resolve_mime ''image/png'' (ext_a ''a.png'')) cache_control_a Mapping.empty"
    by simp
  then show ?thesis unfolding s x t by simp
qed

end
